theory Spec2Isabelle
  imports Complex_Main "HOL-Library.AList"
begin

section \<open>Conventions of the embedding\<close>

text \<open>
  The development embeds the sign-language animation core of Synapto
  (\<^verbatim>\<open>src/components/features/sign-3d\<close>): the pose model and its
  interpolation, the letter and word tables, the gloss resolver, the emotion
  and lip-sync engines and the playback controller of the React component.
  All definitions come first; the lemmas and theorems follow from
  the section \<open>Interpolation boundary\<close> on.

  \<^item> A JavaScript \<^verbatim>\<open>number\<close> is a \<^typ>\<open>real\<close>, and arithmetic is exact: a
    concrete value in a theorem is the exact one, from which the program's double
    differs by rounding. Where rounding decides a claim (the end points of the
    interpolation), the operations are also given as the program runs them, each
    result rounded to an IEEE double by \<open>fl\<close>. Indices and counters, which the code
    moves in steps of one, are \<^typ>\<open>int\<close>.
  \<^item> A JavaScript string is a \<^typ>\<open>string\<close>, a list of 8-bit code units read as
    Latin-1; code units beyond \<open>0xFF\<close> are outside the model.
  \<^item> An optional property (\<^verbatim>\<open>wrist?\<close>, \<^verbatim>\<open>durations?\<close>, \<^verbatim>\<open>loop?\<close>) is an
    \<^typ>\<open>'a option\<close>, \<open>None\<close> standing for \<^verbatim>\<open>undefined\<close>.
  \<^item> An object literal used as a dictionary is an association list in the order
    of the literal; \<^verbatim>\<open>Object.entries\<close> walks that order.
\<close>

section \<open>Strings\<close>

text \<open>The code units that the regular-expression class \<^verbatim>\<open>\s\<close> matches, below \<open>0x100\<close>.\<close>

definition whitespace :: string where
  "whitespace = [CHR 0x09, CHR 0x0A, CHR 0x0B, CHR 0x0C, CHR 0x0D, CHR 0x20, CHR 0xA0]"

definition isSpace :: "char \<Rightarrow> bool" where
  "isSpace c = (c \<in> set whitespace)"

definition lowerLetters :: string where
  "lowerLetters = ''abcdefghijklmnopqrstuvwxyz''"

definition upperLetters :: string where
  "upperLetters = ''ABCDEFGHIJKLMNOPQRSTUVWXYZ''"

definition latin1Upper :: string where
  "latin1Upper =
     [CHR 0xC0, CHR 0xC1, CHR 0xC2, CHR 0xC3, CHR 0xC4, CHR 0xC5, CHR 0xC6, CHR 0xC7,
      CHR 0xC8, CHR 0xC9, CHR 0xCA, CHR 0xCB, CHR 0xCC, CHR 0xCD, CHR 0xCE, CHR 0xCF,
      CHR 0xD0, CHR 0xD1, CHR 0xD2, CHR 0xD3, CHR 0xD4, CHR 0xD5, CHR 0xD6, CHR 0xD8,
      CHR 0xD9, CHR 0xDA, CHR 0xDB, CHR 0xDC, CHR 0xDD, CHR 0xDE]"

definition latin1Lower :: string where
  "latin1Lower =
     [CHR 0xE0, CHR 0xE1, CHR 0xE2, CHR 0xE3, CHR 0xE4, CHR 0xE5, CHR 0xE6, CHR 0xE7,
      CHR 0xE8, CHR 0xE9, CHR 0xEA, CHR 0xEB, CHR 0xEC, CHR 0xED, CHR 0xEE, CHR 0xEF,
      CHR 0xF0, CHR 0xF1, CHR 0xF2, CHR 0xF3, CHR 0xF4, CHR 0xF5, CHR 0xF6, CHR 0xF8,
      CHR 0xF9, CHR 0xFA, CHR 0xFB, CHR 0xFC, CHR 0xFD, CHR 0xFE]"

definition isLower :: "char \<Rightarrow> bool" where
  "isLower c = (c \<in> set lowerLetters)"

definition isUpper :: "char \<Rightarrow> bool" where
  "isUpper c = (c \<in> set upperLetters)"

text \<open>
  \<^verbatim>\<open>String.prototype.toLowerCase\<close> on Latin-1: \<open>A\<close>--\<open>Z\<close> and the accented
  capitals \<open>0xC0\<close>--\<open>0xDE\<close> (without the multiplication sign \<open>0xD7\<close>) move up by
  \<open>0x20\<close>, every other code unit stays.
\<close>

definition toLowerCaseChar :: "char \<Rightarrow> char" where
  "toLowerCaseChar c =
     (case map_of (zip (upperLetters @ latin1Upper) (lowerLetters @ latin1Lower)) c of
        Some l \<Rightarrow> l
      | None \<Rightarrow> c)"

definition toLowerCase :: "string \<Rightarrow> string" where
  "toLowerCase s = map toLowerCaseChar s"

text \<open>
  \<^verbatim>\<open>String.prototype.toUpperCase\<close>, which the code applies only to words and
  phrases made of \<open>a\<close>--\<open>z\<close> and single spaces: there it maps \<open>a\<close>--\<open>z\<close> to
  \<open>A\<close>--\<open>Z\<close> and keeps the space. Other code units are kept as they are.
\<close>

definition toUpperCaseChar :: "char \<Rightarrow> char" where
  "toUpperCaseChar c =
     (case map_of (zip lowerLetters upperLetters) c of Some u \<Rightarrow> u | None \<Rightarrow> c)"

definition toUpperCase :: "string \<Rightarrow> string" where
  "toUpperCase s = map toUpperCaseChar s"

text \<open>
  \<^verbatim>\<open>s.split(/\s+/)\<close>: every maximal run of white space is one separator. The
  flag says that the scan is inside such a run; \<open>cur\<close> is the piece being read.
  The empty string gives one empty piece, and white space at either end gives an
  empty piece there, as in JavaScript.
\<close>

fun splitRuns :: "bool \<Rightarrow> string \<Rightarrow> string \<Rightarrow> string list" where
  "splitRuns inRun cur [] = [cur]"
| "splitRuns inRun cur (c # cs) =
     (if isSpace c then (if inRun then splitRuns True cur cs else cur # splitRuns True [] cs)
      else splitRuns False (cur @ [c]) cs)"

definition splitWhitespace :: "string \<Rightarrow> string list" where
  "splitWhitespace s = splitRuns False [] s"

text \<open>\<^verbatim>\<open>(text.match(/c/g) || []).length\<close> for a single character \<open>c\<close>.\<close>

definition countChar :: "char \<Rightarrow> string \<Rightarrow> nat" where
  "countChar c s = length (filter (\<lambda>d. d = c) s)"

section \<open>Pose model (\<^verbatim>\<open>sign-poses.ts\<close>)\<close>

text \<open>
  \<^verbatim>\<open>FingerPose\<close> nests three one- or two-field objects; the record is flat and
  names each leaf by its path: \<^verbatim>\<open>mcp.curl\<close> is \<open>mcp_curl\<close>.
\<close>

record FingerPose =
  mcp_curl :: real
  mcp_spread :: real
  pip_curl :: real
  dip_curl :: real

record Wrist =
  pitch :: real
  yaw :: real
  roll :: real

record HandPose =
  thumb :: FingerPose
  index :: FingerPose
  middle :: FingerPose
  ring :: FingerPose
  pinky :: FingerPose
  wrist :: "Wrist option"

datatype AnimationType = Static | Motion

text \<open>
  \<^verbatim>\<open>SignAnimation\<close>. Its free-text \<^verbatim>\<open>description\<close> is display text that no
  function reads; it is left out. \<^verbatim>\<open>name\<close> and \<^verbatim>\<open>type\<close> carry a prefix.
\<close>

record SignAnimation =
  anim_name :: string
  anim_type :: AnimationType
  category :: string
  poses :: "HandPose list"
  durations :: "real list option"
  loop :: "bool option"

datatype SignLanguageMode = ASL | ISL

text \<open>
  \<^verbatim>\<open>const lerp = (a, b) => a + (b - a) * t\<close>, with the captured \<open>t\<close> made a
  parameter, in exact arithmetic.
\<close>

definition lerp :: "real \<Rightarrow> real \<Rightarrow> real \<Rightarrow> real" where
  "lerp t a b = a + (b - a) * t"

subsection \<open>Double-precision arithmetic\<close>

text \<open>
  A JavaScript number is an IEEE 754 double: every operation returns the double
  nearest to the exact result, a tie going to the even significand. \<open>fl\<close> is that
  rounding on the reals. \<open>binade x\<close> is the exponent of \<open>x\<close> (not below that of the
  subnormal numbers), \<open>quantum x\<close> the spacing of the doubles around \<open>x\<close>.
  Overflow to infinity, NaN and the sign of zero are not modelled.
\<close>

definition binade :: "real \<Rightarrow> int" where
  "binade x = max \<lfloor>log 2 \<bar>x\<bar>\<rfloor> (- 1022)"

definition quantum :: "real \<Rightarrow> real" where
  "quantum x = 2 powi (binade x - 52)"

definition roundHalfEven :: "real \<Rightarrow> int" where
  "roundHalfEven y =
     (let f = \<lfloor>y\<rfloor> in
      if y - of_int f < 1 / 2 then f
      else if y - of_int f > 1 / 2 then f + 1
      else if even f then f else f + 1)"

definition fl :: "real \<Rightarrow> real" where
  "fl x = (if x = 0 then 0 else of_int (roundHalfEven (x / quantum x)) * quantum x)"

definition isDouble :: "real \<Rightarrow> bool" where
  "isDouble x = (fl x = x)"

text \<open>The same \<^verbatim>\<open>lerp\<close> with every operation rounded, as the program runs it.\<close>

definition lerpD :: "real \<Rightarrow> real \<Rightarrow> real \<Rightarrow> real" where
  "lerpD t a b = fl (a + fl (fl (b - a) * t))"

subsection \<open>Interpolation\<close>

text \<open>
  \<^verbatim>\<open>interpolateFinger\<close> and the body of \<^verbatim>\<open>interpolatePose\<close>, over the function
  \<open>l\<close> that stands for the local \<^verbatim>\<open>lerp\<close>.
\<close>

definition interpolateFingerWith ::
  "(real \<Rightarrow> real \<Rightarrow> real) \<Rightarrow> FingerPose \<Rightarrow> FingerPose \<Rightarrow> FingerPose" where
  "interpolateFingerWith l fA fB =
     \<lparr> mcp_curl = l (mcp_curl fA) (mcp_curl fB),
       mcp_spread = l (mcp_spread fA) (mcp_spread fB),
       pip_curl = l (pip_curl fA) (pip_curl fB),
       dip_curl = l (dip_curl fA) (dip_curl fB) \<rparr>"

text \<open>\<^verbatim>\<open>pose.wrist?.pitch ?? 0\<close> and its two siblings: a missing wrist reads as zero.\<close>

definition wristPitch :: "HandPose \<Rightarrow> real" where
  "wristPitch p = (case wrist p of None \<Rightarrow> 0 | Some w \<Rightarrow> pitch w)"

definition wristYaw :: "HandPose \<Rightarrow> real" where
  "wristYaw p = (case wrist p of None \<Rightarrow> 0 | Some w \<Rightarrow> yaw w)"

definition wristRoll :: "HandPose \<Rightarrow> real" where
  "wristRoll p = (case wrist p of None \<Rightarrow> 0 | Some w \<Rightarrow> roll w)"

definition interpolatePoseWith ::
  "(real \<Rightarrow> real \<Rightarrow> real) \<Rightarrow> HandPose \<Rightarrow> HandPose \<Rightarrow> HandPose" where
  "interpolatePoseWith l poseA poseB =
     \<lparr> thumb = interpolateFingerWith l (thumb poseA) (thumb poseB),
       index = interpolateFingerWith l (index poseA) (index poseB),
       middle = interpolateFingerWith l (middle poseA) (middle poseB),
       ring = interpolateFingerWith l (ring poseA) (ring poseB),
       pinky = interpolateFingerWith l (pinky poseA) (pinky poseB),
       wrist = Some \<lparr> pitch = l (wristPitch poseA) (wristPitch poseB),
                      yaw = l (wristYaw poseA) (wristYaw poseB),
                      roll = l (wristRoll poseA) (wristRoll poseB) \<rparr> \<rparr>"

text \<open>\<^verbatim>\<open>interpolatePose\<close> in exact arithmetic, and as the program runs it on doubles.\<close>

definition interpolatePose :: "HandPose \<Rightarrow> HandPose \<Rightarrow> real \<Rightarrow> HandPose" where
  "interpolatePose poseA poseB t = interpolatePoseWith (lerp t) poseA poseB"

definition interpolatePoseD :: "HandPose \<Rightarrow> HandPose \<Rightarrow> real \<Rightarrow> HandPose" where
  "interpolatePoseD poseA poseB t = interpolatePoseWith (lerpD t) poseA poseB"

text \<open>The wrist of a pose as \<open>interpolatePose\<close> reads it: all-zero when absent.\<close>

definition wristOrZero :: "HandPose \<Rightarrow> Wrist" where
  "wristOrZero p = \<lparr> pitch = wristPitch p, yaw = wristYaw p, roll = wristRoll p \<rparr>"

text \<open>A pose all of whose numbers are doubles.\<close>

definition fingerIsDouble :: "FingerPose \<Rightarrow> bool" where
  "fingerIsDouble f =
     (isDouble (mcp_curl f) \<and> isDouble (mcp_spread f) \<and> isDouble (pip_curl f) \<and>
      isDouble (dip_curl f))"

definition poseIsDouble :: "HandPose \<Rightarrow> bool" where
  "poseIsDouble p =
     (fingerIsDouble (thumb p) \<and> fingerIsDouble (index p) \<and> fingerIsDouble (middle p) \<and>
      fingerIsDouble (ring p) \<and> fingerIsDouble (pinky p) \<and>
      isDouble (wristPitch p) \<and> isDouble (wristYaw p) \<and> isDouble (wristRoll p))"

text \<open>
  The pose that a literal denotes in the program: each decimal numeral stands for
  the double nearest to it.
\<close>

definition roundFinger :: "FingerPose \<Rightarrow> FingerPose" where
  "roundFinger f =
     \<lparr> mcp_curl = fl (mcp_curl f), mcp_spread = fl (mcp_spread f), pip_curl = fl (pip_curl f),
       dip_curl = fl (dip_curl f) \<rparr>"

definition roundPose :: "HandPose \<Rightarrow> HandPose" where
  "roundPose p =
     \<lparr> thumb = roundFinger (thumb p), index = roundFinger (index p),
       middle = roundFinger (middle p), ring = roundFinger (ring p),
       pinky = roundFinger (pinky p),
       wrist = (case wrist p of
                  None \<Rightarrow> None
                | Some w \<Rightarrow> Some \<lparr> pitch = fl (pitch w), yaw = fl (yaw w), roll = fl (roll w) \<rparr>) \<rparr>"

section \<open>Letter and word tables (\<^verbatim>\<open>sign-poses.ts\<close>)\<close>

text \<open>
  The finger shorthands. Each takes the lateral spread; a call without an argument
  uses the default \<^verbatim>\<open>spread = 0\<close>, written out below as \<open>0\<close>.
\<close>

definition curled :: "real \<Rightarrow> FingerPose" where
  "curled spread = \<lparr> mcp_curl = 1.5, mcp_spread = spread, pip_curl = 1.5, dip_curl = 1.2 \<rparr>"

definition extended :: "real \<Rightarrow> FingerPose" where
  "extended spread = \<lparr> mcp_curl = 0, mcp_spread = spread, pip_curl = 0, dip_curl = 0 \<rparr>"

definition bent :: "real \<Rightarrow> FingerPose" where
  "bent spread = \<lparr> mcp_curl = 1.2, mcp_spread = spread, pip_curl = 0.6, dip_curl = 0.4 \<rparr>"

definition hooked :: "real \<Rightarrow> FingerPose" where
  "hooked spread = \<lparr> mcp_curl = 0.3, mcp_spread = spread, pip_curl = 1.4, dip_curl = 1.2 \<rparr>"

definition halfCurl :: "real \<Rightarrow> FingerPose" where
  "halfCurl spread = \<lparr> mcp_curl = 0.8, mcp_spread = spread, pip_curl = 0.8, dip_curl = 0.6 \<rparr>"

definition slightBend :: "real \<Rightarrow> FingerPose" where
  "slightBend spread = \<lparr> mcp_curl = 0.4, mcp_spread = spread, pip_curl = 0.3, dip_curl = 0.2 \<rparr>"

definition flatBent :: "real \<Rightarrow> FingerPose" where
  "flatBent spread = \<lparr> mcp_curl = 1.2, mcp_spread = spread, pip_curl = 0, dip_curl = 0 \<rparr>"

definition thumbSide :: FingerPose where
  "thumbSide = \<lparr> mcp_curl = 0.2, mcp_spread = 0.5, pip_curl = 0.1, dip_curl = 0.1 \<rparr>"

definition thumbAcross :: FingerPose where
  "thumbAcross = \<lparr> mcp_curl = 0.8, mcp_spread = (- 0.3), pip_curl = 0.5, dip_curl = 0.3 \<rparr>"

definition thumbTucked :: FingerPose where
  "thumbTucked = \<lparr> mcp_curl = 1, mcp_spread = (- 0.2), pip_curl = 0.8, dip_curl = 0.6 \<rparr>"

definition thumbOut :: FingerPose where
  "thumbOut = \<lparr> mcp_curl = 0, mcp_spread = 0.8, pip_curl = 0, dip_curl = 0 \<rparr>"

definition thumbBetween :: FingerPose where
  "thumbBetween = \<lparr> mcp_curl = 0.6, mcp_spread = 0.1, pip_curl = 0.3, dip_curl = 0.2 \<rparr>"

definition thumbUp :: FingerPose where
  "thumbUp = \<lparr> mcp_curl = 0, mcp_spread = 0.9, pip_curl = 0, dip_curl = 0 \<rparr>"

definition thumbDown :: FingerPose where
  "thumbDown = \<lparr> mcp_curl = 0, mcp_spread = 0.9, pip_curl = 0, dip_curl = 0 \<rparr>"

definition thumbTip :: FingerPose where
  "thumbTip = \<lparr> mcp_curl = 0.5, mcp_spread = 0.3, pip_curl = 0.4, dip_curl = 0.3 \<rparr>"


subsection \<open>Fingerspelling alphabets\<close>

text \<open>
  One pose per letter and language; the tables \<open>ASL_LETTER_POSES\<close> and
  \<open>ISL_LETTER_POSES\<close> list them under their one-character keys.
\<close>

definition ASL_letter_a :: HandPose where
  "ASL_letter_a =
     \<lparr> thumb = thumbSide, index = curled 0, middle = curled 0, ring = curled 0, pinky = curled 0,
         wrist = None \<rparr>"

definition ASL_letter_b :: HandPose where
  "ASL_letter_b =
     \<lparr> thumb = thumbTucked, index = extended 0, middle = extended 0, ring = extended 0, pinky = extended 0,
         wrist = None \<rparr>"

definition ASL_letter_c :: HandPose where
  "ASL_letter_c =
     \<lparr> thumb = \<lparr> mcp_curl = 0.4, mcp_spread = 0.6, pip_curl = 0.3, dip_curl = 0.2 \<rparr>, index = halfCurl 0.1, middle = halfCurl 0.05, ring = halfCurl (- 0.05), pinky = halfCurl (- 0.1),
         wrist = None \<rparr>"

definition ASL_letter_d :: HandPose where
  "ASL_letter_d =
     \<lparr> thumb = \<lparr> mcp_curl = 0.8, mcp_spread = (- 0.2), pip_curl = 0.6, dip_curl = 0.4 \<rparr>, index = extended 0, middle = curled 0, ring = curled 0, pinky = curled 0,
         wrist = None \<rparr>"

definition ASL_letter_e :: HandPose where
  "ASL_letter_e =
     \<lparr> thumb = thumbTucked, index = bent 0, middle = bent 0, ring = bent 0, pinky = bent 0,
         wrist = None \<rparr>"

definition ASL_letter_f :: HandPose where
  "ASL_letter_f =
     \<lparr> thumb = \<lparr> mcp_curl = 0.6, mcp_spread = 0, pip_curl = 0.5, dip_curl = 0.4 \<rparr>, index = hooked 0, middle = extended 0.05, ring = extended 0, pinky = extended (- 0.05),
         wrist = None \<rparr>"

definition ASL_letter_g :: HandPose where
  "ASL_letter_g =
     \<lparr> thumb = thumbOut, index = extended 0, middle = curled 0, ring = curled 0, pinky = curled 0,
         wrist = Some \<lparr> pitch = 0, yaw = (- 1.2), roll = 0 \<rparr> \<rparr>"

definition ASL_letter_h :: HandPose where
  "ASL_letter_h =
     \<lparr> thumb = thumbOut, index = extended 0, middle = extended 0, ring = curled 0, pinky = curled 0,
         wrist = Some \<lparr> pitch = 0, yaw = (- 1.2), roll = 0 \<rparr> \<rparr>"

definition ASL_letter_i :: HandPose where
  "ASL_letter_i =
     \<lparr> thumb = thumbAcross, index = curled 0, middle = curled 0, ring = curled 0, pinky = extended 0,
         wrist = None \<rparr>"

definition ASL_letter_j :: HandPose where
  "ASL_letter_j =
     \<lparr> thumb = thumbAcross, index = curled 0, middle = curled 0, ring = curled 0, pinky = extended 0,
         wrist = None \<rparr>"

definition ASL_letter_k :: HandPose where
  "ASL_letter_k =
     \<lparr> thumb = \<lparr> mcp_curl = 0.4, mcp_spread = 0.2, pip_curl = 0.3, dip_curl = 0.1 \<rparr>, index = extended 0.1, middle = extended (- 0.1), ring = curled 0, pinky = curled 0,
         wrist = None \<rparr>"

definition ASL_letter_l :: HandPose where
  "ASL_letter_l =
     \<lparr> thumb = thumbOut, index = extended 0, middle = curled 0, ring = curled 0, pinky = curled 0,
         wrist = None \<rparr>"

definition ASL_letter_m :: HandPose where
  "ASL_letter_m =
     \<lparr> thumb = thumbTucked, index = bent (- 0.1), middle = bent 0, ring = bent 0.1, pinky = curled 0,
         wrist = None \<rparr>"

definition ASL_letter_n :: HandPose where
  "ASL_letter_n =
     \<lparr> thumb = thumbTucked, index = bent (- 0.05), middle = bent 0.05, ring = curled 0, pinky = curled 0,
         wrist = None \<rparr>"

definition ASL_letter_o :: HandPose where
  "ASL_letter_o =
     \<lparr> thumb = \<lparr> mcp_curl = 0.5, mcp_spread = 0.3, pip_curl = 0.4, dip_curl = 0.3 \<rparr>, index = halfCurl 0.05, middle = halfCurl 0, ring = halfCurl (- 0.05), pinky = halfCurl (- 0.1),
         wrist = None \<rparr>"

definition ASL_letter_p :: HandPose where
  "ASL_letter_p =
     \<lparr> thumb = \<lparr> mcp_curl = 0.4, mcp_spread = 0.2, pip_curl = 0.3, dip_curl = 0.1 \<rparr>, index = extended 0.1, middle = extended (- 0.1), ring = curled 0, pinky = curled 0,
         wrist = Some \<lparr> pitch = 1.2, yaw = 0, roll = 0 \<rparr> \<rparr>"

definition ASL_letter_q :: HandPose where
  "ASL_letter_q =
     \<lparr> thumb = thumbOut, index = extended 0, middle = curled 0, ring = curled 0, pinky = curled 0,
         wrist = Some \<lparr> pitch = 1.2, yaw = (- 0.8), roll = 0 \<rparr> \<rparr>"

definition ASL_letter_r :: HandPose where
  "ASL_letter_r =
     \<lparr> thumb = thumbAcross, index = extended 0.05, middle = extended (- 0.05), ring = curled 0, pinky = curled 0,
         wrist = None \<rparr>"

definition ASL_letter_s :: HandPose where
  "ASL_letter_s =
     \<lparr> thumb = thumbAcross, index = curled 0, middle = curled 0, ring = curled 0, pinky = curled 0,
         wrist = None \<rparr>"

definition ASL_letter_t :: HandPose where
  "ASL_letter_t =
     \<lparr> thumb = thumbBetween, index = curled 0, middle = curled 0, ring = curled 0, pinky = curled 0,
         wrist = None \<rparr>"

definition ASL_letter_u :: HandPose where
  "ASL_letter_u =
     \<lparr> thumb = thumbTucked, index = extended 0, middle = extended 0, ring = curled 0, pinky = curled 0,
         wrist = None \<rparr>"

definition ASL_letter_v :: HandPose where
  "ASL_letter_v =
     \<lparr> thumb = thumbAcross, index = extended 0.15, middle = extended (- 0.15), ring = curled 0, pinky = curled 0,
         wrist = None \<rparr>"

definition ASL_letter_w :: HandPose where
  "ASL_letter_w =
     \<lparr> thumb = thumbTucked, index = extended 0.1, middle = extended 0, ring = extended (- 0.1), pinky = curled 0,
         wrist = None \<rparr>"

definition ASL_letter_x :: HandPose where
  "ASL_letter_x =
     \<lparr> thumb = thumbAcross, index = hooked 0, middle = curled 0, ring = curled 0, pinky = curled 0,
         wrist = None \<rparr>"

definition ASL_letter_y :: HandPose where
  "ASL_letter_y =
     \<lparr> thumb = thumbOut, index = curled 0, middle = curled 0, ring = curled 0, pinky = extended 0,
         wrist = None \<rparr>"

definition ASL_letter_z :: HandPose where
  "ASL_letter_z =
     \<lparr> thumb = thumbAcross, index = extended 0, middle = curled 0, ring = curled 0, pinky = curled 0,
         wrist = None \<rparr>"

definition ASL_LETTER_POSES :: "(char \<times> HandPose) list" where
  "ASL_LETTER_POSES =
     [(CHR ''a'', ASL_letter_a),
      (CHR ''b'', ASL_letter_b),
      (CHR ''c'', ASL_letter_c),
      (CHR ''d'', ASL_letter_d),
      (CHR ''e'', ASL_letter_e),
      (CHR ''f'', ASL_letter_f),
      (CHR ''g'', ASL_letter_g),
      (CHR ''h'', ASL_letter_h),
      (CHR ''i'', ASL_letter_i),
      (CHR ''j'', ASL_letter_j),
      (CHR ''k'', ASL_letter_k),
      (CHR ''l'', ASL_letter_l),
      (CHR ''m'', ASL_letter_m),
      (CHR ''n'', ASL_letter_n),
      (CHR ''o'', ASL_letter_o),
      (CHR ''p'', ASL_letter_p),
      (CHR ''q'', ASL_letter_q),
      (CHR ''r'', ASL_letter_r),
      (CHR ''s'', ASL_letter_s),
      (CHR ''t'', ASL_letter_t),
      (CHR ''u'', ASL_letter_u),
      (CHR ''v'', ASL_letter_v),
      (CHR ''w'', ASL_letter_w),
      (CHR ''x'', ASL_letter_x),
      (CHR ''y'', ASL_letter_y),
      (CHR ''z'', ASL_letter_z)]"

definition ISL_letter_a :: HandPose where
  "ISL_letter_a =
     \<lparr> thumb = thumbOut, index = extended 0, middle = curled 0, ring = curled 0, pinky = curled 0,
         wrist = Some \<lparr> pitch = 0, yaw = 0, roll = 0 \<rparr> \<rparr>"

definition ISL_letter_b :: HandPose where
  "ISL_letter_b =
     \<lparr> thumb = thumbTucked, index = extended 0, middle = extended 0, ring = extended 0, pinky = extended 0,
         wrist = Some \<lparr> pitch = 0, yaw = 0, roll = 0 \<rparr> \<rparr>"

definition ISL_letter_c :: HandPose where
  "ISL_letter_c =
     \<lparr> thumb = \<lparr> mcp_curl = 0.4, mcp_spread = 0.6, pip_curl = 0.3, dip_curl = 0.2 \<rparr>, index = halfCurl 0.1, middle = halfCurl 0.05, ring = halfCurl (- 0.05), pinky = halfCurl (- 0.1),
         wrist = Some \<lparr> pitch = 0, yaw = (- 0.3), roll = 0 \<rparr> \<rparr>"

definition ISL_letter_d :: HandPose where
  "ISL_letter_d =
     \<lparr> thumb = thumbTip, index = extended 0, middle = curled 0, ring = curled 0, pinky = curled 0,
         wrist = Some \<lparr> pitch = 0, yaw = 0, roll = 0 \<rparr> \<rparr>"

definition ISL_letter_e :: HandPose where
  "ISL_letter_e =
     \<lparr> thumb = thumbTucked, index = slightBend 0, middle = slightBend 0, ring = slightBend 0, pinky = slightBend 0,
         wrist = None \<rparr>"

definition ISL_letter_f :: HandPose where
  "ISL_letter_f =
     \<lparr> thumb = thumbTip, index = hooked 0, middle = extended 0.05, ring = extended 0, pinky = extended (- 0.05),
         wrist = None \<rparr>"

definition ISL_letter_g :: HandPose where
  "ISL_letter_g =
     \<lparr> thumb = thumbAcross, index = extended 0, middle = curled 0, ring = curled 0, pinky = curled 0,
         wrist = Some \<lparr> pitch = 0, yaw = (- 0.8), roll = 0 \<rparr> \<rparr>"

definition ISL_letter_h :: HandPose where
  "ISL_letter_h =
     \<lparr> thumb = thumbTucked, index = extended 0, middle = extended 0, ring = curled 0, pinky = curled 0,
         wrist = Some \<lparr> pitch = 0, yaw = 0, roll = (- 0.3) \<rparr> \<rparr>"

definition ISL_letter_i :: HandPose where
  "ISL_letter_i =
     \<lparr> thumb = thumbAcross, index = curled 0, middle = curled 0, ring = curled 0, pinky = extended 0,
         wrist = Some \<lparr> pitch = 0, yaw = 0, roll = 0 \<rparr> \<rparr>"

definition ISL_letter_j :: HandPose where
  "ISL_letter_j =
     \<lparr> thumb = thumbAcross, index = curled 0, middle = curled 0, ring = curled 0, pinky = extended 0,
         wrist = Some \<lparr> pitch = 0, yaw = 0, roll = 0.3 \<rparr> \<rparr>"

definition ISL_letter_k :: HandPose where
  "ISL_letter_k =
     \<lparr> thumb = \<lparr> mcp_curl = 0.3, mcp_spread = 0.4, pip_curl = 0.2, dip_curl = 0.1 \<rparr>, index = extended 0.15, middle = extended (- 0.1), ring = curled 0, pinky = curled 0,
         wrist = None \<rparr>"

definition ISL_letter_l :: HandPose where
  "ISL_letter_l =
     \<lparr> thumb = thumbOut, index = extended 0, middle = curled 0, ring = curled 0, pinky = curled 0,
         wrist = Some \<lparr> pitch = 0, yaw = 0, roll = 0 \<rparr> \<rparr>"

definition ISL_letter_m :: HandPose where
  "ISL_letter_m =
     \<lparr> thumb = thumbTucked, index = flatBent (- 0.1), middle = flatBent 0, ring = flatBent 0.1, pinky = curled 0,
         wrist = None \<rparr>"

definition ISL_letter_n :: HandPose where
  "ISL_letter_n =
     \<lparr> thumb = thumbTucked, index = flatBent (- 0.05), middle = flatBent 0.05, ring = curled 0, pinky = curled 0,
         wrist = None \<rparr>"

definition ISL_letter_o :: HandPose where
  "ISL_letter_o =
     \<lparr> thumb = thumbTip, index = halfCurl 0.05, middle = halfCurl 0, ring = halfCurl (- 0.05), pinky = halfCurl (- 0.1),
         wrist = None \<rparr>"

definition ISL_letter_p :: HandPose where
  "ISL_letter_p =
     \<lparr> thumb = thumbOut, index = extended 0.1, middle = extended (- 0.1), ring = curled 0, pinky = curled 0,
         wrist = Some \<lparr> pitch = 0.8, yaw = 0, roll = 0 \<rparr> \<rparr>"

definition ISL_letter_q :: HandPose where
  "ISL_letter_q =
     \<lparr> thumb = thumbOut, index = extended 0, middle = curled 0, ring = curled 0, pinky = curled 0,
         wrist = Some \<lparr> pitch = 1, yaw = (- 0.5), roll = 0 \<rparr> \<rparr>"

definition ISL_letter_r :: HandPose where
  "ISL_letter_r =
     \<lparr> thumb = thumbAcross, index = extended 0.05, middle = extended (- 0.05), ring = curled 0, pinky = curled 0,
         wrist = Some \<lparr> pitch = 0, yaw = 0, roll = 0.2 \<rparr> \<rparr>"

definition ISL_letter_s :: HandPose where
  "ISL_letter_s =
     \<lparr> thumb = thumbAcross, index = curled 0, middle = curled 0, ring = curled 0, pinky = curled 0,
         wrist = Some \<lparr> pitch = 0, yaw = 0, roll = 0 \<rparr> \<rparr>"

definition ISL_letter_t :: HandPose where
  "ISL_letter_t =
     \<lparr> thumb = thumbBetween, index = curled 0, middle = curled 0, ring = curled 0, pinky = curled 0,
         wrist = None \<rparr>"

definition ISL_letter_u :: HandPose where
  "ISL_letter_u =
     \<lparr> thumb = thumbTucked, index = extended 0, middle = extended 0, ring = curled 0, pinky = curled 0,
         wrist = Some \<lparr> pitch = 0, yaw = 0, roll = 0 \<rparr> \<rparr>"

definition ISL_letter_v :: HandPose where
  "ISL_letter_v =
     \<lparr> thumb = thumbAcross, index = extended 0.15, middle = extended (- 0.15), ring = curled 0, pinky = curled 0,
         wrist = None \<rparr>"

definition ISL_letter_w :: HandPose where
  "ISL_letter_w =
     \<lparr> thumb = thumbTucked, index = extended 0.1, middle = extended 0, ring = extended (- 0.1), pinky = curled 0,
         wrist = None \<rparr>"

definition ISL_letter_x :: HandPose where
  "ISL_letter_x =
     \<lparr> thumb = thumbAcross, index = hooked 0, middle = curled 0, ring = curled 0, pinky = curled 0,
         wrist = None \<rparr>"

definition ISL_letter_y :: HandPose where
  "ISL_letter_y =
     \<lparr> thumb = thumbOut, index = curled 0, middle = curled 0, ring = curled 0, pinky = extended 0,
         wrist = None \<rparr>"

definition ISL_letter_z :: HandPose where
  "ISL_letter_z =
     \<lparr> thumb = thumbAcross, index = extended 0, middle = curled 0, ring = curled 0, pinky = curled 0,
         wrist = Some \<lparr> pitch = 0, yaw = 0, roll = 0.3 \<rparr> \<rparr>"

definition ISL_LETTER_POSES :: "(char \<times> HandPose) list" where
  "ISL_LETTER_POSES =
     [(CHR ''a'', ISL_letter_a),
      (CHR ''b'', ISL_letter_b),
      (CHR ''c'', ISL_letter_c),
      (CHR ''d'', ISL_letter_d),
      (CHR ''e'', ISL_letter_e),
      (CHR ''f'', ISL_letter_f),
      (CHR ''g'', ISL_letter_g),
      (CHR ''h'', ISL_letter_h),
      (CHR ''i'', ISL_letter_i),
      (CHR ''j'', ISL_letter_j),
      (CHR ''k'', ISL_letter_k),
      (CHR ''l'', ISL_letter_l),
      (CHR ''m'', ISL_letter_m),
      (CHR ''n'', ISL_letter_n),
      (CHR ''o'', ISL_letter_o),
      (CHR ''p'', ISL_letter_p),
      (CHR ''q'', ISL_letter_q),
      (CHR ''r'', ISL_letter_r),
      (CHR ''s'', ISL_letter_s),
      (CHR ''t'', ISL_letter_t),
      (CHR ''u'', ISL_letter_u),
      (CHR ''v'', ISL_letter_v),
      (CHR ''w'', ISL_letter_w),
      (CHR ''x'', ISL_letter_x),
      (CHR ''y'', ISL_letter_y),
      (CHR ''z'', ISL_letter_z)]"


subsection \<open>Word signs\<close>

text \<open>
  One animation per key of \<open>ASL_WORD_ANIMATIONS\<close>, in the order of the literal.
  The second keyframe of \<open>don\<close> has \<^verbatim>\<open>roll: 0-2\<close> in the source, which is \<open>-2\<close>.
  The signs named \<open>ISL_sign_...\<close> are the entries that the literal of
  \<open>ISL_WORD_ANIMATIONS\<close> lists after the spread of the ASL table.
\<close>

definition ASL_sign_hello :: SignAnimation where
  "ASL_sign_hello =
   \<lparr> anim_name = ''HELLO'', anim_type = Motion, category = ''Greeting'',
     poses =
      [\<lparr> thumb = thumbSide, index = extended 0.05, middle = extended 0, ring = extended (- 0.05), pinky = extended (- 0.1),
         wrist = Some \<lparr> pitch = (- 0.3), yaw = 0, roll = 0 \<rparr> \<rparr>,
       \<lparr> thumb = thumbSide, index = extended 0.1, middle = extended 0.05, ring = extended 0, pinky = extended (- 0.05),
         wrist = Some \<lparr> pitch = (- 0.1), yaw = 0.3, roll = 0.15 \<rparr> \<rparr>,
       \<lparr> thumb = thumbSide, index = extended 0.05, middle = extended 0, ring = extended (- 0.05), pinky = extended (- 0.1),
         wrist = Some \<lparr> pitch = 0.1, yaw = 0.5, roll = (- 0.1) \<rparr> \<rparr>],
     durations = Some [400, 350, 300], loop = None \<rparr>"

definition ASL_sign_thank_you :: SignAnimation where
  "ASL_sign_thank_you =
   \<lparr> anim_name = ''THANK YOU'', anim_type = Motion, category = ''Politeness'',
     poses =
      [\<lparr> thumb = thumbSide, index = extended 0, middle = extended 0, ring = extended 0, pinky = extended 0,
         wrist = Some \<lparr> pitch = (- 0.5), yaw = 0, roll = 0 \<rparr> \<rparr>,
       \<lparr> thumb = thumbSide, index = extended 0, middle = extended 0, ring = extended 0, pinky = extended 0,
         wrist = Some \<lparr> pitch = 0.3, yaw = 0, roll = 0 \<rparr> \<rparr>],
     durations = Some [500, 400], loop = None \<rparr>"

definition ASL_sign_thanks :: SignAnimation where
  "ASL_sign_thanks =
   \<lparr> anim_name = ''THANKS'', anim_type = Motion, category = ''Politeness'',
     poses =
      [\<lparr> thumb = thumbSide, index = extended 0, middle = extended 0, ring = extended 0, pinky = extended 0,
         wrist = Some \<lparr> pitch = (- 0.5), yaw = 0, roll = 0 \<rparr> \<rparr>,
       \<lparr> thumb = thumbSide, index = extended 0, middle = extended 0, ring = extended 0, pinky = extended 0,
         wrist = Some \<lparr> pitch = 0.3, yaw = 0, roll = 0 \<rparr> \<rparr>],
     durations = Some [500, 400], loop = None \<rparr>"

definition ASL_sign_please :: SignAnimation where
  "ASL_sign_please =
   \<lparr> anim_name = ''PLEASE'', anim_type = Motion, category = ''Politeness'',
     poses =
      [\<lparr> thumb = thumbSide, index = extended 0, middle = extended 0, ring = extended 0, pinky = extended 0,
         wrist = Some \<lparr> pitch = 0, yaw = 0, roll = 0 \<rparr> \<rparr>,
       \<lparr> thumb = thumbSide, index = extended 0, middle = extended 0, ring = extended 0, pinky = extended 0,
         wrist = Some \<lparr> pitch = 0.2, yaw = 0.2, roll = 0.1 \<rparr> \<rparr>,
       \<lparr> thumb = thumbSide, index = extended 0, middle = extended 0, ring = extended 0, pinky = extended 0,
         wrist = Some \<lparr> pitch = 0, yaw = 0, roll = (- 0.1) \<rparr> \<rparr>],
     durations = Some [400, 400, 400], loop = Some True \<rparr>"

definition ASL_sign_yes :: SignAnimation where
  "ASL_sign_yes =
   \<lparr> anim_name = ''YES'', anim_type = Motion, category = ''Response'',
     poses =
      [\<lparr> thumb = thumbAcross, index = curled 0, middle = curled 0, ring = curled 0, pinky = curled 0,
         wrist = Some \<lparr> pitch = (- 0.4), yaw = 0, roll = 0 \<rparr> \<rparr>,
       \<lparr> thumb = thumbAcross, index = curled 0, middle = curled 0, ring = curled 0, pinky = curled 0,
         wrist = Some \<lparr> pitch = 0.4, yaw = 0, roll = 0 \<rparr> \<rparr>,
       \<lparr> thumb = thumbAcross, index = curled 0, middle = curled 0, ring = curled 0, pinky = curled 0,
         wrist = Some \<lparr> pitch = (- 0.4), yaw = 0, roll = 0 \<rparr> \<rparr>],
     durations = Some [300, 300, 300], loop = None \<rparr>"

definition ASL_sign_no :: SignAnimation where
  "ASL_sign_no =
   \<lparr> anim_name = ''NO'', anim_type = Motion, category = ''Response'',
     poses =
      [\<lparr> thumb = thumbOut, index = extended 0.1, middle = extended (- 0.1), ring = curled 0, pinky = curled 0,
         wrist = Some \<lparr> pitch = 0, yaw = 0, roll = 0 \<rparr> \<rparr>,
       \<lparr> thumb = \<lparr> mcp_curl = 0.6, mcp_spread = 0, pip_curl = 0.4, dip_curl = 0.3 \<rparr>, index = halfCurl 0.1, middle = halfCurl (- 0.1), ring = curled 0, pinky = curled 0,
         wrist = Some \<lparr> pitch = 0, yaw = 0, roll = 0 \<rparr> \<rparr>],
     durations = Some [250, 250], loop = None \<rparr>"

definition ASL_sign_sorry :: SignAnimation where
  "ASL_sign_sorry =
   \<lparr> anim_name = ''SORRY'', anim_type = Motion, category = ''Emotion'',
     poses =
      [\<lparr> thumb = thumbAcross, index = curled 0, middle = curled 0, ring = curled 0, pinky = curled 0,
         wrist = Some \<lparr> pitch = 0, yaw = 0, roll = 0 \<rparr> \<rparr>,
       \<lparr> thumb = thumbAcross, index = curled 0, middle = curled 0, ring = curled 0, pinky = curled 0,
         wrist = Some \<lparr> pitch = 0.2, yaw = 0.2, roll = 0 \<rparr> \<rparr>,
       \<lparr> thumb = thumbAcross, index = curled 0, middle = curled 0, ring = curled 0, pinky = curled 0,
         wrist = Some \<lparr> pitch = 0, yaw = (- 0.2), roll = 0 \<rparr> \<rparr>],
     durations = Some [400, 400, 400], loop = Some True \<rparr>"

definition ASL_sign_help :: SignAnimation where
  "ASL_sign_help =
   \<lparr> anim_name = ''HELP'', anim_type = Motion, category = ''Action'',
     poses =
      [\<lparr> thumb = thumbSide, index = curled 0, middle = curled 0, ring = curled 0, pinky = curled 0,
         wrist = Some \<lparr> pitch = 0, yaw = 0, roll = 0 \<rparr> \<rparr>,
       \<lparr> thumb = thumbSide, index = curled 0, middle = curled 0, ring = curled 0, pinky = curled 0,
         wrist = Some \<lparr> pitch = (- 0.5), yaw = 0, roll = 0 \<rparr> \<rparr>],
     durations = Some [500, 400], loop = None \<rparr>"

definition ASL_sign_love :: SignAnimation where
  "ASL_sign_love =
   \<lparr> anim_name = ''LOVE / I LOVE YOU'', anim_type = Static, category = ''Emotion'',
     poses =
      [\<lparr> thumb = thumbOut, index = extended 0, middle = curled 0, ring = curled 0, pinky = extended 0,
         wrist = None \<rparr>],
     durations = None, loop = None \<rparr>"

definition ASL_sign_friend :: SignAnimation where
  "ASL_sign_friend =
   \<lparr> anim_name = ''FRIEND'', anim_type = Motion, category = ''People'',
     poses =
      [\<lparr> thumb = thumbAcross, index = hooked 0, middle = curled 0, ring = curled 0, pinky = curled 0,
         wrist = Some \<lparr> pitch = 0, yaw = 0, roll = 0 \<rparr> \<rparr>,
       \<lparr> thumb = thumbAcross, index = hooked 0, middle = curled 0, ring = curled 0, pinky = curled 0,
         wrist = Some \<lparr> pitch = 0, yaw = 0, roll = 0.5 \<rparr> \<rparr>],
     durations = Some [400, 400], loop = None \<rparr>"

definition ASL_sign_learn :: SignAnimation where
  "ASL_sign_learn =
   \<lparr> anim_name = ''LEARN'', anim_type = Motion, category = ''Education'',
     poses =
      [\<lparr> thumb = thumbSide, index = extended 0, middle = extended 0, ring = extended 0, pinky = extended 0,
         wrist = Some \<lparr> pitch = 0.3, yaw = 0, roll = 0 \<rparr> \<rparr>,
       \<lparr> thumb = thumbTip, index = halfCurl 0, middle = halfCurl 0, ring = halfCurl 0, pinky = halfCurl 0,
         wrist = Some \<lparr> pitch = (- 0.5), yaw = 0, roll = 0 \<rparr> \<rparr>],
     durations = Some [500, 500], loop = None \<rparr>"

definition ASL_sign_good :: SignAnimation where
  "ASL_sign_good =
   \<lparr> anim_name = ''GOOD'', anim_type = Motion, category = ''Description'',
     poses =
      [\<lparr> thumb = thumbSide, index = extended 0, middle = extended 0, ring = extended 0, pinky = extended 0,
         wrist = Some \<lparr> pitch = (- 0.4), yaw = 0, roll = 0 \<rparr> \<rparr>,
       \<lparr> thumb = thumbSide, index = extended 0, middle = extended 0, ring = extended 0, pinky = extended 0,
         wrist = Some \<lparr> pitch = 0.4, yaw = 0, roll = 0 \<rparr> \<rparr>],
     durations = Some [400, 400], loop = None \<rparr>"

definition ASL_sign_bad :: SignAnimation where
  "ASL_sign_bad =
   \<lparr> anim_name = ''BAD'', anim_type = Motion, category = ''Description'',
     poses =
      [\<lparr> thumb = thumbSide, index = extended 0, middle = extended 0, ring = extended 0, pinky = extended 0,
         wrist = Some \<lparr> pitch = (- 0.3), yaw = 0, roll = 0 \<rparr> \<rparr>,
       \<lparr> thumb = thumbSide, index = extended 0, middle = extended 0, ring = extended 0, pinky = extended 0,
         wrist = Some \<lparr> pitch = 0.5, yaw = 0, roll = 0.5 \<rparr> \<rparr>],
     durations = Some [400, 350], loop = None \<rparr>"

definition ASL_sign_want :: SignAnimation where
  "ASL_sign_want =
   \<lparr> anim_name = ''WANT'', anim_type = Motion, category = ''Action'',
     poses =
      [\<lparr> thumb = thumbOut, index = hooked 0.1, middle = hooked 0, ring = hooked (- 0.05), pinky = hooked (- 0.1),
         wrist = Some \<lparr> pitch = 0, yaw = 0, roll = 0 \<rparr> \<rparr>,
       \<lparr> thumb = thumbOut, index = hooked 0.1, middle = hooked 0, ring = hooked (- 0.05), pinky = hooked (- 0.1),
         wrist = Some \<lparr> pitch = (- 0.4), yaw = 0, roll = 0 \<rparr> \<rparr>],
     durations = Some [400, 400], loop = None \<rparr>"

definition ASL_sign_need :: SignAnimation where
  "ASL_sign_need =
   \<lparr> anim_name = ''NEED'', anim_type = Motion, category = ''Action'',
     poses =
      [\<lparr> thumb = thumbAcross, index = hooked 0, middle = curled 0, ring = curled 0, pinky = curled 0,
         wrist = Some \<lparr> pitch = (- 0.3), yaw = 0, roll = 0 \<rparr> \<rparr>,
       \<lparr> thumb = thumbAcross, index = hooked 0, middle = curled 0, ring = curled 0, pinky = curled 0,
         wrist = Some \<lparr> pitch = 0.4, yaw = 0, roll = 0 \<rparr> \<rparr>],
     durations = Some [350, 350], loop = None \<rparr>"

definition ASL_sign_eat :: SignAnimation where
  "ASL_sign_eat =
   \<lparr> anim_name = ''EAT'', anim_type = Motion, category = ''Action'',
     poses =
      [\<lparr> thumb = thumbTip, index = halfCurl 0, middle = halfCurl 0, ring = halfCurl 0, pinky = halfCurl 0,
         wrist = Some \<lparr> pitch = (- 0.5), yaw = 0, roll = 0 \<rparr> \<rparr>,
       \<lparr> thumb = thumbTip, index = halfCurl 0, middle = halfCurl 0, ring = halfCurl 0, pinky = halfCurl 0,
         wrist = Some \<lparr> pitch = (- 0.2), yaw = 0, roll = 0 \<rparr> \<rparr>,
       \<lparr> thumb = thumbTip, index = halfCurl 0, middle = halfCurl 0, ring = halfCurl 0, pinky = halfCurl 0,
         wrist = Some \<lparr> pitch = (- 0.5), yaw = 0, roll = 0 \<rparr> \<rparr>],
     durations = Some [300, 250, 300], loop = Some True \<rparr>"

definition ASL_sign_drink :: SignAnimation where
  "ASL_sign_drink =
   \<lparr> anim_name = ''DRINK'', anim_type = Motion, category = ''Action'',
     poses =
      [\<lparr> thumb = \<lparr> mcp_curl = 0.4, mcp_spread = 0.5, pip_curl = 0.3, dip_curl = 0.2 \<rparr>, index = halfCurl 0.1, middle = halfCurl 0, ring = halfCurl (- 0.05), pinky = halfCurl (- 0.1),
         wrist = Some \<lparr> pitch = (- 0.2), yaw = 0, roll = 0 \<rparr> \<rparr>,
       \<lparr> thumb = \<lparr> mcp_curl = 0.4, mcp_spread = 0.5, pip_curl = 0.3, dip_curl = 0.2 \<rparr>, index = halfCurl 0.1, middle = halfCurl 0, ring = halfCurl (- 0.05), pinky = halfCurl (- 0.1),
         wrist = Some \<lparr> pitch = (- 0.7), yaw = 0, roll = 0.3 \<rparr> \<rparr>],
     durations = Some [500, 500], loop = None \<rparr>"

definition ASL_sign_water :: SignAnimation where
  "ASL_sign_water =
   \<lparr> anim_name = ''WATER'', anim_type = Motion, category = ''Object'',
     poses =
      [\<lparr> thumb = thumbTucked, index = extended 0.1, middle = extended 0, ring = extended (- 0.1), pinky = curled 0,
         wrist = Some \<lparr> pitch = (- 0.3), yaw = 0, roll = 0 \<rparr> \<rparr>,
       \<lparr> thumb = thumbTucked, index = extended 0.1, middle = extended 0, ring = extended (- 0.1), pinky = curled 0,
         wrist = Some \<lparr> pitch = (- 0.5), yaw = 0, roll = 0 \<rparr> \<rparr>,
       \<lparr> thumb = thumbTucked, index = extended 0.1, middle = extended 0, ring = extended (- 0.1), pinky = curled 0,
         wrist = Some \<lparr> pitch = (- 0.3), yaw = 0, roll = 0 \<rparr> \<rparr>],
     durations = Some [300, 250, 300], loop = None \<rparr>"

definition ASL_sign_home :: SignAnimation where
  "ASL_sign_home =
   \<lparr> anim_name = ''HOME'', anim_type = Motion, category = ''Place'',
     poses =
      [\<lparr> thumb = thumbTip, index = halfCurl 0, middle = halfCurl 0, ring = halfCurl 0, pinky = halfCurl 0,
         wrist = Some \<lparr> pitch = (- 0.3), yaw = 0.2, roll = 0 \<rparr> \<rparr>,
       \<lparr> thumb = thumbTip, index = halfCurl 0, middle = halfCurl 0, ring = halfCurl 0, pinky = halfCurl 0,
         wrist = Some \<lparr> pitch = (- 0.1), yaw = 0.4, roll = 0 \<rparr> \<rparr>],
     durations = Some [400, 400], loop = None \<rparr>"

definition ASL_sign_school :: SignAnimation where
  "ASL_sign_school =
   \<lparr> anim_name = ''SCHOOL'', anim_type = Motion, category = ''Place'',
     poses =
      [\<lparr> thumb = thumbSide, index = extended 0, middle = extended 0, ring = extended 0, pinky = extended 0,
         wrist = Some \<lparr> pitch = 0.2, yaw = 0, roll = 0 \<rparr> \<rparr>,
       \<lparr> thumb = thumbSide, index = extended 0, middle = extended 0, ring = extended 0, pinky = extended 0,
         wrist = Some \<lparr> pitch = (- 0.2), yaw = 0, roll = 0 \<rparr> \<rparr>,
       \<lparr> thumb = thumbSide, index = extended 0, middle = extended 0, ring = extended 0, pinky = extended 0,
         wrist = Some \<lparr> pitch = 0.2, yaw = 0, roll = 0 \<rparr> \<rparr>],
     durations = Some [300, 250, 300], loop = None \<rparr>"

definition ASL_sign_work :: SignAnimation where
  "ASL_sign_work =
   \<lparr> anim_name = ''WORK'', anim_type = Motion, category = ''Action'',
     poses =
      [\<lparr> thumb = thumbAcross, index = curled 0, middle = curled 0, ring = curled 0, pinky = curled 0,
         wrist = Some \<lparr> pitch = (- 0.3), yaw = 0, roll = 0 \<rparr> \<rparr>,
       \<lparr> thumb = thumbAcross, index = curled 0, middle = curled 0, ring = curled 0, pinky = curled 0,
         wrist = Some \<lparr> pitch = 0.2, yaw = 0, roll = 0 \<rparr> \<rparr>,
       \<lparr> thumb = thumbAcross, index = curled 0, middle = curled 0, ring = curled 0, pinky = curled 0,
         wrist = Some \<lparr> pitch = (- 0.3), yaw = 0, roll = 0 \<rparr> \<rparr>],
     durations = Some [300, 250, 300], loop = None \<rparr>"

definition ASL_sign_name :: SignAnimation where
  "ASL_sign_name =
   \<lparr> anim_name = ''NAME'', anim_type = Motion, category = ''Communication'',
     poses =
      [\<lparr> thumb = thumbOut, index = extended 0, middle = extended 0, ring = curled 0, pinky = curled 0,
         wrist = Some \<lparr> pitch = 0, yaw = (- 0.5), roll = 0 \<rparr> \<rparr>,
       \<lparr> thumb = thumbOut, index = extended 0, middle = extended 0, ring = curled 0, pinky = curled 0,
         wrist = Some \<lparr> pitch = 0.3, yaw = (- 0.5), roll = 0 \<rparr> \<rparr>],
     durations = Some [350, 350], loop = None \<rparr>"

definition ASL_sign_what :: SignAnimation where
  "ASL_sign_what =
   \<lparr> anim_name = ''WHAT'', anim_type = Motion, category = ''Question'',
     poses =
      [\<lparr> thumb = thumbSide, index = extended 0.1, middle = extended 0, ring = extended (- 0.05), pinky = extended (- 0.1),
         wrist = Some \<lparr> pitch = 0, yaw = (- 0.3), roll = 0 \<rparr> \<rparr>,
       \<lparr> thumb = thumbSide, index = extended 0.1, middle = extended 0, ring = extended (- 0.05), pinky = extended (- 0.1),
         wrist = Some \<lparr> pitch = 0, yaw = 0.3, roll = 0 \<rparr> \<rparr>],
     durations = Some [350, 350], loop = None \<rparr>"

definition ASL_sign_where :: SignAnimation where
  "ASL_sign_where =
   \<lparr> anim_name = ''WHERE'', anim_type = Motion, category = ''Question'',
     poses =
      [\<lparr> thumb = thumbAcross, index = extended 0, middle = curled 0, ring = curled 0, pinky = curled 0,
         wrist = Some \<lparr> pitch = 0, yaw = (- 0.3), roll = 0 \<rparr> \<rparr>,
       \<lparr> thumb = thumbAcross, index = extended 0, middle = curled 0, ring = curled 0, pinky = curled 0,
         wrist = Some \<lparr> pitch = 0, yaw = 0.3, roll = 0 \<rparr> \<rparr>,
       \<lparr> thumb = thumbAcross, index = extended 0, middle = curled 0, ring = curled 0, pinky = curled 0,
         wrist = Some \<lparr> pitch = 0, yaw = (- 0.3), roll = 0 \<rparr> \<rparr>],
     durations = Some [300, 300, 300], loop = None \<rparr>"

definition ASL_sign_how :: SignAnimation where
  "ASL_sign_how =
   \<lparr> anim_name = ''HOW'', anim_type = Motion, category = ''Question'',
     poses =
      [\<lparr> thumb = thumbAcross, index = curled 0, middle = curled 0, ring = curled 0, pinky = curled 0,
         wrist = Some \<lparr> pitch = 0.3, yaw = 0, roll = 0 \<rparr> \<rparr>,
       \<lparr> thumb = thumbSide, index = extended 0, middle = extended 0, ring = extended 0, pinky = extended 0,
         wrist = Some \<lparr> pitch = (- 0.3), yaw = 0, roll = 0 \<rparr> \<rparr>],
     durations = Some [500, 500], loop = None \<rparr>"

definition ASL_sign_why :: SignAnimation where
  "ASL_sign_why =
   \<lparr> anim_name = ''WHY'', anim_type = Motion, category = ''Question'',
     poses =
      [\<lparr> thumb = thumbSide, index = extended 0, middle = extended 0, ring = extended 0, pinky = extended 0,
         wrist = Some \<lparr> pitch = (- 0.5), yaw = 0, roll = 0 \<rparr> \<rparr>,
       \<lparr> thumb = thumbOut, index = curled 0, middle = curled 0, ring = curled 0, pinky = extended 0,
         wrist = Some \<lparr> pitch = 0.2, yaw = 0, roll = 0 \<rparr> \<rparr>],
     durations = Some [500, 500], loop = None \<rparr>"

definition ASL_sign_stop :: SignAnimation where
  "ASL_sign_stop =
   \<lparr> anim_name = ''STOP'', anim_type = Motion, category = ''Action'',
     poses =
      [\<lparr> thumb = thumbSide, index = extended 0, middle = extended 0, ring = extended 0, pinky = extended 0,
         wrist = Some \<lparr> pitch = (- 0.5), yaw = (- 0.3), roll = 0 \<rparr> \<rparr>,
       \<lparr> thumb = thumbSide, index = extended 0, middle = extended 0, ring = extended 0, pinky = extended 0,
         wrist = Some \<lparr> pitch = 0.3, yaw = (- 0.3), roll = 0 \<rparr> \<rparr>],
     durations = Some [300, 300], loop = None \<rparr>"

definition ASL_sign_go :: SignAnimation where
  "ASL_sign_go =
   \<lparr> anim_name = ''GO'', anim_type = Motion, category = ''Action'',
     poses =
      [\<lparr> thumb = thumbAcross, index = extended 0, middle = curled 0, ring = curled 0, pinky = curled 0,
         wrist = Some \<lparr> pitch = (- 0.2), yaw = 0, roll = 0 \<rparr> \<rparr>,
       \<lparr> thumb = thumbAcross, index = extended 0, middle = curled 0, ring = curled 0, pinky = curled 0,
         wrist = Some \<lparr> pitch = 0.4, yaw = 0, roll = 0.2 \<rparr> \<rparr>],
     durations = Some [400, 400], loop = None \<rparr>"

definition ASL_sign_come :: SignAnimation where
  "ASL_sign_come =
   \<lparr> anim_name = ''COME'', anim_type = Motion, category = ''Action'',
     poses =
      [\<lparr> thumb = thumbAcross, index = extended 0, middle = curled 0, ring = curled 0, pinky = curled 0,
         wrist = Some \<lparr> pitch = 0.3, yaw = 0, roll = 0 \<rparr> \<rparr>,
       \<lparr> thumb = thumbAcross, index = hooked 0, middle = curled 0, ring = curled 0, pinky = curled 0,
         wrist = Some \<lparr> pitch = (- 0.2), yaw = 0, roll = 0 \<rparr> \<rparr>],
     durations = Some [400, 400], loop = None \<rparr>"

definition ASL_sign_happy :: SignAnimation where
  "ASL_sign_happy =
   \<lparr> anim_name = ''HAPPY'', anim_type = Motion, category = ''Emotion'',
     poses =
      [\<lparr> thumb = thumbSide, index = extended 0, middle = extended 0, ring = extended 0, pinky = extended 0,
         wrist = Some \<lparr> pitch = 0.2, yaw = 0, roll = 0 \<rparr> \<rparr>,
       \<lparr> thumb = thumbSide, index = extended 0, middle = extended 0, ring = extended 0, pinky = extended 0,
         wrist = Some \<lparr> pitch = (- 0.3), yaw = 0, roll = 0 \<rparr> \<rparr>,
       \<lparr> thumb = thumbSide, index = extended 0, middle = extended 0, ring = extended 0, pinky = extended 0,
         wrist = Some \<lparr> pitch = 0.2, yaw = 0, roll = 0 \<rparr> \<rparr>],
     durations = Some [350, 300, 350], loop = None \<rparr>"

definition ASL_sign_sad :: SignAnimation where
  "ASL_sign_sad =
   \<lparr> anim_name = ''SAD'', anim_type = Motion, category = ''Emotion'',
     poses =
      [\<lparr> thumb = thumbSide, index = extended 0.05, middle = extended 0, ring = extended (- 0.05), pinky = extended (- 0.1),
         wrist = Some \<lparr> pitch = (- 0.3), yaw = 0, roll = 0 \<rparr> \<rparr>,
       \<lparr> thumb = thumbSide, index = extended 0.05, middle = extended 0, ring = extended (- 0.05), pinky = extended (- 0.1),
         wrist = Some \<lparr> pitch = 0.4, yaw = 0, roll = 0 \<rparr> \<rparr>],
     durations = Some [600, 600], loop = None \<rparr>"

definition ASL_sign_understand :: SignAnimation where
  "ASL_sign_understand =
   \<lparr> anim_name = ''UNDERSTAND'', anim_type = Motion, category = ''Communication'',
     poses =
      [\<lparr> thumb = thumbAcross, index = curled 0, middle = curled 0, ring = curled 0, pinky = curled 0,
         wrist = Some \<lparr> pitch = (- 0.3), yaw = 0.3, roll = 0 \<rparr> \<rparr>,
       \<lparr> thumb = thumbAcross, index = extended 0, middle = curled 0, ring = curled 0, pinky = curled 0,
         wrist = Some \<lparr> pitch = (- 0.5), yaw = 0.3, roll = 0 \<rparr> \<rparr>],
     durations = Some [400, 350], loop = None \<rparr>"

definition ASL_sign_think :: SignAnimation where
  "ASL_sign_think =
   \<lparr> anim_name = ''THINK'', anim_type = Static, category = ''Communication'',
     poses =
      [\<lparr> thumb = thumbAcross, index = extended 0, middle = curled 0, ring = curled 0, pinky = curled 0,
         wrist = Some \<lparr> pitch = (- 0.5), yaw = 0.2, roll = 0 \<rparr> \<rparr>],
     durations = None, loop = None \<rparr>"

definition ASL_sign_know :: SignAnimation where
  "ASL_sign_know =
   \<lparr> anim_name = ''KNOW'', anim_type = Motion, category = ''Communication'',
     poses =
      [\<lparr> thumb = thumbSide, index = extended 0, middle = extended 0, ring = extended 0, pinky = extended 0,
         wrist = Some \<lparr> pitch = (- 0.5), yaw = 0.2, roll = 0 \<rparr> \<rparr>,
       \<lparr> thumb = thumbSide, index = extended 0, middle = extended 0, ring = extended 0, pinky = extended 0,
         wrist = Some \<lparr> pitch = (- 0.3), yaw = 0.2, roll = 0 \<rparr> \<rparr>],
     durations = Some [350, 350], loop = None \<rparr>"

definition ASL_sign_like :: SignAnimation where
  "ASL_sign_like =
   \<lparr> anim_name = ''LIKE'', anim_type = Motion, category = ''Emotion'',
     poses =
      [\<lparr> thumb = thumbOut, index = extended 0, middle = extended 0, ring = extended 0, pinky = extended 0,
         wrist = Some \<lparr> pitch = 0, yaw = 0, roll = 0 \<rparr> \<rparr>,
       \<lparr> thumb = thumbTip, index = halfCurl 0, middle = halfCurl 0, ring = halfCurl 0, pinky = halfCurl 0,
         wrist = Some \<lparr> pitch = 0.2, yaw = 0, roll = 0 \<rparr> \<rparr>],
     durations = Some [500, 400], loop = None \<rparr>"

definition ASL_sign_don :: SignAnimation where
  "ASL_sign_don =
   \<lparr> anim_name = ''DON'T'', anim_type = Motion, category = ''Response'',
     poses =
      [\<lparr> thumb = thumbSide, index = extended 0, middle = extended 0, ring = extended 0, pinky = extended 0,
         wrist = Some \<lparr> pitch = 0, yaw = 0.3, roll = 0 \<rparr> \<rparr>,
       \<lparr> thumb = thumbSide, index = extended 0, middle = extended 0, ring = extended 0, pinky = extended 0,
         wrist = Some \<lparr> pitch = 0, yaw = (- 0.5), roll = (- 2) \<rparr> \<rparr>],
     durations = Some [350, 350], loop = None \<rparr>"

definition ASL_sign_can :: SignAnimation where
  "ASL_sign_can =
   \<lparr> anim_name = ''CAN'', anim_type = Motion, category = ''Action'',
     poses =
      [\<lparr> thumb = thumbAcross, index = curled 0, middle = curled 0, ring = curled 0, pinky = curled 0,
         wrist = Some \<lparr> pitch = (- 0.3), yaw = 0, roll = 0 \<rparr> \<rparr>,
       \<lparr> thumb = thumbAcross, index = curled 0, middle = curled 0, ring = curled 0, pinky = curled 0,
         wrist = Some \<lparr> pitch = 0.3, yaw = 0, roll = 0 \<rparr> \<rparr>],
     durations = Some [400, 400], loop = None \<rparr>"

definition ASL_sign_more :: SignAnimation where
  "ASL_sign_more =
   \<lparr> anim_name = ''MORE'', anim_type = Motion, category = ''Quantity'',
     poses =
      [\<lparr> thumb = thumbTip, index = halfCurl 0.05, middle = halfCurl 0, ring = halfCurl (- 0.05), pinky = halfCurl (- 0.1),
         wrist = Some \<lparr> pitch = 0, yaw = (- 0.2), roll = 0 \<rparr> \<rparr>,
       \<lparr> thumb = thumbTip, index = halfCurl 0.05, middle = halfCurl 0, ring = halfCurl (- 0.05), pinky = halfCurl (- 0.1),
         wrist = Some \<lparr> pitch = 0, yaw = 0.2, roll = 0 \<rparr> \<rparr>,
       \<lparr> thumb = thumbTip, index = halfCurl 0.05, middle = halfCurl 0, ring = halfCurl (- 0.05), pinky = halfCurl (- 0.1),
         wrist = Some \<lparr> pitch = 0, yaw = (- 0.2), roll = 0 \<rparr> \<rparr>],
     durations = Some [300, 250, 300], loop = None \<rparr>"

definition ASL_sign_teacher :: SignAnimation where
  "ASL_sign_teacher =
   \<lparr> anim_name = ''TEACHER'', anim_type = Motion, category = ''People'',
     poses =
      [\<lparr> thumb = thumbTip, index = halfCurl 0, middle = halfCurl 0, ring = halfCurl 0, pinky = halfCurl 0,
         wrist = Some \<lparr> pitch = (- 0.4), yaw = 0.3, roll = 0 \<rparr> \<rparr>,
       \<lparr> thumb = thumbTip, index = halfCurl 0, middle = halfCurl 0, ring = halfCurl 0, pinky = halfCurl 0,
         wrist = Some \<lparr> pitch = (- 0.2), yaw = 0.5, roll = 0 \<rparr> \<rparr>,
       \<lparr> thumb = thumbSide, index = extended 0, middle = extended 0, ring = extended 0, pinky = extended 0,
         wrist = Some \<lparr> pitch = 0.3, yaw = 0, roll = 0 \<rparr> \<rparr>],
     durations = Some [400, 350, 400], loop = None \<rparr>"

definition ASL_sign_student :: SignAnimation where
  "ASL_sign_student =
   \<lparr> anim_name = ''STUDENT'', anim_type = Motion, category = ''People'',
     poses =
      [\<lparr> thumb = thumbSide, index = extended 0, middle = extended 0, ring = extended 0, pinky = extended 0,
         wrist = Some \<lparr> pitch = 0.3, yaw = 0, roll = 0 \<rparr> \<rparr>,
       \<lparr> thumb = thumbTip, index = halfCurl 0, middle = halfCurl 0, ring = halfCurl 0, pinky = halfCurl 0,
         wrist = Some \<lparr> pitch = (- 0.5), yaw = 0, roll = 0 \<rparr> \<rparr>,
       \<lparr> thumb = thumbSide, index = extended 0, middle = extended 0, ring = extended 0, pinky = extended 0,
         wrist = Some \<lparr> pitch = 0.3, yaw = 0, roll = 0 \<rparr> \<rparr>],
     durations = Some [400, 400, 400], loop = None \<rparr>"

definition ASL_sign_family :: SignAnimation where
  "ASL_sign_family =
   \<lparr> anim_name = ''FAMILY'', anim_type = Motion, category = ''People'',
     poses =
      [\<lparr> thumb = thumbTip, index = hooked 0, middle = extended 0, ring = extended 0, pinky = extended 0,
         wrist = Some \<lparr> pitch = 0, yaw = (- 0.3), roll = 0 \<rparr> \<rparr>,
       \<lparr> thumb = thumbTip, index = hooked 0, middle = extended 0, ring = extended 0, pinky = extended 0,
         wrist = Some \<lparr> pitch = 0, yaw = 0.3, roll = 0 \<rparr> \<rparr>],
     durations = Some [500, 500], loop = Some True \<rparr>"

definition ASL_sign_play :: SignAnimation where
  "ASL_sign_play =
   \<lparr> anim_name = ''PLAY'', anim_type = Motion, category = ''Action'',
     poses =
      [\<lparr> thumb = thumbOut, index = curled 0, middle = curled 0, ring = curled 0, pinky = extended 0,
         wrist = Some \<lparr> pitch = 0, yaw = 0, roll = (- 0.3) \<rparr> \<rparr>,
       \<lparr> thumb = thumbOut, index = curled 0, middle = curled 0, ring = curled 0, pinky = extended 0,
         wrist = Some \<lparr> pitch = 0, yaw = 0, roll = 0.3 \<rparr> \<rparr>,
       \<lparr> thumb = thumbOut, index = curled 0, middle = curled 0, ring = curled 0, pinky = extended 0,
         wrist = Some \<lparr> pitch = 0, yaw = 0, roll = (- 0.3) \<rparr> \<rparr>],
     durations = Some [300, 300, 300], loop = None \<rparr>"

definition ASL_sign_time :: SignAnimation where
  "ASL_sign_time =
   \<lparr> anim_name = ''TIME'', anim_type = Motion, category = ''Concept'',
     poses =
      [\<lparr> thumb = thumbAcross, index = extended 0, middle = curled 0, ring = curled 0, pinky = curled 0,
         wrist = Some \<lparr> pitch = 0.3, yaw = (- 0.3), roll = 0 \<rparr> \<rparr>,
       \<lparr> thumb = thumbAcross, index = extended 0, middle = curled 0, ring = curled 0, pinky = curled 0,
         wrist = Some \<lparr> pitch = 0.5, yaw = (- 0.3), roll = 0 \<rparr> \<rparr>],
     durations = Some [350, 350], loop = None \<rparr>"

definition ASL_sign_today :: SignAnimation where
  "ASL_sign_today =
   \<lparr> anim_name = ''TODAY'', anim_type = Motion, category = ''Time'',
     poses =
      [\<lparr> thumb = thumbSide, index = extended 0, middle = extended 0, ring = extended 0, pinky = extended 0,
         wrist = Some \<lparr> pitch = (- 0.3), yaw = 0, roll = 0 \<rparr> \<rparr>,
       \<lparr> thumb = thumbSide, index = extended 0, middle = extended 0, ring = extended 0, pinky = extended 0,
         wrist = Some \<lparr> pitch = 0.3, yaw = 0, roll = 0 \<rparr> \<rparr>],
     durations = Some [400, 400], loop = None \<rparr>"

definition ASL_WORD_ANIMATIONS :: "(string \<times> SignAnimation) list" where
  "ASL_WORD_ANIMATIONS =
     [(''hello'', ASL_sign_hello),
      (''thank you'', ASL_sign_thank_you),
      (''thanks'', ASL_sign_thanks),
      (''please'', ASL_sign_please),
      (''yes'', ASL_sign_yes),
      (''no'', ASL_sign_no),
      (''sorry'', ASL_sign_sorry),
      (''help'', ASL_sign_help),
      (''love'', ASL_sign_love),
      (''friend'', ASL_sign_friend),
      (''learn'', ASL_sign_learn),
      (''good'', ASL_sign_good),
      (''bad'', ASL_sign_bad),
      (''want'', ASL_sign_want),
      (''need'', ASL_sign_need),
      (''eat'', ASL_sign_eat),
      (''drink'', ASL_sign_drink),
      (''water'', ASL_sign_water),
      (''home'', ASL_sign_home),
      (''school'', ASL_sign_school),
      (''work'', ASL_sign_work),
      (''name'', ASL_sign_name),
      (''what'', ASL_sign_what),
      (''where'', ASL_sign_where),
      (''how'', ASL_sign_how),
      (''why'', ASL_sign_why),
      (''stop'', ASL_sign_stop),
      (''go'', ASL_sign_go),
      (''come'', ASL_sign_come),
      (''happy'', ASL_sign_happy),
      (''sad'', ASL_sign_sad),
      (''understand'', ASL_sign_understand),
      (''think'', ASL_sign_think),
      (''know'', ASL_sign_know),
      (''like'', ASL_sign_like),
      (''don'', ASL_sign_don),
      (''can'', ASL_sign_can),
      (''more'', ASL_sign_more),
      (''teacher'', ASL_sign_teacher),
      (''student'', ASL_sign_student),
      (''family'', ASL_sign_family),
      (''play'', ASL_sign_play),
      (''time'', ASL_sign_time),
      (''today'', ASL_sign_today)]"

definition ISL_sign_hello :: SignAnimation where
  "ISL_sign_hello =
   \<lparr> anim_name = ''NAMASTE / HELLO'', anim_type = Motion, category = ''Greeting'',
     poses =
      [\<lparr> thumb = thumbSide, index = extended 0, middle = extended 0, ring = extended 0, pinky = extended 0,
         wrist = Some \<lparr> pitch = (- 0.2), yaw = 0, roll = 0 \<rparr> \<rparr>,
       \<lparr> thumb = thumbSide, index = extended 0, middle = extended 0, ring = extended 0, pinky = extended 0,
         wrist = Some \<lparr> pitch = (- 0.4), yaw = 0, roll = 0 \<rparr> \<rparr>,
       \<lparr> thumb = thumbSide, index = extended 0, middle = extended 0, ring = extended 0, pinky = extended 0,
         wrist = Some \<lparr> pitch = (- 0.2), yaw = 0, roll = 0 \<rparr> \<rparr>],
     durations = Some [500, 400, 500], loop = None \<rparr>"

definition ISL_sign_thank_you :: SignAnimation where
  "ISL_sign_thank_you =
   \<lparr> anim_name = ''DHANYAVAAD'', anim_type = Motion, category = ''Politeness'',
     poses =
      [\<lparr> thumb = thumbSide, index = extended 0, middle = extended 0, ring = extended 0, pinky = extended 0,
         wrist = Some \<lparr> pitch = (- 0.5), yaw = 0.2, roll = 0 \<rparr> \<rparr>,
       \<lparr> thumb = thumbSide, index = extended 0, middle = extended 0, ring = extended 0, pinky = extended 0,
         wrist = Some \<lparr> pitch = 0.2, yaw = 0.2, roll = 0 \<rparr> \<rparr>],
     durations = Some [500, 500], loop = None \<rparr>"

definition ISL_sign_water :: SignAnimation where
  "ISL_sign_water =
   \<lparr> anim_name = ''PAANI'', anim_type = Motion, category = ''Object'',
     poses =
      [\<lparr> thumb = \<lparr> mcp_curl = 0.4, mcp_spread = 0.5, pip_curl = 0.3, dip_curl = 0.2 \<rparr>, index = halfCurl 0.1, middle = halfCurl 0, ring = halfCurl (- 0.05), pinky = halfCurl (- 0.1),
         wrist = Some \<lparr> pitch = (- 0.2), yaw = 0, roll = 0 \<rparr> \<rparr>,
       \<lparr> thumb = \<lparr> mcp_curl = 0.4, mcp_spread = 0.5, pip_curl = 0.3, dip_curl = 0.2 \<rparr>, index = halfCurl 0.1, middle = halfCurl 0, ring = halfCurl (- 0.05), pinky = halfCurl (- 0.1),
         wrist = Some \<lparr> pitch = (- 0.8), yaw = 0, roll = 0.4 \<rparr> \<rparr>],
     durations = Some [500, 500], loop = None \<rparr>"

definition ISL_sign_school :: SignAnimation where
  "ISL_sign_school =
   \<lparr> anim_name = ''SCHOOL / VIDYALAYA'', anim_type = Motion, category = ''Place'',
     poses =
      [\<lparr> thumb = thumbTip, index = extended 0, middle = curled 0, ring = curled 0, pinky = curled 0,
         wrist = Some \<lparr> pitch = 0, yaw = (- 0.3), roll = 0 \<rparr> \<rparr>,
       \<lparr> thumb = thumbTip, index = extended 0, middle = curled 0, ring = curled 0, pinky = curled 0,
         wrist = Some \<lparr> pitch = 0.3, yaw = (- 0.3), roll = 0.2 \<rparr> \<rparr>,
       \<lparr> thumb = thumbTip, index = extended 0, middle = curled 0, ring = curled 0, pinky = curled 0,
         wrist = Some \<lparr> pitch = 0, yaw = (- 0.3), roll = 0 \<rparr> \<rparr>],
     durations = Some [350, 300, 350], loop = None \<rparr>"

definition ISL_sign_good :: SignAnimation where
  "ISL_sign_good =
   \<lparr> anim_name = ''ACCHA / GOOD'', anim_type = Motion, category = ''Description'',
     poses =
      [\<lparr> thumb = thumbUp, index = curled 0, middle = curled 0, ring = curled 0, pinky = curled 0,
         wrist = Some \<lparr> pitch = (- 0.2), yaw = 0, roll = 0 \<rparr> \<rparr>,
       \<lparr> thumb = thumbUp, index = curled 0, middle = curled 0, ring = curled 0, pinky = curled 0,
         wrist = Some \<lparr> pitch = 0.2, yaw = 0, roll = 0 \<rparr> \<rparr>],
     durations = Some [400, 400], loop = None \<rparr>"

definition ISL_overrides :: "(string \<times> SignAnimation) list" where
  "ISL_overrides =
     [(''hello'', ISL_sign_hello),
      (''thank you'', ISL_sign_thank_you),
      (''water'', ISL_sign_water),
      (''school'', ISL_sign_school),
      (''good'', ISL_sign_good)]"

definition REST_POSE :: HandPose where
  "REST_POSE =
     \<lparr> thumb = \<lparr> mcp_curl = 0.3, mcp_spread = 0.4, pip_curl = 0.2, dip_curl = 0.1 \<rparr>, index = \<lparr> mcp_curl = 0.2, mcp_spread = 0.05, pip_curl = 0.15, dip_curl = 0.1 \<rparr>, middle = \<lparr> mcp_curl = 0.2, mcp_spread = 0, pip_curl = 0.15, dip_curl = 0.1 \<rparr>, ring = \<lparr> mcp_curl = 0.25, mcp_spread = (- 0.05), pip_curl = 0.2, dip_curl = 0.15 \<rparr>, pinky = \<lparr> mcp_curl = 0.3, mcp_spread = (- 0.1), pip_curl = 0.25, dip_curl = 0.2 \<rparr>,
         wrist = Some \<lparr> pitch = 0, yaw = 0, roll = 0 \<rparr> \<rparr>"

text \<open>
  \<^verbatim>\<open>{ ...ASL_WORD_ANIMATIONS, hello: ..., 'thank you': ..., ... }\<close>: the spread copies
  the ASL entries in their order, then every listed property is stored in turn; a key
  that exists keeps its place and takes the new value, a new key goes to the end.
\<close>

definition ISL_WORD_ANIMATIONS :: "(string \<times> SignAnimation) list" where
  "ISL_WORD_ANIMATIONS = fold (\<lambda>(k, v). AList.update k v) ISL_overrides ASL_WORD_ANIMATIONS"

definition getLetterPoses :: "SignLanguageMode \<Rightarrow> (char \<times> HandPose) list" where
  "getLetterPoses mode = (if mode = ISL then ISL_LETTER_POSES else ASL_LETTER_POSES)"

definition getWordAnimations :: "SignLanguageMode \<Rightarrow> (string \<times> SignAnimation) list" where
  "getWordAnimations mode = (if mode = ISL then ISL_WORD_ANIMATIONS else ASL_WORD_ANIMATIONS)"

section \<open>Gloss resolver (\<^verbatim>\<open>textToSignGloss\<close>)\<close>

text \<open>
  Both word tables are plain object literals, so \<^verbatim>\<open>wordAnimations[key]\<close> reads
  an own property or, failing that, a property inherited from
  \<^verbatim>\<open>Object.prototype\<close>. The inherited members are functions (and, for
  \<^verbatim>\<open>__proto__\<close>, the prototype object): they are truthy and are not animations.
\<close>

definition Object_prototype_keys :: "string list" where
  "Object_prototype_keys =
     [''constructor'', ''__defineGetter__'', ''__defineSetter__'', ''hasOwnProperty'',
      ''__lookupGetter__'', ''__lookupSetter__'', ''isPrototypeOf'', ''propertyIsEnumerable'',
      ''toString'', ''valueOf'', ''__proto__'', ''toLocaleString'']"

datatype AnimationValue = Animation SignAnimation | InheritedProperty string

definition getProperty :: "(string \<times> SignAnimation) list \<Rightarrow> string \<Rightarrow> AnimationValue option" where
  "getProperty obj key =
     (case map_of obj key of
        Some a \<Rightarrow> Some (Animation a)
      | None \<Rightarrow> (if key \<in> set Object_prototype_keys then Some (InheritedProperty key) else None))"

datatype GlossType = Word | Fingerspell

text \<open>\<^verbatim>\<open>SignGlossItem\<close>; \<^verbatim>\<open>type\<close> and \<^verbatim>\<open>value\<close> carry a prefix.\<close>

record SignGlossItem =
  item_type :: GlossType
  item_value :: string
  animation :: "AnimationValue option"
  letterPoses :: "HandPose list option"

datatype error = TypeError

text \<open>
  \<^verbatim>\<open>text.toLowerCase().replace(/[^a-z\s]/g, '').split(/\s+/).filter(Boolean)\<close>
\<close>

definition normalizeWords :: "string \<Rightarrow> string list" where
  "normalizeWords text =
     filter (\<lambda>w. w \<noteq> [])
       (splitWhitespace (filter (\<lambda>c. isLower c \<or> isSpace c) (toLowerCase text)))"

text \<open>
  \<^verbatim>\<open>words[i]\<close> is \<^verbatim>\<open>undefined\<close> out of range. Inside a template literal
  \<^verbatim>\<open>undefined\<close> prints as the word \<open>undefined\<close>; a method call on it throws.
\<close>

definition wordAt :: "string list \<Rightarrow> nat \<Rightarrow> string option" where
  "wordAt words i = (if i < length words then Some (words ! i) else None)"

definition template :: "string option \<Rightarrow> string" where
  "template w = (case w of None \<Rightarrow> ''undefined'' | Some s \<Rightarrow> s)"

definition wordItem :: "string \<Rightarrow> AnimationValue option \<Rightarrow> SignGlossItem" where
  "wordItem phrase a =
     \<lparr> item_type = Word, item_value = toUpperCase phrase, animation = a, letterPoses = None \<rparr>"

text \<open>
  \<^verbatim>\<open>word.split('').map(char => letterPoses[char]).filter(Boolean)\<close>. A key of
  one character is never an inherited property, so the lookup is the table's own.
\<close>

definition spellPoses :: "(char \<times> HandPose) list \<Rightarrow> string \<Rightarrow> HandPose list" where
  "spellPoses letterTable word = List.map_filter (map_of letterTable) word"

definition fingerspellItem :: "(char \<times> HandPose) list \<Rightarrow> string \<Rightarrow> SignGlossItem" where
  "fingerspellItem letterTable word =
     \<lparr> item_type = Fingerspell, item_value = toUpperCase word, animation = None,
       letterPoses = Some (spellPoses letterTable word) \<rparr>"

text \<open>
  The \<^verbatim>\<open>while (i < words.length)\<close> loop, with the cursor \<open>i\<close> and the array
  \<open>glossItems\<close> as arguments; \<^verbatim>\<open>push\<close> appends at the end.
\<close>

function glossLoop ::
  "(string \<times> SignAnimation) list \<Rightarrow> (char \<times> HandPose) list \<Rightarrow> string list \<Rightarrow> nat \<Rightarrow>
   SignGlossItem list \<Rightarrow> error + SignGlossItem list" where
  "glossLoop wordAnimations letterTable words i glossItems =
     (if i < length words then
        (let threeWord = template (wordAt words i) @ '' '' @ template (wordAt words (i + 1)) @ '' '' @
                         template (wordAt words (i + 2));
             twoWord = template (wordAt words i) @ '' '' @ template (wordAt words (i + 1))
         in
           if i + 2 < length words \<and> getProperty wordAnimations threeWord \<noteq> None then
             glossLoop wordAnimations letterTable words (i + 3)
               (glossItems @ [wordItem threeWord (getProperty wordAnimations threeWord)])
           else if i + 1 < length words \<and> getProperty wordAnimations twoWord \<noteq> None then
             glossLoop wordAnimations letterTable words (i + 2)
               (glossItems @ [wordItem twoWord (getProperty wordAnimations twoWord)])
           else
             (case wordAt words i of
                None \<Rightarrow> Inl TypeError
              | Some w \<Rightarrow>
                  if getProperty wordAnimations w \<noteq> None then
                    glossLoop wordAnimations letterTable words (i + 1)
                      (glossItems @ [wordItem w (getProperty wordAnimations w)])
                  else
                    glossLoop wordAnimations letterTable words (i + 1)
                      (glossItems @ [fingerspellItem letterTable w])))
      else Inr glossItems)"
  by pat_completeness auto
termination
  by (relation "measure (\<lambda>(wordAnimations, letterTable, words, i, glossItems). length words - i)")
     auto

definition textToSignGloss :: "string \<Rightarrow> SignLanguageMode \<Rightarrow> error + SignGlossItem list" where
  "textToSignGloss text mode =
     glossLoop (getWordAnimations mode) (getLetterPoses mode) (normalizeWords text) 0 []"

text \<open>
  The loop once more, as a recursion over the words that remain instead of a cursor
  into the array. The lookups are the loop's own (\<open>getProperty\<close>), in the loop's
  order. The proofs about the loop go through this form.
\<close>

fun scanWords ::
  "(string \<times> SignAnimation) list \<Rightarrow> (char \<times> HandPose) list \<Rightarrow> string list \<Rightarrow> SignGlossItem list" where
  "scanWords wa lt [] = []"
| "scanWords wa lt [a] =
     [if getProperty wa a \<noteq> None then wordItem a (getProperty wa a) else fingerspellItem lt a]"
| "scanWords wa lt [a, b] =
     (if getProperty wa (a @ '' '' @ b) \<noteq> None
      then [wordItem (a @ '' '' @ b) (getProperty wa (a @ '' '' @ b))]
      else (if getProperty wa a \<noteq> None then wordItem a (getProperty wa a) else fingerspellItem lt a)
           # scanWords wa lt [b])"
| "scanWords wa lt (a # b # c # ws) =
     (if getProperty wa (a @ '' '' @ b @ '' '' @ c) \<noteq> None
      then wordItem (a @ '' '' @ b @ '' '' @ c) (getProperty wa (a @ '' '' @ b @ '' '' @ c))
           # scanWords wa lt ws
      else if getProperty wa (a @ '' '' @ b) \<noteq> None
      then wordItem (a @ '' '' @ b) (getProperty wa (a @ '' '' @ b)) # scanWords wa lt (c # ws)
      else (if getProperty wa a \<noteq> None then wordItem a (getProperty wa a) else fingerspellItem lt a)
           # scanWords wa lt (b # c # ws))"

text \<open>
  The resolver in the words of the specification: scan the normalised words from
  left to right; at each position try a window of three words, then a window of two
  words, then the single word, against the word-animation table of the mode; what
  matches becomes a word item with the table's animation, and the scan goes on
  behind the window; a word at which nothing matches is fingerspelled. A phrase
  matches when it is a key of the table (\<open>lookupTable\<close>).
\<close>

definition lookupTable :: "(string \<times> SignAnimation) list \<Rightarrow> string \<Rightarrow> AnimationValue option" where
  "lookupTable table phrase = map_option Animation (map_of table phrase)"

fun greedyScan ::
  "(string \<times> SignAnimation) list \<Rightarrow> (char \<times> HandPose) list \<Rightarrow> string list \<Rightarrow> SignGlossItem list" where
  "greedyScan table lt [] = []"
| "greedyScan table lt [a] =
     [if lookupTable table a \<noteq> None then wordItem a (lookupTable table a) else fingerspellItem lt a]"
| "greedyScan table lt [a, b] =
     (if lookupTable table (a @ '' '' @ b) \<noteq> None
      then [wordItem (a @ '' '' @ b) (lookupTable table (a @ '' '' @ b))]
      else (if lookupTable table a \<noteq> None then wordItem a (lookupTable table a)
            else fingerspellItem lt a)
           # greedyScan table lt [b])"
| "greedyScan table lt (a # b # c # ws) =
     (if lookupTable table (a @ '' '' @ b @ '' '' @ c) \<noteq> None
      then wordItem (a @ '' '' @ b @ '' '' @ c) (lookupTable table (a @ '' '' @ b @ '' '' @ c))
           # greedyScan table lt ws
      else if lookupTable table (a @ '' '' @ b) \<noteq> None
      then wordItem (a @ '' '' @ b) (lookupTable table (a @ '' '' @ b)) # greedyScan table lt (c # ws)
      else (if lookupTable table a \<noteq> None then wordItem a (lookupTable table a)
            else fingerspellItem lt a)
           # greedyScan table lt (b # c # ws))"

text \<open>
  What a well-formed gloss item is for a language mode: a word item carries an
  animation of that mode's word table, stored under the phrase whose upper-case form
  is the item's value; a fingerspell item carries poses of that mode's letter table,
  at most one per character of the word whose upper-case form is the item's value.
\<close>

definition wellFormedItem :: "SignLanguageMode \<Rightarrow> SignGlossItem \<Rightarrow> bool" where
  "wellFormedItem mode item =
     (case item_type item of
        Word \<Rightarrow>
          (\<exists>phrase a. map_of (getWordAnimations mode) phrase = Some a \<and>
             animation item = Some (Animation a) \<and> item_value item = toUpperCase phrase)
      | Fingerspell \<Rightarrow>
          (\<exists>word ps. letterPoses item = Some ps \<and> set ps \<subseteq> snd ` set (getLetterPoses mode) \<and>
             length ps \<le> length word \<and> item_value item = toUpperCase word))"

section \<open>Emotion engine (\<^verbatim>\<open>emotion-engine\<close>, the second part of \<^verbatim>\<open>avatar-model.tsx\<close>)\<close>

datatype EmotionType = Neutral | Happy | Sad | Surprised | Angry | Thinking | Excited | Confused

record FacialExpression =
  emotion :: EmotionType
  intensity :: real
  eyeOpenLeft :: real
  eyeOpenRight :: real
  eyeLookX :: real
  eyeLookY :: real
  pupilDilation :: real
  browLeftHeight :: real
  browRightHeight :: real
  browLeftAngle :: real
  browRightAngle :: real
  mouthSmile :: real
  mouthOpen :: real
  mouthWidth :: real
  jawOpen :: real
  cheekPuff :: real
  noseWrinkle :: real
  blushIntensity :: real

definition NEUTRAL_EXPRESSION :: FacialExpression where
  "NEUTRAL_EXPRESSION =
     \<lparr> emotion = Neutral, intensity = 0, eyeOpenLeft = 1, eyeOpenRight = 1, eyeLookX = 0,
       eyeLookY = 0, pupilDilation = 1, browLeftHeight = 0, browRightHeight = 0,
       browLeftAngle = 0, browRightAngle = 0, mouthSmile = 0, mouthOpen = 0, mouthWidth = 1,
       jawOpen = 0, cheekPuff = 0, noseWrinkle = 0, blushIntensity = 0 \<rparr>"

text \<open>
  The keys a preset may hold: the sixteen face parameters. A preset is a
  \<^verbatim>\<open>Partial<FacialExpression>\<close>; none of the eight literals has the key
  \<^verbatim>\<open>emotion\<close> or \<^verbatim>\<open>intensity\<close>.
\<close>

datatype ExpressionKey =
  EyeOpenLeft | EyeOpenRight | EyeLookX | EyeLookY | PupilDilation
| BrowLeftHeight | BrowRightHeight | BrowLeftAngle | BrowRightAngle
| MouthSmile | MouthOpen | MouthWidth | JawOpen | CheekPuff | NoseWrinkle | BlushIntensity

text \<open>\<^verbatim>\<open>(expr as any)[key]\<close>, read and written.\<close>

fun getKey :: "ExpressionKey \<Rightarrow> FacialExpression \<Rightarrow> real" where
  "getKey EyeOpenLeft e = eyeOpenLeft e"
| "getKey EyeOpenRight e = eyeOpenRight e"
| "getKey EyeLookX e = eyeLookX e"
| "getKey EyeLookY e = eyeLookY e"
| "getKey PupilDilation e = pupilDilation e"
| "getKey BrowLeftHeight e = browLeftHeight e"
| "getKey BrowRightHeight e = browRightHeight e"
| "getKey BrowLeftAngle e = browLeftAngle e"
| "getKey BrowRightAngle e = browRightAngle e"
| "getKey MouthSmile e = mouthSmile e"
| "getKey MouthOpen e = mouthOpen e"
| "getKey MouthWidth e = mouthWidth e"
| "getKey JawOpen e = jawOpen e"
| "getKey CheekPuff e = cheekPuff e"
| "getKey NoseWrinkle e = noseWrinkle e"
| "getKey BlushIntensity e = blushIntensity e"

fun setKey :: "ExpressionKey \<Rightarrow> real \<Rightarrow> FacialExpression \<Rightarrow> FacialExpression" where
  "setKey EyeOpenLeft v e = e\<lparr>eyeOpenLeft := v\<rparr>"
| "setKey EyeOpenRight v e = e\<lparr>eyeOpenRight := v\<rparr>"
| "setKey EyeLookX v e = e\<lparr>eyeLookX := v\<rparr>"
| "setKey EyeLookY v e = e\<lparr>eyeLookY := v\<rparr>"
| "setKey PupilDilation v e = e\<lparr>pupilDilation := v\<rparr>"
| "setKey BrowLeftHeight v e = e\<lparr>browLeftHeight := v\<rparr>"
| "setKey BrowRightHeight v e = e\<lparr>browRightHeight := v\<rparr>"
| "setKey BrowLeftAngle v e = e\<lparr>browLeftAngle := v\<rparr>"
| "setKey BrowRightAngle v e = e\<lparr>browRightAngle := v\<rparr>"
| "setKey MouthSmile v e = e\<lparr>mouthSmile := v\<rparr>"
| "setKey MouthOpen v e = e\<lparr>mouthOpen := v\<rparr>"
| "setKey MouthWidth v e = e\<lparr>mouthWidth := v\<rparr>"
| "setKey JawOpen v e = e\<lparr>jawOpen := v\<rparr>"
| "setKey CheekPuff v e = e\<lparr>cheekPuff := v\<rparr>"
| "setKey NoseWrinkle v e = e\<lparr>noseWrinkle := v\<rparr>"
| "setKey BlushIntensity v e = e\<lparr>blushIntensity := v\<rparr>"

text \<open>The presets, each in the order of its literal.\<close>

fun EXPRESSIONS :: "EmotionType \<Rightarrow> (ExpressionKey \<times> real) list" where
  "EXPRESSIONS Neutral = []"
| "EXPRESSIONS Happy =
     [(EyeOpenLeft, 0.85), (EyeOpenRight, 0.85), (BrowLeftHeight, 0.3), (BrowRightHeight, 0.3),
      (MouthSmile, 0.8), (MouthWidth, 1.2), (CheekPuff, 0.2), (BlushIntensity, 0.15)]"
| "EXPRESSIONS Sad =
     [(EyeOpenLeft, 0.7), (EyeOpenRight, 0.7), (EyeLookY, - 0.3), (BrowLeftHeight, - 0.4),
      (BrowRightHeight, - 0.4), (BrowLeftAngle, 0.5), (BrowRightAngle, 0.5),
      (MouthSmile, - 0.6), (MouthWidth, 0.85)]"
| "EXPRESSIONS Surprised =
     [(EyeOpenLeft, 1.4), (EyeOpenRight, 1.4), (PupilDilation, 1.3), (BrowLeftHeight, 0.9),
      (BrowRightHeight, 0.9), (MouthOpen, 0.6), (MouthSmile, 0), (JawOpen, 0.4)]"
| "EXPRESSIONS Angry =
     [(EyeOpenLeft, 0.8), (EyeOpenRight, 0.8), (BrowLeftHeight, - 0.5), (BrowRightHeight, - 0.5),
      (BrowLeftAngle, - 0.7), (BrowRightAngle, - 0.7), (MouthSmile, - 0.3), (MouthWidth, 0.9),
      (NoseWrinkle, 0.6), (JawOpen, 0.15)]"
| "EXPRESSIONS Thinking =
     [(EyeOpenLeft, 0.9), (EyeOpenRight, 0.75), (EyeLookX, 0.4), (EyeLookY, 0.3),
      (BrowLeftHeight, 0.4), (BrowRightHeight, - 0.1), (MouthSmile, 0.1), (MouthWidth, 0.9)]"
| "EXPRESSIONS Excited =
     [(EyeOpenLeft, 1.3), (EyeOpenRight, 1.3), (PupilDilation, 1.2), (BrowLeftHeight, 0.7),
      (BrowRightHeight, 0.7), (MouthSmile, 1.0), (MouthOpen, 0.3), (MouthWidth, 1.3),
      (CheekPuff, 0.1), (BlushIntensity, 0.3)]"
| "EXPRESSIONS Confused =
     [(EyeOpenLeft, 1.1), (EyeOpenRight, 0.8), (EyeLookX, 0.2), (BrowLeftHeight, 0.6),
      (BrowRightHeight, - 0.2), (BrowLeftAngle, 0.3), (BrowRightAngle, - 0.4),
      (MouthSmile, - 0.1), (MouthWidth, 0.95)]"

text \<open>
  \<^verbatim>\<open>EMOTION_KEYWORDS\<close> in the order of the literal, which is the order
  \<^verbatim>\<open>Object.entries\<close> walks. The apostrophe of the two phrases is \<open>CHR 0x27\<close>.
\<close>

definition EMOTION_KEYWORDS :: "(EmotionType \<times> string list) list" where
  "EMOTION_KEYWORDS =
     [(Happy, [''happy'', ''joy'', ''glad'', ''great'', ''wonderful'', ''amazing'', ''love'',
               ''like'', ''good'', ''beautiful'', ''fantastic'', ''excellent'', ''awesome'',
               ''perfect'', ''fun'', ''smile'', ''laugh'', ''celebrate'', ''yes'', ''thank'',
               ''thanks'', ''welcome'', ''friend'', ''play'', ''enjoy'']),
      (Sad, [''sad'', ''sorry'', ''miss'', ''lonely'', ''cry'', ''tears'', ''unhappy'',
             ''depressed'', ''bad'', ''hurt'', ''pain'', ''lose'', ''lost'', ''fail'', ''failure'',
             ''disappoint'', ''unfortunately'', ''grief'', ''mourn'']),
      (Surprised, [''surprise'', ''wow'', ''amazing'', ''unbelievable'', ''shocked'',
                   ''incredible'', ''suddenly'', ''unexpected'', ''what'', ''really'',
                   ''seriously'', ''oh'', ''omg'']),
      (Angry, [''angry'', ''mad'', ''hate'', ''furious'', ''awful'', ''terrible'', ''horrible'',
               ''stop'', ''no'', ''wrong'', ''fight'', ''unfair'', ''annoyed'', ''frustrated'',
               ''stupid'']),
      (Thinking, [''think'', ''wonder'', ''maybe'', ''perhaps'', ''consider'', ''question'',
                  ''how'', ''why'', ''understand'', ''learn'', ''know'', ''study'', ''analyze'',
                  ''problem'', ''solve'', ''idea'']),
      (Excited, [''excited'', ''thrilled'', ''can'' @ [CHR 0x27] @ ''t wait'', ''yay'', ''hooray'',
                 ''fantastic'', ''incredible'', ''brilliant'', ''absolutely'', ''definitely'',
                 ''totally'']),
      (Confused, [''confused'', ''don'' @ [CHR 0x27] @ ''t understand'', ''what'', ''huh'',
                  ''weird'', ''strange'', ''unclear'', ''complicated'', ''difficult'', ''hard'',
                  ''where'']),
      (Neutral, [])]"

text \<open>
  The object \<open>scores\<close> has the eight emotions as its keys, in the order of
  \<open>scoreOrder\<close>, from start to end; it is a function on them, and
  \<^verbatim>\<open>Object.entries(scores)\<close> walks \<open>scoreOrder\<close>.
\<close>

definition scoreOrder :: "EmotionType list" where
  "scoreOrder = [Neutral, Happy, Sad, Surprised, Angry, Thinking, Excited, Confused]"

definition initialScores :: "EmotionType \<Rightarrow> real" where
  "initialScores e = (if e = Neutral then 0.1 else 0)"

text \<open>The inner loop over the keyword lists, for one word.\<close>

fun countWord :: "string \<Rightarrow> (EmotionType \<times> string list) list \<Rightarrow> (EmotionType \<Rightarrow> real) \<Rightarrow> EmotionType \<Rightarrow> real" where
  "countWord word [] scores = scores"
| "countWord word ((emo, keywords) # rest) scores =
     countWord word rest (if word \<in> set keywords then scores(emo := scores emo + 1) else scores)"

text \<open>The outer loop over the words.\<close>

fun countWords :: "string list \<Rightarrow> (EmotionType \<Rightarrow> real) \<Rightarrow> EmotionType \<Rightarrow> real" where
  "countWords [] scores = scores"
| "countWords (word # rest) scores = countWords rest (countWord word EMOTION_KEYWORDS scores)"

definition boostExclamations :: "string \<Rightarrow> (EmotionType \<Rightarrow> real) \<Rightarrow> EmotionType \<Rightarrow> real" where
  "boostExclamations text scores =
     (let exclamations = countChar (CHR ''!'') text in
      if exclamations > 0 then
        (let s1 = scores(Excited := scores Excited + real exclamations * 0.3)
         in s1(Surprised := s1 Surprised + real exclamations * 0.2))
      else scores)"

definition boostQuestions :: "string \<Rightarrow> (EmotionType \<Rightarrow> real) \<Rightarrow> EmotionType \<Rightarrow> real" where
  "boostQuestions text scores =
     (let questions = countChar (CHR ''?'') text in
      if questions > 0 then
        (let s1 = scores(Thinking := scores Thinking + real questions * 0.3)
         in s1(Confused := s1 Confused + real questions * 0.2))
      else scores)"

text \<open>The scores at the point where the winner is chosen.\<close>

definition emotionScores :: "string \<Rightarrow> EmotionType \<Rightarrow> real" where
  "emotionScores text =
     boostQuestions text
       (boostExclamations text
          (countWords (splitWhitespace (toLowerCase text)) initialScores))"

text \<open>
  The loop that finds the winner: \<open>(maxEmotion, maxScore)\<close> starts as
  \<open>(Neutral, 0)\<close> and moves only to a strictly higher score.
\<close>

fun findMax :: "(EmotionType \<Rightarrow> real) \<Rightarrow> EmotionType list \<Rightarrow> EmotionType \<times> real \<Rightarrow> EmotionType \<times> real" where
  "findMax scores [] best = best"
| "findMax scores (e # rest) (maxEmotion, maxScore) =
     findMax scores rest (if scores e > maxScore then (e, scores e) else (maxEmotion, maxScore))"

text \<open>The result object \<^verbatim>\<open>{ emotion, intensity }\<close> is the pair.\<close>

definition analyzeEmotion :: "string \<Rightarrow> EmotionType \<times> real" where
  "analyzeEmotion text =
     (let (maxEmotion, maxScore) = findMax (emotionScores text) scoreOrder (Neutral, 0)
      in (maxEmotion, min 1 (maxScore / 3)))"

text \<open>
  \<^verbatim>\<open>getExpression\<close>: the loop over the preset's entries. Every value of a preset
  is a number, so the \<^verbatim>\<open>typeof\<close> test holds for each entry, and every key is a
  key of \<open>NEUTRAL_EXPRESSION\<close>, so \<^verbatim>\<open>?? 0\<close> never applies.
\<close>

fun blendPreset :: "real \<Rightarrow> (ExpressionKey \<times> real) list \<Rightarrow> FacialExpression \<Rightarrow> FacialExpression" where
  "blendPreset i [] result = result"
| "blendPreset i ((key, v) # rest) result =
     blendPreset i rest
       (setKey key (getKey key NEUTRAL_EXPRESSION + (v - getKey key NEUTRAL_EXPRESSION) * i) result)"

definition getExpression :: "EmotionType \<Rightarrow> real \<Rightarrow> FacialExpression" where
  "getExpression emo i =
     blendPreset i (EXPRESSIONS emo) (NEUTRAL_EXPRESSION\<lparr>emotion := emo, intensity := i\<rparr>)"

text \<open>The preset value of a key, if the preset has the key.\<close>

definition presetValue :: "EmotionType \<Rightarrow> ExpressionKey \<Rightarrow> real option" where
  "presetValue emo key = map_of (EXPRESSIONS emo) key"

section \<open>Lip-sync engine (\<^verbatim>\<open>lip-sync-engine.ts\<close>)\<close>

text \<open>
  \<^verbatim>\<open>Viseme\<close>. Three of its fields share their names with fields of
  \<^verbatim>\<open>FacialExpression\<close>; all fields of the record carry the prefix \<open>v_\<close>.
\<close>

record Viseme =
  v_name :: string
  v_mouthOpen :: real
  v_mouthWidth :: real
  v_lipRound :: real
  v_tongueOut :: real
  v_jawOpen :: real
  v_upperLipRaise :: real

definition viseme_rest :: Viseme where
  "viseme_rest = \<lparr> v_name = ''Rest'', v_mouthOpen = 0, v_mouthWidth = 1, v_lipRound = 0,
                    v_tongueOut = 0, v_jawOpen = 0, v_upperLipRaise = 0 \<rparr>"

definition VISEMES :: "(string \<times> Viseme) list" where
  "VISEMES =
     [(''rest'', viseme_rest),
      (''mbp'', \<lparr> v_name = ''M/B/P'', v_mouthOpen = 0, v_mouthWidth = 0.9, v_lipRound = 0,
                 v_tongueOut = 0, v_jawOpen = 0, v_upperLipRaise = 0 \<rparr>),
      (''fv'', \<lparr> v_name = ''F/V'', v_mouthOpen = 0.1, v_mouthWidth = 0.95, v_lipRound = 0,
                v_tongueOut = 0, v_jawOpen = 0.05, v_upperLipRaise = 0.4 \<rparr>),
      (''th'', \<lparr> v_name = ''TH'', v_mouthOpen = 0.15, v_mouthWidth = 1, v_lipRound = 0,
                v_tongueOut = 0.5, v_jawOpen = 0.1, v_upperLipRaise = 0 \<rparr>),
      (''tdnl'', \<lparr> v_name = ''T/D/N/L'', v_mouthOpen = 0.15, v_mouthWidth = 1, v_lipRound = 0,
                  v_tongueOut = 0.1, v_jawOpen = 0.1, v_upperLipRaise = 0 \<rparr>),
      (''sz'', \<lparr> v_name = ''S/Z'', v_mouthOpen = 0.1, v_mouthWidth = 1.1, v_lipRound = 0,
                v_tongueOut = 0, v_jawOpen = 0.05, v_upperLipRaise = 0 \<rparr>),
      (''shch'', \<lparr> v_name = ''SH/CH'', v_mouthOpen = 0.15, v_mouthWidth = 0.85, v_lipRound = 0.4,
                  v_tongueOut = 0, v_jawOpen = 0.1, v_upperLipRaise = 0 \<rparr>),
      (''kgng'', \<lparr> v_name = ''K/G'', v_mouthOpen = 0.25, v_mouthWidth = 1, v_lipRound = 0,
                  v_tongueOut = 0, v_jawOpen = 0.2, v_upperLipRaise = 0 \<rparr>),
      (''r'', \<lparr> v_name = ''R'', v_mouthOpen = 0.2, v_mouthWidth = 0.85, v_lipRound = 0.3,
               v_tongueOut = 0, v_jawOpen = 0.15, v_upperLipRaise = 0 \<rparr>),
      (''w'', \<lparr> v_name = ''W'', v_mouthOpen = 0.15, v_mouthWidth = 0.65, v_lipRound = 0.7,
               v_tongueOut = 0, v_jawOpen = 0.1, v_upperLipRaise = 0 \<rparr>),
      (''aa'', \<lparr> v_name = ''AA (father)'', v_mouthOpen = 0.7, v_mouthWidth = 1.1, v_lipRound = 0,
                v_tongueOut = 0, v_jawOpen = 0.6, v_upperLipRaise = 0 \<rparr>),
      (''ae'', \<lparr> v_name = ''AE (cat)'', v_mouthOpen = 0.5, v_mouthWidth = 1.2, v_lipRound = 0,
                v_tongueOut = 0, v_jawOpen = 0.4, v_upperLipRaise = 0 \<rparr>),
      (''ah'', \<lparr> v_name = ''AH (but)'', v_mouthOpen = 0.4, v_mouthWidth = 1, v_lipRound = 0,
                v_tongueOut = 0, v_jawOpen = 0.35, v_upperLipRaise = 0 \<rparr>),
      (''ee'', \<lparr> v_name = ''EE (feet)'', v_mouthOpen = 0.2, v_mouthWidth = 1.3, v_lipRound = 0,
                v_tongueOut = 0, v_jawOpen = 0.1, v_upperLipRaise = 0 \<rparr>),
      (''eh'', \<lparr> v_name = ''EH (bed)'', v_mouthOpen = 0.35, v_mouthWidth = 1.15, v_lipRound = 0,
                v_tongueOut = 0, v_jawOpen = 0.25, v_upperLipRaise = 0 \<rparr>),
      (''ih'', \<lparr> v_name = ''IH (sit)'', v_mouthOpen = 0.25, v_mouthWidth = 1.2, v_lipRound = 0,
                v_tongueOut = 0, v_jawOpen = 0.15, v_upperLipRaise = 0 \<rparr>),
      (''oh'', \<lparr> v_name = ''OH (go)'', v_mouthOpen = 0.45, v_mouthWidth = 0.7, v_lipRound = 0.8,
                v_tongueOut = 0, v_jawOpen = 0.35, v_upperLipRaise = 0 \<rparr>),
      (''oo'', \<lparr> v_name = ''OO (food)'', v_mouthOpen = 0.3, v_mouthWidth = 0.6, v_lipRound = 0.9,
                v_tongueOut = 0, v_jawOpen = 0.2, v_upperLipRaise = 0 \<rparr>),
      (''uh'', \<lparr> v_name = ''UH (book)'', v_mouthOpen = 0.3, v_mouthWidth = 0.8, v_lipRound = 0.5,
                v_tongueOut = 0, v_jawOpen = 0.2, v_upperLipRaise = 0 \<rparr>)]"

text \<open>\<^verbatim>\<open>CHAR_TO_VISEME\<close>; its keys are single characters.\<close>

definition CHAR_TO_VISEME :: "(char \<times> string) list" where
  "CHAR_TO_VISEME =
     [(CHR ''b'', ''mbp''), (CHR ''m'', ''mbp''), (CHR ''p'', ''mbp''),
      (CHR ''f'', ''fv''), (CHR ''v'', ''fv''),
      (CHR ''t'', ''tdnl''), (CHR ''d'', ''tdnl''), (CHR ''n'', ''tdnl''), (CHR ''l'', ''tdnl''),
      (CHR ''s'', ''sz''), (CHR ''z'', ''sz''),
      (CHR ''k'', ''kgng''), (CHR ''g'', ''kgng''),
      (CHR ''r'', ''r''),
      (CHR ''w'', ''w''),
      (CHR ''h'', ''ah''),
      (CHR ''j'', ''shch''), (CHR ''y'', ''ee''),
      (CHR ''c'', ''kgng''),
      (CHR ''q'', ''kgng''),
      (CHR ''x'', ''kgng''),
      (CHR ''a'', ''ae''),
      (CHR ''e'', ''eh''),
      (CHR ''i'', ''ih''),
      (CHR ''o'', ''oh''),
      (CHR ''u'', ''uh''),
      (CHR '' '', ''rest'')]"

record LipSyncFrame =
  viseme :: Viseme
  character :: string
  time :: real
  duration :: real

text \<open>\<^verbatim>\<open>VISEMES[CHAR_TO_VISEME[char] || 'rest'] || VISEMES.rest\<close>\<close>

definition visemeOfChar :: "char \<Rightarrow> Viseme" where
  "visemeOfChar c =
     (let visemeKey = (case map_of CHAR_TO_VISEME c of Some k \<Rightarrow> k | None \<Rightarrow> ''rest'')
      in case map_of VISEMES visemeKey of Some v \<Rightarrow> v | None \<Rightarrow> viseme_rest)"

definition charDuration :: "real \<Rightarrow> char \<Rightarrow> real" where
  "charDuration msPerChar c = (if c \<in> set ''aeiou'' then msPerChar * 1.3 else msPerChar * 0.8)"

text \<open>
  The \<^verbatim>\<open>for (const char of chars)\<close> loop, with the running \<open>time\<close> as an
  argument; the frames come out in the order in which the loop pushes them.
\<close>

fun lipSyncLoop :: "real \<Rightarrow> string \<Rightarrow> real \<Rightarrow> LipSyncFrame list" where
  "lipSyncLoop msPerChar [] t = []"
| "lipSyncLoop msPerChar (c # chars) t =
     \<lparr> viseme = visemeOfChar c, character = [c], time = t, duration = charDuration msPerChar c \<rparr>
     # lipSyncLoop msPerChar chars (t + charDuration msPerChar c)"

definition generateLipSync :: "string \<Rightarrow> real \<Rightarrow> LipSyncFrame list" where
  "generateLipSync text wordsPerMinute =
     lipSyncLoop ((60000 / wordsPerMinute) / 5) (toLowerCase text) 0"

text \<open>
  The loop \<^verbatim>\<open>for (let i = frames.length - 1; i >= 0; i--)\<close>; the argument \<open>n\<close>
  is \<open>i + 1\<close>, so the loop ends at \<open>n = 0\<close>.
\<close>

fun scanBack :: "LipSyncFrame list \<Rightarrow> real \<Rightarrow> nat \<Rightarrow> Viseme" where
  "scanBack frames currentTime 0 = viseme_rest"
| "scanBack frames currentTime (Suc i) =
     (if currentTime \<ge> time (frames ! i) then viseme (frames ! i)
      else scanBack frames currentTime i)"

definition getVisemeAtTime :: "LipSyncFrame list \<Rightarrow> real \<Rightarrow> Viseme" where
  "getVisemeAtTime frames currentTime =
     (if length frames = 0 then viseme_rest else scanBack frames currentTime (length frames))"

section \<open>Playback controller (\<^verbatim>\<open>sign-language-3d.tsx\<close>)\<close>

text \<open>
  The component \<^verbatim>\<open>SignLanguage3D\<close> keeps its state in React state variables and
  two refs, and runs under the browser's event loop. The model makes both explicit:
  \<^item> \<open>Controller\<close> holds the state variables, the two refs, and what the event
    loop holds for the component: the pending timeouts and intervals, the next
    timer handle and the wall clock. \<^verbatim>\<open>setTimeout\<close> and \<^verbatim>\<open>setInterval\<close> draw
    their handles from one counter that starts at 1, and \<^verbatim>\<open>clearTimeout\<close> and
    \<^verbatim>\<open>clearInterval\<close> cancel a timer of either kind, as in a browser.
  \<^item> A callback created by \<^verbatim>\<open>useCallback\<close> reads the values of the rendering
    that created it. \<open>Closure\<close> is that set of values. A handler called from the
    user interface gets the closure of the current state (\<open>render\<close>); a timeout keeps
    the closure it was scheduled with, since \<^verbatim>\<open>advancePlayback\<close> passes itself on.
  \<^item> The state variables for the view, the skin tone, the mirror flag, the facial
    expression and the detected emotion play no part in playback and are left out.
\<close>

datatype SignMode = Signs | Spell

record HeadTilt =
  tilt_x :: real
  tilt_y :: real
  tilt_z :: real

record Closure =
  c_signMode :: SignMode
  c_glossItems :: "SignGlossItem list"
  c_spellChars :: string
  c_currentItemIndex :: int
  c_currentKeyframe :: int
  c_currentLetterIndex :: int
  c_speed :: real
  c_lipSyncFrames :: "LipSyncFrame list"
  c_lipSyncStartTime :: real

record Timeout =
  timeout_id :: nat
  timeout_delay :: real
  timeout_closure :: Closure

record Interval =
  interval_id :: nat
  interval_closure :: Closure

record Controller =
  text_prop :: string
  signMode :: SignMode
  languageMode :: SignLanguageMode
  playing :: bool
  currentItemIndex :: int
  currentKeyframe :: int
  currentLetterIndex :: int
  currentPose :: HandPose
  speed :: real
  currentViseme :: Viseme
  headTilt :: HeadTilt
  lipSyncFrames :: "LipSyncFrame list"
  lipSyncStartTime :: real
  timerRef :: "nat option"
  lipSyncIntervalRef :: "nat option"
  timeouts :: "Timeout list"
  intervals :: "Interval list"
  nextHandle :: nat
  clock :: real
  onPlayPause_calls :: "bool list"

text \<open>
  \<^verbatim>\<open>const glossItems = textToSignGloss(text, languageMode)\<close>. The resolver
  never throws (lemma \<open>textToSignGloss_scanWords\<close> below), so the second case
  does not occur.
\<close>

definition glossItemsOf :: "Controller \<Rightarrow> SignGlossItem list" where
  "glossItemsOf s =
     (case textToSignGloss (text_prop s) (languageMode s) of Inr items \<Rightarrow> items | Inl e \<Rightarrow> [])"

text \<open>
  \<^verbatim>\<open>text.replace(/[^a-zA-Z\s]/g, '').toLowerCase().split('').filter(Boolean)\<close>:
  a list of one-character strings, that is, the characters.
\<close>

definition spellCharsOf :: "Controller \<Rightarrow> string" where
  "spellCharsOf s = toLowerCase (filter (\<lambda>c. isLower c \<or> isUpper c \<or> isSpace c) (text_prop s))"

definition render :: "Controller \<Rightarrow> Closure" where
  "render s =
     \<lparr> c_signMode = signMode s, c_glossItems = glossItemsOf s, c_spellChars = spellCharsOf s,
       c_currentItemIndex = currentItemIndex s, c_currentKeyframe = currentKeyframe s,
       c_currentLetterIndex = currentLetterIndex s, c_speed = speed s,
       c_lipSyncFrames = lipSyncFrames s, c_lipSyncStartTime = lipSyncStartTime s \<rparr>"

text \<open>\<^verbatim>\<open>xs[i]\<close> for a number \<open>i\<close> that is an integer: \<^verbatim>\<open>undefined\<close> out of range.\<close>

definition itemAt :: "'a list \<Rightarrow> int \<Rightarrow> 'a option" where
  "itemAt xs i = (if 0 \<le> i \<and> i < int (length xs) then Some (xs ! nat i) else None)"

text \<open>\<^verbatim>\<open>clearTimeout(h)\<close> and \<^verbatim>\<open>clearInterval(h)\<close>.\<close>

definition cancel :: "nat \<Rightarrow> Controller \<Rightarrow> Controller" where
  "cancel h s =
     s\<lparr> timeouts := filter (\<lambda>t. timeout_id t \<noteq> h) (timeouts s),
        intervals := filter (\<lambda>v. interval_id v \<noteq> h) (intervals s) \<rparr>"

text \<open>A ref is truthy when it holds a handle other than \<open>0\<close>.\<close>

definition clearTimer :: "Controller \<Rightarrow> Controller" where
  "clearTimer s =
     (case timerRef s of
        Some h \<Rightarrow> (if h \<noteq> 0 then (cancel h s)\<lparr>timerRef := None\<rparr> else s)
      | None \<Rightarrow> s)"

definition stopLipSync :: "Controller \<Rightarrow> Controller" where
  "stopLipSync s =
     (case lipSyncIntervalRef s of
        Some h \<Rightarrow> (if h \<noteq> 0 then (cancel h s)\<lparr>lipSyncIntervalRef := None\<rparr> else s)
      | None \<Rightarrow> s)
     \<lparr>currentViseme := viseme_rest\<rparr>"

definition stopPlaying :: "Controller \<Rightarrow> Controller" where
  "stopPlaying s =
     (let s1 = stopLipSync (clearTimer (s\<lparr>playing := False\<rparr>))
      in s1\<lparr>onPlayPause_calls := onPlayPause_calls s1 @ [False]\<rparr>)"

text \<open>
  \<^verbatim>\<open>startLipSync\<close>: the interval's callback reads \<^verbatim>\<open>lipSyncFrames\<close> and
  \<^verbatim>\<open>lipSyncStartTime\<close> of the rendering that created it.
\<close>

definition startLipSync :: "Closure \<Rightarrow> Controller \<Rightarrow> Controller" where
  "startLipSync c s =
     (let s1 = (case lipSyncIntervalRef s of
                  Some h \<Rightarrow> (if h \<noteq> 0 then cancel h s else s)
                | None \<Rightarrow> s);
          s2 = s1\<lparr>lipSyncStartTime := clock s1\<rparr>
      in s2\<lparr> intervals := intervals s2 @ [\<lparr> interval_id = nextHandle s2, interval_closure = c \<rparr>],
             lipSyncIntervalRef := Some (nextHandle s2),
             nextHandle := Suc (nextHandle s2) \<rparr>)"

text \<open>\<^verbatim>\<open>timerRef.current = setTimeout(advancePlayback, delay)\<close>\<close>

definition schedule :: "Closure \<Rightarrow> real \<Rightarrow> Controller \<Rightarrow> Controller" where
  "schedule c delay s =
     s\<lparr> timeouts := timeouts s @
          [\<lparr> timeout_id = nextHandle s, timeout_delay = delay, timeout_closure = c \<rparr>],
        timerRef := Some (nextHandle s),
        nextHandle := Suc (nextHandle s) \<rparr>"

text \<open>\<^verbatim>\<open>durations?.[k] || fallback\<close>: a missing list, a missing entry and \<open>0\<close> are falsy.\<close>

definition durationOr :: "real list option \<Rightarrow> int \<Rightarrow> real \<Rightarrow> real" where
  "durationOr ds k fallback =
     (case ds of
        None \<Rightarrow> fallback
      | Some l \<Rightarrow> (case itemAt l k of
                     None \<Rightarrow> fallback
                   | Some d \<Rightarrow> (if d = 0 then fallback else d)))"

text \<open>
  \<^verbatim>\<open>(item?.type === 'word' && item.animation?.durations?.[0]) || 600\<close>. A value
  inherited from the prototype has no \<^verbatim>\<open>durations\<close>.
\<close>

definition firstDelay :: "SignGlossItem option \<Rightarrow> real" where
  "firstDelay item =
     (case item of
        None \<Rightarrow> 600
      | Some it \<Rightarrow>
          (if item_type it = Word then
             (case animation it of
                Some (Animation a) \<Rightarrow> durationOr (durations a) 0 600
              | Some (InheritedProperty k) \<Rightarrow> 600
              | None \<Rightarrow> 600)
           else 600))"

definition nextItem :: "Controller \<Rightarrow> Controller" where
  "nextItem s =
     s\<lparr> currentItemIndex := currentItemIndex s + 1, currentKeyframe := 0, currentLetterIndex := 0 \<rparr>"

text \<open>
  \<^verbatim>\<open>advancePlayback\<close>, with the closure \<open>c\<close> it reads. State setters of the form
  \<^verbatim>\<open>prev => prev + 1\<close> act on the current state \<open>s\<close>. For a word item whose
  \<^verbatim>\<open>animation\<close> is a value inherited from the prototype,
  \<^verbatim>\<open>item.animation.poses\<close> is \<^verbatim>\<open>undefined\<close> and reading its \<^verbatim>\<open>length\<close> throws
  before anything is changed.
\<close>

definition advancePlayback :: "Closure \<Rightarrow> Controller \<Rightarrow> error + Controller" where
  "advancePlayback c s =
     (if c_signMode c = Signs then
        (case itemAt (c_glossItems c) (c_currentItemIndex c) of
           None \<Rightarrow> Inr (stopPlaying s)
         | Some item \<Rightarrow>
             (if item_type item = Word \<and> animation item \<noteq> None then
                (case animation item of
                   Some (Animation a) \<Rightarrow>
                     (let maxKf = int (length (poses a)) - 1 in
                      if c_currentKeyframe c < maxKf then
                        Inr (schedule c
                               (durationOr (durations a) (c_currentKeyframe c + 1) 500 / c_speed c)
                               (s\<lparr>currentKeyframe := currentKeyframe s + 1\<rparr>))
                      else if loop a = Some True then
                        Inr (schedule c (400 / c_speed c) (s\<lparr>currentKeyframe := 0\<rparr>))
                      else if c_currentItemIndex c < int (length (c_glossItems c)) - 1 then
                        Inr (schedule c (600 / c_speed c)
                               ((nextItem s)\<lparr>lipSyncStartTime := clock s\<rparr>))
                      else Inr (stopPlaying s))
                 | _ \<Rightarrow> Inl TypeError)
              else if item_type item = Fingerspell \<and> letterPoses item \<noteq> None then
                (case letterPoses item of
                   Some lps \<Rightarrow>
                     (if c_currentLetterIndex c < int (length lps) - 1 then
                        Inr (schedule c (700 / c_speed c)
                               (s\<lparr>currentLetterIndex := currentLetterIndex s + 1\<rparr>))
                      else if c_currentItemIndex c < int (length (c_glossItems c)) - 1 then
                        Inr (schedule c (800 / c_speed c) (nextItem s))
                      else Inr (stopPlaying s))
                 | None \<Rightarrow> Inr s)
              else Inr s))
      else
        (if c_currentLetterIndex c < int (length (c_spellChars c)) - 1 then
           Inr (schedule c (700 / c_speed c) (s\<lparr>currentLetterIndex := currentLetterIndex s + 1\<rparr>))
         else Inr (stopPlaying s)))"

definition startPlaying :: "Closure \<Rightarrow> Controller \<Rightarrow> Controller" where
  "startPlaying c s =
     (let s1 = s\<lparr>playing := True, onPlayPause_calls := onPlayPause_calls s @ [True]\<rparr>;
          s2 = startLipSync c s1;
          item = itemAt (c_glossItems c) (c_currentItemIndex c)
      in schedule c (firstDelay item / c_speed c) s2)"

definition reset :: "Controller \<Rightarrow> Controller" where
  "reset s =
     (stopPlaying s)
       \<lparr> currentItemIndex := 0, currentKeyframe := 0, currentLetterIndex := 0,
         currentPose := REST_POSE, currentViseme := viseme_rest,
         headTilt := \<lparr> tilt_x = 0, tilt_y = 0, tilt_z = 0 \<rparr> \<rparr>"

definition stepForward :: "Closure \<Rightarrow> Controller \<Rightarrow> Controller" where
  "stepForward c s =
     (if c_signMode c = Signs then
        (if c_currentItemIndex c < int (length (c_glossItems c)) - 1 then nextItem s else s)
      else
        (if c_currentLetterIndex c < int (length (c_spellChars c)) - 1
         then s\<lparr>currentLetterIndex := currentLetterIndex s + 1\<rparr> else s))"

definition stepBackward :: "Closure \<Rightarrow> Controller \<Rightarrow> Controller" where
  "stepBackward c s =
     (if c_signMode c = Signs then
        (if c_currentItemIndex c > 0
         then s\<lparr> currentItemIndex := currentItemIndex s - 1, currentKeyframe := 0,
                currentLetterIndex := 0 \<rparr>
         else s)
      else
        (if c_currentLetterIndex c > 0
         then s\<lparr>currentLetterIndex := currentLetterIndex s - 1\<rparr> else s))"

text \<open>
  The buttons of the sign sequence:
  \<^verbatim>\<open>setCurrentItemIndex(idx); setCurrentKeyframe(0); setCurrentLetterIndex(0)\<close>
\<close>

definition jumpTo :: "nat \<Rightarrow> Controller \<Rightarrow> Controller" where
  "jumpTo idx s =
     s\<lparr> currentItemIndex := int idx, currentKeyframe := 0, currentLetterIndex := 0 \<rparr>"

text \<open>The interval's callback: it samples the frames of its closure at the elapsed time.\<close>

definition sampleViseme :: "Closure \<Rightarrow> Controller \<Rightarrow> Controller" where
  "sampleViseme c s =
     s\<lparr>currentViseme := getVisemeAtTime (c_lipSyncFrames c) (clock s - c_lipSyncStartTime c)\<rparr>"

subsection \<open>The component under its events\<close>

text \<open>
  The values the JSX computes for its buttons.
\<close>

definition totalItems :: "Controller \<Rightarrow> int" where
  "totalItems s =
     (if signMode s = Signs then int (length (glossItemsOf s)) else int (length (spellCharsOf s)))"

definition currentIdx :: "Controller \<Rightarrow> int" where
  "currentIdx s = (if signMode s = Signs then currentItemIndex s else currentLetterIndex s)"

text \<open>
  What can happen to a mounted component. A click reaches a handler only when the
  JSX offers the button: Play and Pause replace each other on \<^verbatim>\<open>playing\<close>, Play is
  disabled without items, the two step buttons are disabled at the ends, and the
  sequence buttons exist in signs mode, one per gloss item. The speed buttons offer
  four values. A pending timeout or interval may fire at any time (delays are not
  ordered in the model, which allows more runs than the browser does). The three
  effects that follow a rendering write the pose, the head tilt and the lip-sync
  frames; the model lets them write any values, which again allows more runs.
  Each event meets the component re-rendered after the event before it.
\<close>

datatype Event =
  ClickPlay | ClickPause | ClickStepForward | ClickStepBackward | ClickReset
| ClickItem nat | ClickSpeed real | ClickLanguage SignLanguageMode | ClickSignMode SignMode
| TimeoutFires nat | IntervalFires nat | ClockAdvances real | TextChanges string
| EffectsRun HandPose HeadTilt "LipSyncFrame list"

fun step :: "Event \<Rightarrow> Controller \<Rightarrow> Controller option" where
  "step ClickPlay s =
     (if \<not> playing s \<and> totalItems s \<noteq> 0 then Some (startPlaying (render s) s) else None)"
| "step ClickPause s = (if playing s then Some (stopPlaying s) else None)"
| "step ClickStepForward s =
     (if \<not> currentIdx s \<ge> totalItems s - 1 then Some (stepForward (render s) s) else None)"
| "step ClickStepBackward s =
     (if currentIdx s \<noteq> 0 then Some (stepBackward (render s) s) else None)"
| "step ClickReset s = Some (reset s)"
| "step (ClickItem idx) s =
     (if signMode s = Signs \<and> idx < length (glossItemsOf s) then Some (jumpTo idx s) else None)"
| "step (ClickSpeed v) s =
     (if v \<in> {0.5, 1, 1.5, 2} then Some (s\<lparr>speed := v\<rparr>) else None)"
| "step (ClickLanguage l) s = Some (reset (s\<lparr>languageMode := l\<rparr>))"
| "step (ClickSignMode m) s = Some (reset (s\<lparr>signMode := m\<rparr>))"
| "step (TimeoutFires h) s =
     (case find (\<lambda>t. timeout_id t = h) (timeouts s) of
        None \<Rightarrow> None
      | Some t \<Rightarrow>
          (let s1 = s\<lparr>timeouts := filter (\<lambda>t. timeout_id t \<noteq> h) (timeouts s)\<rparr>
           in Some (case advancePlayback (timeout_closure t) s1 of Inl e \<Rightarrow> s1 | Inr s2 \<Rightarrow> s2)))"
| "step (IntervalFires h) s =
     (case find (\<lambda>v. interval_id v = h) (intervals s) of
        None \<Rightarrow> None
      | Some v \<Rightarrow> Some (sampleViseme (interval_closure v) s))"
| "step (ClockAdvances d) s = (if 0 \<le> d then Some (s\<lparr>clock := clock s + d\<rparr>) else None)"
| "step (TextChanges t) s = Some (s\<lparr>text_prop := t\<rparr>)"
| "step (EffectsRun p h f) s = Some (s\<lparr>currentPose := p, headTilt := h, lipSyncFrames := f\<rparr>)"

fun run :: "Event list \<Rightarrow> Controller \<Rightarrow> Controller option" where
  "run [] s = Some s"
| "run (e # es) s = (case step e s of None \<Rightarrow> None | Some s' \<Rightarrow> run es s')"

text \<open>
  The component as mounted with the props \<^verbatim>\<open>text\<close> and \<^verbatim>\<open>isPlaying\<close>, at the
  wall-clock time \<open>now\<close>.
\<close>

definition mounted :: "string \<Rightarrow> bool \<Rightarrow> real \<Rightarrow> Controller" where
  "mounted txt externalPlaying now =
     \<lparr> text_prop = txt, signMode = Signs, languageMode = ASL, playing = externalPlaying,
       currentItemIndex = 0, currentKeyframe = 0, currentLetterIndex = 0,
       currentPose = REST_POSE, speed = 1, currentViseme = viseme_rest,
       headTilt = \<lparr> tilt_x = 0, tilt_y = 0, tilt_z = 0 \<rparr>,
       lipSyncFrames = [], lipSyncStartTime = 0,
       timerRef = None, lipSyncIntervalRef = None, timeouts = [], intervals = [],
       nextHandle = 1, clock = now, onPlayPause_calls = [] \<rparr>"

text \<open>
  The playback state of the claims: the flag, the advancement timer (its ref and
  what is pending) and the lip-sync sampler (its ref and what is pending).
\<close>

definition samePlayback :: "Controller \<Rightarrow> Controller \<Rightarrow> bool" where
  "samePlayback s s' =
     (playing s' = playing s \<and> timerRef s' = timerRef s \<and> timeouts s' = timeouts s \<and>
      lipSyncIntervalRef s' = lipSyncIntervalRef s \<and> intervals s' = intervals s)"

text \<open>Two states that differ at most in the three position counters.\<close>

definition onlyPositionChanged :: "Controller \<Rightarrow> Controller \<Rightarrow> bool" where
  "onlyPositionChanged s s' =
     (s' = s\<lparr> currentItemIndex := currentItemIndex s', currentKeyframe := currentKeyframe s',
              currentLetterIndex := currentLetterIndex s' \<rparr>)"

text \<open>
  The invariant of the two timers. Every pending timeout is the one whose handle
  \<open>timerRef\<close> holds, there is at most one, and one is pending only while playing;
  the same for the sampler's interval and \<open>lipSyncIntervalRef\<close>. Handles are
  positive, so a ref that holds a pending handle is truthy.
\<close>

definition timersOK :: "Controller \<Rightarrow> bool" where
  "timersOK s =
     (length (timeouts s) \<le> 1 \<and>
      (\<forall>t \<in> set (timeouts s). timerRef s = Some (timeout_id t) \<and> 0 < timeout_id t) \<and>
      (timeouts s \<noteq> [] \<longrightarrow> playing s) \<and>
      length (intervals s) \<le> 1 \<and>
      (\<forall>v \<in> set (intervals s). lipSyncIntervalRef s = Some (interval_id v) \<and> 0 < interval_id v) \<and>
      0 < nextHandle s)"

text \<open>
  A component for the examples: mounted idle on the text \<open>hello world\<close>, and the
  same after a click on Play.
\<close>

definition exampleMounted :: Controller where
  "exampleMounted = mounted ''hello world'' False 0"

definition examplePlaying :: Controller where
  "examplePlaying = startPlaying (render exampleMounted) exampleMounted"

section \<open>Interpolation boundary\<close>

lemma lerp_zero: "lerp 0 a b = a"
  by (simp add: lerp_def)

lemma lerp_one: "lerp 1 a b = b"
  by (simp add: lerp_def)

lemma wristOrZero_Some: "wrist p = Some w \<Longrightarrow> wristOrZero p = w"
  by (simp add: wristOrZero_def wristPitch_def wristYaw_def wristRoll_def)

lemma interpolatePose_exact_zero:
  "thumb (interpolatePose A B 0) = thumb A \<and> index (interpolatePose A B 0) = index A \<and>
   middle (interpolatePose A B 0) = middle A \<and> ring (interpolatePose A B 0) = ring A \<and>
   pinky (interpolatePose A B 0) = pinky A \<and>
   wrist (interpolatePose A B 0) = Some (wristOrZero A)"
  by (simp add: interpolatePose_def interpolatePoseWith_def interpolateFingerWith_def lerp_zero
      wristOrZero_def)

lemma interpolatePose_exact_one:
  "thumb (interpolatePose A B 1) = thumb B \<and> index (interpolatePose A B 1) = index B \<and>
   middle (interpolatePose A B 1) = middle B \<and> ring (interpolatePose A B 1) = ring B \<and>
   pinky (interpolatePose A B 1) = pinky B \<and>
   wrist (interpolatePose A B 1) = Some (wristOrZero B)"
  by (simp add: interpolatePose_def interpolatePoseWith_def interpolateFingerWith_def lerp_one
      wristOrZero_def)

subsection \<open>Rounding\<close>

text \<open>The binade of a number that lies between two neighbouring powers of two.\<close>

lemma binade_eq:
  assumes "2 powi e \<le> \<bar>x\<bar>" "\<bar>x\<bar> < 2 powi (e + 1)" "- 1022 \<le> e"
  shows "binade x = e"
proof -
  have pos: "0 < \<bar>x\<bar>"
    using assms(1) by (smt (verit) zero_less_power_int)
  have "2 powr real_of_int e \<le> \<bar>x\<bar> \<and> \<bar>x\<bar> < 2 powr (real_of_int e + 1)"
    using assms(1,2) powr_real_of_int' [of 2 e] powr_real_of_int' [of 2 "e + 1"] by simp
  then have "\<lfloor>log 2 \<bar>x\<bar>\<rfloor> = e"
    using floor_log_eq_powr_iff [of "\<bar>x\<bar>" 2 e] pos by simp
  with assms(3) show ?thesis by (simp add: binade_def)
qed

lemma fl_at:
  assumes "2 powi e \<le> \<bar>x\<bar>" "\<bar>x\<bar> < 2 powi (e + 1)" "- 1022 \<le> e"
  shows "fl x = of_int (roundHalfEven (x / 2 powi (e - 52))) * 2 powi (e - 52)"
proof -
  have "x \<noteq> 0" using assms(1) by (smt (verit) zero_less_power_int abs_zero)
  then show ?thesis by (simp add: fl_def quantum_def binade_eq [OF assms])
qed

text \<open>
  Rounding a number of magnitude in \<open>[2^(-k), 2^(1-k))\<close>: scale by \<open>2^(k+52)\<close>,
  round to an integer, scale back.
\<close>

lemma fl_small:
  assumes "1 \<le> \<bar>x\<bar> * 2 ^ k" "\<bar>x\<bar> * 2 ^ k < 2" "k \<le> 1022"
  shows "fl x = of_int (roundHalfEven (x * 2 ^ (k + 52))) / 2 ^ (k + 52)"
proof -
  have p: "(2::real) powi (- int k) = 1 / 2 ^ k"
    by (simp add: power_int_def field_simps)
  have q: "(2::real) powi (- int k + 1) = 2 / 2 ^ k"
    using power_int_add [of "2::real" "- int k" 1] p by simp
  have r: "(2::real) powi (- int k - 52) = 1 / 2 ^ (k + 52)"
    using power_int_diff [of "2::real" "- int k" 52] p by (simp add: power_add)
  have a: "2 powi (- int k) \<le> \<bar>x\<bar>"
    unfolding p using assms(1) by (simp add: field_simps)
  have b: "\<bar>x\<bar> < 2 powi (- int k + 1)"
    unfolding q using assms(2) by (simp add: field_simps)
  have c: "- 1022 \<le> - int k" using assms(3) by simp
  show ?thesis using fl_at [OF a b c] unfolding r by simp
qed

text \<open>
  The four roundings of \<open>1.5 + (0.2 - 1.5) * 1\<close>. The double of \<open>0.2\<close> is
  \<open>3602879701896397 / 2^54\<close>; the computed sum is two spacings below it.
\<close>

lemma fl_fifth: "fl 0.2 = 3602879701896397 / 18014398509481984"
  by (subst fl_small [of _ 3]) (simp_all add: roundHalfEven_def Let_def)

lemma fl_three_halves: "fl 1.5 = 1.5"
  by (subst fl_small [of _ 0]) (simp_all add: roundHalfEven_def Let_def)

lemma fl_difference:
  "fl (3602879701896397 / 18014398509481984 - 1.5) = - (5854679515581645 / 4503599627370496)"
  by (subst fl_small [of _ 0]) (simp_all add: roundHalfEven_def Let_def)

lemma fl_product:
  "fl (- (5854679515581645 / 4503599627370496) * 1) = - (5854679515581645 / 4503599627370496)"
  by (subst fl_small [of _ 0]) (simp_all add: roundHalfEven_def Let_def)

lemma fl_sum:
  "fl (1.5 + - (5854679515581645 / 4503599627370496)) = 900719925474099 / 4503599627370496"
  by (subst fl_small [of _ 3]) (simp_all add: roundHalfEven_def Let_def)

lemma lerpD_one_example: "lerpD 1 (fl 1.5) (fl 0.2) = 900719925474099 / 4503599627370496"
  by (simp only: lerpD_def fl_fifth fl_three_halves fl_difference fl_product fl_sum)

lemma lerpD_zero: "isDouble a \<Longrightarrow> lerpD 0 a b = a"
  by (simp add: lerpD_def isDouble_def fl_def)

lemma isDouble_zero_half: "isDouble 0" "isDouble (1 / 2)"
proof -
  show "isDouble 0" by (simp add: isDouble_def fl_def)
  have "fl (1 / 2) = 1 / 2"
    by (subst fl_small [of _ 1]) (simp_all add: roundHalfEven_def Let_def)
  then show "isDouble (1 / 2)" by (simp add: isDouble_def)
qed

lemma interpolateFingerD_zero:
  "fingerIsDouble fA \<Longrightarrow> interpolateFingerWith (lerpD 0) fA fB = fA"
  by (simp add: interpolateFingerWith_def fingerIsDouble_def lerpD_zero)

text \<open>
  Claim C5, as stated, fails at \<open>t = 1\<close> in the arithmetic of the program. From
  the pose of the ASL letter \<open>a\<close> to the rest pose, the index finger's
  \<^verbatim>\<open>mcp.curl\<close> goes from \<open>1.5\<close> to \<open>0.2\<close>; the interpolation at \<open>1\<close> computes
  \<open>1.5 + (0.2 - 1.5) * 1\<close> with three roundings and returns
  \<open>0.19999999999999996\<close>, not the \<open>0.2\<close> of the rest pose.
\<close>

theorem interpolatePose_one_rounds:
  "mcp_curl (index (interpolatePoseD (roundPose ASL_letter_a) (roundPose REST_POSE) 1)) =
     900719925474099 / 4503599627370496 \<and>
   mcp_curl (index (roundPose REST_POSE)) = 3602879701896397 / 18014398509481984 \<and>
   mcp_curl (index (interpolatePoseD (roundPose ASL_letter_a) (roundPose REST_POSE) 1)) \<noteq>
     mcp_curl (index (roundPose REST_POSE))"
proof -
  have a: "mcp_curl (index (roundPose ASL_letter_a)) = fl 1.5"
    by (simp only: roundPose_def roundFinger_def ASL_letter_a_def curled_def
        HandPose.simps FingerPose.simps)
  have b: "mcp_curl (index (roundPose REST_POSE)) = fl 0.2"
    by (simp only: roundPose_def roundFinger_def REST_POSE_def HandPose.simps FingerPose.simps)
  have "mcp_curl (index (interpolatePoseD (roundPose ASL_letter_a) (roundPose REST_POSE) 1)) =
          lerpD 1 (fl 1.5) (fl 0.2)"
    by (simp only: interpolatePoseD_def interpolatePoseWith_def interpolateFingerWith_def
        HandPose.simps FingerPose.simps a b)
  then have r: "mcp_curl (index (interpolatePoseD (roundPose ASL_letter_a) (roundPose REST_POSE) 1)) =
          900719925474099 / 4503599627370496"
    by (simp only: lerpD_one_example)
  have b': "mcp_curl (index (roundPose REST_POSE)) = 3602879701896397 / 18014398509481984"
    by (simp only: b fl_fifth)
  show ?thesis unfolding r b' by simp
qed

text \<open>
  Claim C5, amended. In exact arithmetic \<open>interpolatePose A B 0\<close> has the five
  fingers of \<open>A\<close> and \<open>interpolatePose A B 1\<close> the five fingers of \<open>B\<close> (all of
  \<open>mcp.curl\<close>, \<open>mcp.spread\<close>, \<open>pip.curl\<close>, \<open>dip.curl\<close>, since the finger
  records are equal), and the wrist of the result is the wrist of \<open>A\<close>, respectively
  \<open>B\<close>, where a missing wrist counts as pitch, yaw and roll all zero. In the
  double arithmetic of the program the boundary at \<open>0\<close> holds as well, for every
  pose \<open>A\<close> made of doubles; the boundary at \<open>1\<close> holds only up to the rounding
  of \<open>a + (b - a)\<close>.
\<close>

theorem interpolatePose_boundary:
  "thumb (interpolatePose A B 0) = thumb A \<and> index (interpolatePose A B 0) = index A \<and>
   middle (interpolatePose A B 0) = middle A \<and> ring (interpolatePose A B 0) = ring A \<and>
   pinky (interpolatePose A B 0) = pinky A \<and>
   wrist (interpolatePose A B 0) = Some (wristOrZero A) \<and>
   thumb (interpolatePose A B 1) = thumb B \<and> index (interpolatePose A B 1) = index B \<and>
   middle (interpolatePose A B 1) = middle B \<and> ring (interpolatePose A B 1) = ring B \<and>
   pinky (interpolatePose A B 1) = pinky B \<and>
   wrist (interpolatePose A B 1) = Some (wristOrZero B) \<and>
   (poseIsDouble A \<longrightarrow>
      thumb (interpolatePoseD A B 0) = thumb A \<and> index (interpolatePoseD A B 0) = index A \<and>
      middle (interpolatePoseD A B 0) = middle A \<and> ring (interpolatePoseD A B 0) = ring A \<and>
      pinky (interpolatePoseD A B 0) = pinky A \<and>
      wrist (interpolatePoseD A B 0) = Some (wristOrZero A))"
proof -
  have "thumb (interpolatePoseD A B 0) = thumb A \<and> index (interpolatePoseD A B 0) = index A \<and>
      middle (interpolatePoseD A B 0) = middle A \<and> ring (interpolatePoseD A B 0) = ring A \<and>
      pinky (interpolatePoseD A B 0) = pinky A \<and>
      wrist (interpolatePoseD A B 0) = Some (wristOrZero A)" if "poseIsDouble A"
    using that
    by (simp add: interpolatePoseD_def interpolatePoseWith_def poseIsDouble_def
        interpolateFingerD_zero lerpD_zero wristOrZero_def)
  with interpolatePose_exact_zero [of A B] interpolatePose_exact_one [of A B]
  show ?thesis by blast
qed

theorem interpolatePose_boundary_witness:
  "poseIsDouble \<lparr> thumb = extended (1 / 2), index = extended 0, middle = extended 0,
                  ring = extended 0, pinky = extended 0, wrist = None \<rparr> \<and>
   thumb (interpolatePoseD \<lparr> thumb = extended (1 / 2), index = extended 0, middle = extended 0,
                             ring = extended 0, pinky = extended 0, wrist = None \<rparr>
            REST_POSE 0) = extended (1 / 2) \<and>
   wrist (interpolatePoseD \<lparr> thumb = extended (1 / 2), index = extended 0, middle = extended 0,
                             ring = extended 0, pinky = extended 0, wrist = None \<rparr>
            REST_POSE 0) = Some \<lparr> pitch = 0, yaw = 0, roll = 0 \<rparr> \<and>
   pinky (interpolatePose REST_POSE ASL_letter_a 1) = curled 0"
proof -
  let ?A = "\<lparr> thumb = extended (1 / 2), index = extended 0, middle = extended 0,
              ring = extended 0, pinky = extended 0, wrist = None \<rparr>"
  have d: "poseIsDouble ?A"
    by (simp add: poseIsDouble_def fingerIsDouble_def extended_def isDouble_zero_half
        wristPitch_def wristYaw_def wristRoll_def)
  have w: "wristOrZero ?A = \<lparr> pitch = 0, yaw = 0, roll = 0 \<rparr>"
    by (simp add: wristOrZero_def wristPitch_def wristYaw_def wristRoll_def)
  have p: "pinky ASL_letter_a = curled 0" by (simp add: ASL_letter_a_def)
  from interpolatePose_boundary [of ?A REST_POSE] interpolatePose_boundary [of REST_POSE ASL_letter_a]
    d w p
  show ?thesis by simp
qed

section \<open>Normalisation of the input text\<close>

lemmas string_defs = toLowerCase_def toLowerCaseChar_def toUpperCase_def toUpperCaseChar_def
  upperLetters_def lowerLetters_def latin1Upper_def latin1Lower_def isLower_def isUpper_def
  isSpace_def whitespace_def splitWhitespace_def normalizeWords_def

lemma isLower_toLowerCaseChar: "isLower (toLowerCaseChar c) = (isLower c \<or> isUpper c)"
  by (simp add: toLowerCaseChar_def isLower_def isUpper_def upperLetters_def lowerLetters_def
      latin1Upper_def latin1Lower_def)

lemma isLower_not_isSpace: "isLower c \<Longrightarrow> \<not> isSpace c"
  by (auto simp: isLower_def isSpace_def lowerLetters_def whitespace_def)

lemma splitRuns_spaces:
  "\<forall>c \<in> set s. isSpace c \<Longrightarrow> set (splitRuns inRun cur s) \<subseteq> {cur, []}"
  by (induction s arbitrary: inRun cur) auto

lemma splitRuns_pieces:
  "\<forall>c \<in> set cur. isLower c \<Longrightarrow> \<forall>c \<in> set s. isLower c \<or> isSpace c \<Longrightarrow>
   \<forall>w \<in> set (splitRuns inRun cur s). \<forall>c \<in> set w. isLower c"
proof (induction s arbitrary: inRun cur)
  case Nil
  then show ?case by simp
next
  case (Cons d s)
  have rest: "\<forall>c \<in> set s. isLower c \<or> isSpace c"
    using Cons.prems(2) by simp
  show ?case
  proof (cases "isSpace d")
    case True
    have none: "\<forall>c \<in> set ([]::string). isLower c" by simp
    note a = Cons.IH [OF Cons.prems(1) rest, of True]
    note b = Cons.IH [OF none rest, of True]
    from a b True Cons.prems(1) show ?thesis by simp
  next
    case False
    with Cons.prems have "isLower d" by simp
    with Cons.prems(1) have more: "\<forall>c \<in> set (cur @ [d]). isLower c" by simp
    note a = Cons.IH [OF more rest, of False]
    from a False show ?thesis by simp
  qed
qed

lemma normalizeWords_lower:
  "w \<in> set (normalizeWords txt) \<Longrightarrow> w \<noteq> [] \<and> (\<forall>c \<in> set w. isLower c)"
proof -
  assume w: "w \<in> set (normalizeWords txt)"
  let ?kept = "filter (\<lambda>c. isLower c \<or> isSpace c) (toLowerCase txt)"
  have pieces: "\<forall>w \<in> set (splitRuns False [] ?kept). \<forall>c \<in> set w. isLower c"
    by (rule splitRuns_pieces) simp_all
  from w have "w \<in> set (splitRuns False [] ?kept)" and "w \<noteq> []"
    by (simp_all add: normalizeWords_def splitWhitespace_def)
  with pieces show ?thesis by blast
qed

lemma normalizeWords_no_letters:
  assumes "\<forall>c \<in> set txt. \<not> isLower c \<and> \<not> isUpper c"
  shows "normalizeWords txt = []"
proof -
  let ?kept = "filter (\<lambda>c. isLower c \<or> isSpace c) (toLowerCase txt)"
  have "\<forall>c \<in> set ?kept. isSpace c"
    using assms by (auto simp: toLowerCase_def isLower_toLowerCaseChar)
  then have "set (splitRuns False [] ?kept) \<subseteq> {[]}"
    using splitRuns_spaces [of ?kept False "[]"] by simp
  then show ?thesis
    by (auto simp: normalizeWords_def splitWhitespace_def filter_empty_conv)
qed

section \<open>The resolver loop as a recursion over the words\<close>

declare glossLoop.simps [simp del]

lemma wordAt_in: "i < length ws \<Longrightarrow> wordAt ws i = Some (ws ! i)"
  by (simp add: wordAt_def)

lemma template_Some: "template (Some s) = s"
  by (simp add: template_def)

lemma drop_one: "i + 1 = length ws \<Longrightarrow> drop i ws = [ws ! i]"
  by (metis Cons_nth_drop_Suc Suc_eq_plus1 drop_all lessI order_refl)

lemma drop_two: "i + 2 = length ws \<Longrightarrow> drop i ws = [ws ! i, ws ! (i + 1)]"
  by (metis Cons_nth_drop_Suc Suc_eq_plus1 add_2_eq_Suc' drop_all lessI less_SucI order_refl)

lemma drop_three:
  "i + 2 < length ws \<Longrightarrow> drop i ws = ws ! i # ws ! (i + 1) # ws ! (i + 2) # drop (i + 3) ws"
  by (simp add: Cons_nth_drop_Suc [symmetric] numeral_3_eq_3 numeral_2_eq_2)

text \<open>
  From any cursor \<open>i\<close> within the word list, the loop returns normally: it appends
  to what it has collected the scan \<open>scanWords\<close> of the words from \<open>i\<close> on. The induction
  is on the number of words left.
\<close>

lemma glossLoop_scanWords:
  "i \<le> length ws \<Longrightarrow> glossLoop wa lt ws i acc = Inr (acc @ scanWords wa lt (drop i ws))"
proof (induction "length ws - i" arbitrary: i acc rule: less_induct)
  case less
  have IH: "glossLoop wa lt ws j acc' = Inr (acc' @ scanWords wa lt (drop j ws))"
    if "i < j" "j \<le> length ws" for j acc'
    using less.hyps [of j acc'] that less.prems by simp
  show ?case
  proof (cases "i < length ws")
    case False
    then show ?thesis using less.prems by (subst glossLoop.simps) simp
  next
    case True
    consider (three) "i + 2 < length ws" | (two) "i + 2 = length ws" | (one) "i + 1 = length ws"
      using True by linarith
    then show ?thesis
    proof cases
      case three
      have d2: "drop (Suc (Suc i)) ws = ws ! Suc (Suc i) # drop (i + 3) ws"
        using three by (simp add: Cons_nth_drop_Suc [symmetric] numeral_3_eq_3)
      have d1: "drop (Suc i) ws = ws ! Suc i # ws ! Suc (Suc i) # drop (i + 3) ws"
        using three by (simp add: Cons_nth_drop_Suc [symmetric] numeral_3_eq_3)
      show ?thesis
        using three True
        by (subst glossLoop.simps)
           (simp add: Let_def wordAt_in template_Some drop_three IH d1 d2)
    next
      case two
      have d1: "drop (Suc i) ws = [ws ! Suc i]"
        using two by (simp add: drop_one)
      show ?thesis
        using two True
        by (subst glossLoop.simps)
           (simp add: Let_def wordAt_in template_Some drop_two IH d1)
    next
      case one
      show ?thesis
        using one True
        by (subst glossLoop.simps)
           (simp add: Let_def wordAt_in template_Some drop_one IH)
    qed
  qed
qed

lemma textToSignGloss_scanWords:
  "textToSignGloss txt mode =
     Inr (scanWords (getWordAnimations mode) (getLetterPoses mode) (normalizeWords txt))"
  by (simp add: textToSignGloss_def glossLoop_scanWords)

lemma normalizeWords_thank_you:
  "normalizeWords ''thank you very much'' = [''thank'', ''you'', ''very'', ''much'']"
  by (simp add: string_defs)

lemma scanWords_thank_you:
  "scanWords ASL_WORD_ANIMATIONS ASL_LETTER_POSES [''thank'', ''you'', ''very'', ''much''] =
     [\<lparr> item_type = Word, item_value = ''THANK YOU'',
         animation = Some (Animation ASL_sign_thank_you), letterPoses = None \<rparr>,
      \<lparr> item_type = Fingerspell, item_value = ''VERY'', animation = None,
         letterPoses = Some [ASL_letter_v, ASL_letter_e, ASL_letter_r, ASL_letter_y] \<rparr>,
      \<lparr> item_type = Fingerspell, item_value = ''MUCH'', animation = None,
         letterPoses = Some [ASL_letter_m, ASL_letter_u, ASL_letter_c, ASL_letter_h] \<rparr>]"
  by (simp add: getProperty_def ASL_WORD_ANIMATIONS_def Object_prototype_keys_def wordItem_def
      fingerspellItem_def spellPoses_def List.map_filter_def ASL_LETTER_POSES_def
      toUpperCase_def toUpperCaseChar_def upperLetters_def lowerLetters_def)

text \<open>
  The example of the specification: on \<open>thank you very much\<close> in ASL the
  resolver returns the word item \<open>THANK YOU\<close> with the table's animation for
  \<open>thank you\<close>, followed by the fingerspell items \<open>VERY\<close> and \<open>MUCH\<close> (neither
  word is a key of the table, and neither is the single word \<open>thank\<close>).
\<close>

lemma textToSignGloss_thank_you:
  "textToSignGloss ''thank you very much'' ASL =
     Inr [\<lparr> item_type = Word, item_value = ''THANK YOU'',
             animation = Some (Animation ASL_sign_thank_you), letterPoses = None \<rparr>,
          \<lparr> item_type = Fingerspell, item_value = ''VERY'', animation = None,
             letterPoses = Some [ASL_letter_v, ASL_letter_e, ASL_letter_r, ASL_letter_y] \<rparr>,
          \<lparr> item_type = Fingerspell, item_value = ''MUCH'', animation = None,
             letterPoses = Some [ASL_letter_m, ASL_letter_u, ASL_letter_c, ASL_letter_h] \<rparr>]"
  by (simp only: textToSignGloss_scanWords getWordAnimations_def getLetterPoses_def
      normalizeWords_thank_you scanWords_thank_you SignLanguageMode.distinct if_False)

text \<open>
  Claim C3. For every text and either mode the resolver returns a list: no branch
  of the loop reads a word out of range, and the loop ends. When the text has no
  letter \<open>A\<close>--\<open>Z\<close> or \<open>a\<close>--\<open>z\<close> (the empty text, white space only, punctuation
  only) the list is empty.
\<close>

theorem textToSignGloss_total:
  "(\<exists>items. textToSignGloss txt mode = Inr items) \<and>
   ((\<forall>c \<in> set txt. \<not> isLower c \<and> \<not> isUpper c) \<longrightarrow> textToSignGloss txt mode = Inr [])"
  by (simp add: textToSignGloss_scanWords normalizeWords_no_letters)

theorem textToSignGloss_total_witness:
  "textToSignGloss '''' ASL = Inr [] \<and> textToSignGloss ''   '' ISL = Inr [] \<and>
   textToSignGloss '' ?!, 42 ...'' ASL = Inr []"
  using textToSignGloss_total [of "''''" ASL] textToSignGloss_total [of "''   ''" ISL]
    textToSignGloss_total [of "'' ?!, 42 ...''" ASL]
  by (simp add: isLower_def isUpper_def lowerLetters_def upperLetters_def)

section \<open>The ISL word table over the ASL table\<close>

lemma map_of_ISL:
  "map_of ISL_WORD_ANIMATIONS =
     (map_of ASL_WORD_ANIMATIONS)(''hello'' \<mapsto> ISL_sign_hello, ''thank you'' \<mapsto> ISL_sign_thank_you,
        ''water'' \<mapsto> ISL_sign_water, ''school'' \<mapsto> ISL_sign_school, ''good'' \<mapsto> ISL_sign_good)"
  by (simp add: ISL_WORD_ANIMATIONS_def ISL_overrides_def update_conv')

lemma keys_ISL: "map fst ISL_WORD_ANIMATIONS = map fst ASL_WORD_ANIMATIONS"
  by (simp add: ISL_WORD_ANIMATIONS_def ISL_overrides_def ASL_WORD_ANIMATIONS_def)

lemma ASL_overridden:
  "map_of ASL_WORD_ANIMATIONS ''hello'' = Some ASL_sign_hello"
  "map_of ASL_WORD_ANIMATIONS ''thank you'' = Some ASL_sign_thank_you"
  "map_of ASL_WORD_ANIMATIONS ''water'' = Some ASL_sign_water"
  "map_of ASL_WORD_ANIMATIONS ''school'' = Some ASL_sign_school"
  "map_of ASL_WORD_ANIMATIONS ''good'' = Some ASL_sign_good"
  by (simp_all add: ASL_WORD_ANIMATIONS_def)

lemma ISL_signs_differ:
  "ISL_sign_hello \<noteq> ASL_sign_hello" "ISL_sign_thank_you \<noteq> ASL_sign_thank_you"
  "ISL_sign_water \<noteq> ASL_sign_water" "ISL_sign_school \<noteq> ASL_sign_school"
  "ISL_sign_good \<noteq> ASL_sign_good"
  by (simp_all add: ISL_sign_hello_def ASL_sign_hello_def ISL_sign_thank_you_def
      ASL_sign_thank_you_def ISL_sign_water_def ASL_sign_water_def ISL_sign_school_def
      ASL_sign_school_def ISL_sign_good_def ASL_sign_good_def)

text \<open>
  Claim C9. The ISL word table has every key of the ASL table (the two tables have
  the same keys, in the same order). Under the five keys that the ISL literal lists
  (\<open>hello\<close>, \<open>thank you\<close>, \<open>water\<close>, \<open>school\<close>, \<open>good\<close>) the table of mode ISL
  holds the ISL sign, which differs from the ASL sign that the table of mode ASL
  holds there; under every other key the two modes hold the same entry.
\<close>

theorem ISL_extends_ASL:
  "set (map fst (getWordAnimations ASL)) \<subseteq> set (map fst (getWordAnimations ISL)) \<and>
   map_of (getWordAnimations ISL) ''hello'' = Some ISL_sign_hello \<and>
   map_of (getWordAnimations ASL) ''hello'' = Some ASL_sign_hello \<and>
   ISL_sign_hello \<noteq> ASL_sign_hello \<and>
   map_of (getWordAnimations ISL) ''thank you'' = Some ISL_sign_thank_you \<and>
   map_of (getWordAnimations ASL) ''thank you'' = Some ASL_sign_thank_you \<and>
   ISL_sign_thank_you \<noteq> ASL_sign_thank_you \<and>
   map_of (getWordAnimations ISL) ''water'' = Some ISL_sign_water \<and>
   map_of (getWordAnimations ASL) ''water'' = Some ASL_sign_water \<and>
   ISL_sign_water \<noteq> ASL_sign_water \<and>
   map_of (getWordAnimations ISL) ''school'' = Some ISL_sign_school \<and>
   map_of (getWordAnimations ASL) ''school'' = Some ASL_sign_school \<and>
   ISL_sign_school \<noteq> ASL_sign_school \<and>
   map_of (getWordAnimations ISL) ''good'' = Some ISL_sign_good \<and>
   map_of (getWordAnimations ASL) ''good'' = Some ASL_sign_good \<and>
   ISL_sign_good \<noteq> ASL_sign_good \<and>
   (\<forall>key. key \<notin> {''hello'', ''thank you'', ''water'', ''school'', ''good''} \<longrightarrow>
      map_of (getWordAnimations ISL) key = map_of (getWordAnimations ASL) key)"
  by (simp add: getWordAnimations_def keys_ISL map_of_ISL ASL_overridden ISL_signs_differ)

theorem ISL_extends_ASL_witness:
  "map_of (getWordAnimations ISL) ''friend'' = Some ASL_sign_friend \<and>
   map_of (getWordAnimations ISL) ''hello'' = Some ISL_sign_hello \<and>
   map_of (getWordAnimations ASL) ''hello'' = Some ASL_sign_hello"
proof -
  have "''friend'' \<notin> {''hello'', ''thank you'', ''water'', ''school'', ''good''}"
    by simp
  moreover have "map_of (getWordAnimations ASL) ''friend'' = Some ASL_sign_friend"
    by (simp add: getWordAnimations_def ASL_WORD_ANIMATIONS_def)
  ultimately show ?thesis
    using ISL_extends_ASL by simp
qed

section \<open>Well-formed gloss items\<close>

lemma not_isLower:
  "\<not> isLower (CHR ''_'')" "\<not> isLower (CHR ''O'')" "\<not> isLower (CHR ''P'')"
  "\<not> isLower (CHR ''I'')" "\<not> isLower (CHR ''S'')" "\<not> isLower (CHR ''L'')"
  by (simp_all add: isLower_def lowerLetters_def)

lemma prototype_key_lower:
  assumes "key \<in> set Object_prototype_keys" and low: "\<forall>c \<in> set key. isLower c"
  shows "key = ''constructor''"
proof (rule ccontr)
  assume "key \<noteq> ''constructor''"
  with assms(1) have
    "CHR ''_'' \<in> set key \<or> CHR ''O'' \<in> set key \<or> CHR ''P'' \<in> set key \<or>
     CHR ''I'' \<in> set key \<or> CHR ''S'' \<in> set key \<or> CHR ''L'' \<in> set key"
    unfolding Object_prototype_keys_def by fastforce
  with low not_isLower show False by blast
qed

lemma prototype_key_no_space:
  "key \<in> set Object_prototype_keys \<Longrightarrow> CHR '' '' \<notin> set key"
  unfolding Object_prototype_keys_def by fastforce

lemma getProperty_own:
  "getProperty wa key = Some v \<Longrightarrow> key \<notin> set Object_prototype_keys \<Longrightarrow>
   \<exists>a. v = Animation a \<and> map_of wa key = Some a"
  by (auto simp: getProperty_def split: option.splits if_splits)

lemma spellPoses_sound:
  "set (spellPoses lt w) \<subseteq> snd ` set lt \<and> length (spellPoses lt w) \<le> length w"
proof (induction w)
  case Nil
  show ?case by (simp add: spellPoses_def List.map_filter_simps)
next
  case (Cons c w)
  show ?case
  proof (cases "map_of lt c")
    case None
    with Cons show ?thesis by (simp add: spellPoses_def List.map_filter_simps)
  next
    case (Some p)
    then have "p \<in> snd ` set lt" by (force dest: map_of_SomeD)
    with Cons Some show ?thesis by (simp add: spellPoses_def List.map_filter_simps)
  qed
qed

lemma wellFormed_fingerspell: "wellFormedItem mode (fingerspellItem (getLetterPoses mode) w)"
  using spellPoses_sound [of "getLetterPoses mode" w]
  by (auto simp: wellFormedItem_def fingerspellItem_def)

lemma wellFormed_word:
  "getProperty (getWordAnimations mode) key = Some v \<Longrightarrow> key \<notin> set Object_prototype_keys \<Longrightarrow>
   wellFormedItem mode (wordItem key (Some v))"
  by (auto simp: wellFormedItem_def wordItem_def dest!: getProperty_own)

lemma wellFormed_single:
  assumes "\<forall>c \<in> set a. isLower c" "a \<noteq> ''constructor''"
  shows "wellFormedItem mode
           (if getProperty (getWordAnimations mode) a \<noteq> None
            then wordItem a (getProperty (getWordAnimations mode) a)
            else fingerspellItem (getLetterPoses mode) a)"
proof (cases "getProperty (getWordAnimations mode) a")
  case None
  then show ?thesis by (simp add: wellFormed_fingerspell)
next
  case (Some v)
  have "a \<notin> set Object_prototype_keys"
    using assms prototype_key_lower by blast
  with Some show ?thesis by (simp add: wellFormed_word)
qed

lemma wellFormed_phrase:
  assumes "getProperty (getWordAnimations mode) (a @ '' '' @ b) \<noteq> None"
  shows "wellFormedItem mode
           (wordItem (a @ '' '' @ b) (getProperty (getWordAnimations mode) (a @ '' '' @ b)))"
proof -
  have "a @ '' '' @ b \<notin> set Object_prototype_keys"
    using prototype_key_no_space [of "a @ '' '' @ b"] by auto
  with assms show ?thesis by (auto simp: wellFormed_word)
qed

text \<open>
  Every item of the scan is well formed when the words are made of the
  letters \<open>a\<close>--\<open>z\<close> and none of them is the word \<open>constructor\<close>.
\<close>

lemma scanWords_wellFormed:
  "\<forall>w \<in> set ws. (\<forall>c \<in> set w. isLower c) \<and> w \<noteq> ''constructor'' \<Longrightarrow>
   \<forall>item \<in> set (scanWords (getWordAnimations mode) (getLetterPoses mode) ws).
      wellFormedItem mode item"
proof (induction "getWordAnimations mode" "getLetterPoses mode" ws rule: scanWords.induct)
  case 1
  show ?case by simp
next
  case (2 a)
  then show ?case using wellFormed_single [of a mode] by simp
next
  case (3 a b)
  then show ?case
    using wellFormed_single [of a mode] wellFormed_phrase [of mode a b] by simp
next
  case (4 a b c ws)
  then show ?case
    using wellFormed_single [of a mode] wellFormed_phrase [of mode a b]
      wellFormed_phrase [of mode a "b @ '' '' @ c"]
    by simp
qed

lemma textToSignGloss_wellFormed:
  assumes "''constructor'' \<notin> set (normalizeWords txt)"
    and "textToSignGloss txt mode = Inr items"
  shows "\<forall>item \<in> set items. wellFormedItem mode item"
proof -
  have "\<forall>w \<in> set (normalizeWords txt). (\<forall>c \<in> set w. isLower c) \<and> w \<noteq> ''constructor''"
    using assms(1) normalizeWords_lower by blast
  from scanWords_wellFormed [OF this] assms(2) show ?thesis
    by (simp add: textToSignGloss_scanWords)
qed

text \<open>
  Claim C10. The claim says that every word item carries an animation of the mode's
  word table. On the text \<open>constructor\<close> the resolver returns one word item whose
  \<^verbatim>\<open>animation\<close> is the member \<^verbatim>\<open>constructor\<close> that the table inherits from
  \<^verbatim>\<open>Object.prototype\<close>: the item is not well formed, and \<open>constructor\<close> is not a
  key of the table. (By \<open>textToSignGloss_wellFormed\<close> this word is the only way
  to an item that is not well formed.)
\<close>

theorem textToSignGloss_constructor:
  "textToSignGloss ''constructor'' ASL =
     Inr [\<lparr> item_type = Word, item_value = ''CONSTRUCTOR'',
             animation = Some (InheritedProperty ''constructor''), letterPoses = None \<rparr>] \<and>
   \<not> wellFormedItem ASL
       \<lparr> item_type = Word, item_value = ''CONSTRUCTOR'',
         animation = Some (InheritedProperty ''constructor''), letterPoses = None \<rparr> \<and>
   map_of (getWordAnimations ASL) ''constructor'' = None"
proof (intro conjI)
  have "normalizeWords ''constructor'' = [''constructor'']"
    by (simp add: string_defs)
  then show "textToSignGloss ''constructor'' ASL =
     Inr [\<lparr> item_type = Word, item_value = ''CONSTRUCTOR'',
             animation = Some (InheritedProperty ''constructor''), letterPoses = None \<rparr>]"
    by (simp add: textToSignGloss_scanWords getWordAnimations_def getProperty_def
        ASL_WORD_ANIMATIONS_def Object_prototype_keys_def wordItem_def toUpperCase_def
        toUpperCaseChar_def upperLetters_def lowerLetters_def)
  show "\<not> wellFormedItem ASL
       \<lparr> item_type = Word, item_value = ''CONSTRUCTOR'',
         animation = Some (InheritedProperty ''constructor''), letterPoses = None \<rparr>"
    by (simp add: wellFormedItem_def)
  show "map_of (getWordAnimations ASL) ''constructor'' = None"
    by (simp add: getWordAnimations_def ASL_WORD_ANIMATIONS_def)
qed


section \<open>The resolver against the greedy scan over the table\<close>

lemma getProperty_lookupTable:
  "key \<notin> set Object_prototype_keys \<Longrightarrow> getProperty table key = lookupTable table key"
  by (simp add: getProperty_def lookupTable_def split: option.splits)

lemma getProperty_phrase:
  "getProperty table (a @ CHR '' '' # b) = lookupTable table (a @ CHR '' '' # b)"
proof -
  have "CHR '' '' \<in> set (a @ CHR '' '' # b)" by simp
  with prototype_key_no_space have "a @ CHR '' '' # b \<notin> set Object_prototype_keys" by blast
  then show ?thesis by (rule getProperty_lookupTable)
qed

text \<open>
  Whatever the word table holds, the loop's scan is the greedy scan over the table
  as long as no word is a name that every table inherits.
\<close>

lemma scanWords_greedyScan:
  "\<forall>w \<in> set ws. w \<notin> set Object_prototype_keys \<Longrightarrow>
   scanWords table lt ws = greedyScan table lt ws"
proof (induction table lt ws rule: greedyScan.induct)
  case (1 table lt)
  show ?case by simp
next
  case (2 table lt a)
  then show ?case by (simp add: getProperty_lookupTable)
next
  case (3 table lt a b)
  then show ?case by (simp add: getProperty_lookupTable getProperty_phrase)
next
  case (4 table lt a b c ws)
  then show ?case by (simp add: getProperty_lookupTable getProperty_phrase)
qed

text \<open>
  A text without the word \<open>constructor\<close> is resolved as the specification says,
  in both modes.
\<close>

lemma textToSignGloss_greedy_elsewhere:
  assumes "''constructor'' \<notin> set (normalizeWords txt)"
  shows "textToSignGloss txt mode =
           Inr (greedyScan (getWordAnimations mode) (getLetterPoses mode) (normalizeWords txt))"
proof -
  have "\<forall>w \<in> set (normalizeWords txt). w \<notin> set Object_prototype_keys"
    using assms normalizeWords_lower prototype_key_lower by blast
  from scanWords_greedyScan [OF this] show ?thesis
    by (simp add: textToSignGloss_scanWords)
qed

text \<open>
  The order of the windows shows on a table that holds a phrase and its first word:
  the loop takes the phrase.
\<close>

lemma glossLoop_longest_first:
  "glossLoop [(''thank'', x), (''thank you'', y)] lt [''thank'', ''you''] 0 [] =
     Inr [wordItem ''thank you'' (Some (Animation y))]"
  by (simp add: glossLoop_scanWords getProperty_def)

lemma normalizeWords_thank_you_constructor:
  "normalizeWords ''thank you constructor'' = [''thank'', ''you'', ''constructor'']"
  by (simp add: string_defs)

lemma scanWords_thank_you_constructor:
  "scanWords ASL_WORD_ANIMATIONS ASL_LETTER_POSES [''thank'', ''you'', ''constructor''] =
     [\<lparr> item_type = Word, item_value = ''THANK YOU'',
         animation = Some (Animation ASL_sign_thank_you), letterPoses = None \<rparr>,
      \<lparr> item_type = Word, item_value = ''CONSTRUCTOR'',
         animation = Some (InheritedProperty ''constructor''), letterPoses = None \<rparr>]"
  by (simp add: getProperty_def ASL_WORD_ANIMATIONS_def Object_prototype_keys_def wordItem_def
      toUpperCase_def toUpperCaseChar_def upperLetters_def lowerLetters_def)

lemma greedyScan_thank_you_constructor:
  "greedyScan ASL_WORD_ANIMATIONS ASL_LETTER_POSES [''thank'', ''you'', ''constructor''] =
     [\<lparr> item_type = Word, item_value = ''THANK YOU'',
         animation = Some (Animation ASL_sign_thank_you), letterPoses = None \<rparr>,
      \<lparr> item_type = Fingerspell, item_value = ''CONSTRUCTOR'', animation = None,
         letterPoses = Some [ASL_letter_c, ASL_letter_o, ASL_letter_n, ASL_letter_s,
           ASL_letter_t, ASL_letter_r, ASL_letter_u, ASL_letter_c, ASL_letter_t, ASL_letter_o,
           ASL_letter_r] \<rparr>]"
  by (simp add: lookupTable_def ASL_WORD_ANIMATIONS_def wordItem_def
      fingerspellItem_def spellPoses_def List.map_filter_def ASL_LETTER_POSES_def
      toUpperCase_def toUpperCaseChar_def upperLetters_def lowerLetters_def)

text \<open>
  Claim C2. The claim says that every window is matched against the word-animation
  table of the mode and that a word matching nothing is fingerspelled. On the text
  \<open>thank you constructor\<close> in ASL the resolver first takes the window
  \<open>thank you\<close>, as the claim says, and then makes the word \<open>constructor\<close> a word
  item, although \<open>constructor\<close> is not a key of the table: the lookup finds the
  member that the table inherits from \<^verbatim>\<open>Object.prototype\<close>. The greedy scan over
  the table fingerspells the word. (By \<open>textToSignGloss_greedy_elsewhere\<close> the
  resolver is the greedy scan on every text without this word.)
\<close>

theorem textToSignGloss_constructor_not_greedy:
  "textToSignGloss ''thank you constructor'' ASL =
     Inr [\<lparr> item_type = Word, item_value = ''THANK YOU'',
             animation = Some (Animation ASL_sign_thank_you), letterPoses = None \<rparr>,
          \<lparr> item_type = Word, item_value = ''CONSTRUCTOR'',
             animation = Some (InheritedProperty ''constructor''), letterPoses = None \<rparr>] \<and>
   greedyScan (getWordAnimations ASL) (getLetterPoses ASL)
       (normalizeWords ''thank you constructor'') =
     [\<lparr> item_type = Word, item_value = ''THANK YOU'',
         animation = Some (Animation ASL_sign_thank_you), letterPoses = None \<rparr>,
      \<lparr> item_type = Fingerspell, item_value = ''CONSTRUCTOR'', animation = None,
         letterPoses = Some [ASL_letter_c, ASL_letter_o, ASL_letter_n, ASL_letter_s,
           ASL_letter_t, ASL_letter_r, ASL_letter_u, ASL_letter_c, ASL_letter_t, ASL_letter_o,
           ASL_letter_r] \<rparr>] \<and>
   textToSignGloss ''thank you constructor'' ASL \<noteq>
     Inr (greedyScan (getWordAnimations ASL) (getLetterPoses ASL)
            (normalizeWords ''thank you constructor'')) \<and>
   map_of (getWordAnimations ASL) ''constructor'' = None"
proof -
  have code: "textToSignGloss ''thank you constructor'' ASL =
     Inr [\<lparr> item_type = Word, item_value = ''THANK YOU'',
             animation = Some (Animation ASL_sign_thank_you), letterPoses = None \<rparr>,
          \<lparr> item_type = Word, item_value = ''CONSTRUCTOR'',
             animation = Some (InheritedProperty ''constructor''), letterPoses = None \<rparr>]"
    by (simp only: textToSignGloss_scanWords getWordAnimations_def getLetterPoses_def
        normalizeWords_thank_you_constructor scanWords_thank_you_constructor
        SignLanguageMode.distinct if_False)
  have spec: "greedyScan (getWordAnimations ASL) (getLetterPoses ASL)
       (normalizeWords ''thank you constructor'') =
     [\<lparr> item_type = Word, item_value = ''THANK YOU'',
         animation = Some (Animation ASL_sign_thank_you), letterPoses = None \<rparr>,
      \<lparr> item_type = Fingerspell, item_value = ''CONSTRUCTOR'', animation = None,
         letterPoses = Some [ASL_letter_c, ASL_letter_o, ASL_letter_n, ASL_letter_s,
           ASL_letter_t, ASL_letter_r, ASL_letter_u, ASL_letter_c, ASL_letter_t, ASL_letter_o,
           ASL_letter_r] \<rparr>]"
    by (simp only: getWordAnimations_def getLetterPoses_def
        normalizeWords_thank_you_constructor greedyScan_thank_you_constructor
        SignLanguageMode.distinct if_False)
  have key: "map_of (getWordAnimations ASL) ''constructor'' = None"
    by (simp add: getWordAnimations_def ASL_WORD_ANIMATIONS_def)
  have "textToSignGloss ''thank you constructor'' ASL \<noteq>
     Inr (greedyScan (getWordAnimations ASL) (getLetterPoses ASL)
            (normalizeWords ''thank you constructor''))"
    unfolding code spec by simp
  with code spec key show ?thesis by blast
qed
section \<open>Emotion analysis\<close>

text \<open>No step of the scoring lowers a score.\<close>

lemma countWord_mono: "scores e \<le> countWord word kws scores e"
proof (induction kws arbitrary: scores)
  case Nil
  show ?case by simp
next
  case (Cons kw kws)
  obtain emo kwl where kw: "kw = (emo, kwl)" by (cases kw)
  let ?s = "if word \<in> set kwl then scores(emo := scores emo + 1) else scores"
  have "scores e \<le> ?s e" by simp
  also have "?s e \<le> countWord word kws ?s e" by (rule Cons.IH)
  finally show ?case by (simp add: kw)
qed

lemma countWords_mono: "scores e \<le> countWords ws scores e"
proof (induction ws arbitrary: scores)
  case Nil
  show ?case by simp
next
  case (Cons w ws)
  have "scores e \<le> countWord w EMOTION_KEYWORDS scores e" by (rule countWord_mono)
  also have "\<dots> \<le> countWords ws (countWord w EMOTION_KEYWORDS scores) e" by (rule Cons.IH)
  finally show ?case by simp
qed

lemma boostExclamations_mono: "scores e \<le> boostExclamations txt scores e"
  by (simp add: boostExclamations_def Let_def)

lemma boostQuestions_mono: "scores e \<le> boostQuestions txt scores e"
  by (simp add: boostQuestions_def Let_def)

lemma emotionScores_ge_initial: "initialScores e \<le> emotionScores txt e"
proof -
  let ?w = "countWords (splitWhitespace (toLowerCase txt)) initialScores"
  have "initialScores e \<le> ?w e" by (rule countWords_mono)
  also have "\<dots> \<le> boostExclamations txt ?w e" by (rule boostExclamations_mono)
  also have "\<dots> \<le> boostQuestions txt (boostExclamations txt ?w) e" by (rule boostQuestions_mono)
  finally show ?thesis by (simp add: emotionScores_def)
qed

text \<open>
  The loop for the winner ends with a score that is at least the starting score and
  at least every score it has seen; unless it ends where it started, it ends with an
  emotion it has seen and that emotion's score.
\<close>

lemma findMax_props:
  "findMax scores es (me, ms) = (e', s') \<Longrightarrow>
     ms \<le> s' \<and> (\<forall>e \<in> set es. scores e \<le> s') \<and>
     ((e', s') = (me, ms) \<or> (e' \<in> set es \<and> s' = scores e'))"
proof (induction es arbitrary: me ms)
  case Nil
  then show ?case by simp
next
  case (Cons e es)
  show ?case
  proof (cases "scores e > ms")
    case True
    with Cons.prems have "findMax scores es (e, scores e) = (e', s')" by simp
    from Cons.IH [OF this] True show ?thesis by auto
  next
    case False
    with Cons.prems have "findMax scores es (me, ms) = (e', s')" by simp
    from Cons.IH [OF this] False show ?thesis by auto
  qed
qed

lemma scoreOrder_all: "e \<in> set scoreOrder"
  by (cases e) (simp_all add: scoreOrder_def)

lemma analyzeEmotion_winner:
  "snd (analyzeEmotion txt) = min 1 (emotionScores txt (fst (analyzeEmotion txt)) / 3) \<and>
   (\<forall>e. emotionScores txt e \<le> emotionScores txt (fst (analyzeEmotion txt)))"
proof -
  obtain e' s' where fm: "findMax (emotionScores txt) scoreOrder (Neutral, 0) = (e', s')"
    by (cases "findMax (emotionScores txt) scoreOrder (Neutral, 0)")
  have p: "0 \<le> s' \<and> (\<forall>e \<in> set scoreOrder. emotionScores txt e \<le> s') \<and>
     ((e', s') = (Neutral, 0) \<or> (e' \<in> set scoreOrder \<and> s' = emotionScores txt e'))"
    using findMax_props [OF fm] .
  have all: "\<forall>e. emotionScores txt e \<le> s'"
    using p scoreOrder_all by blast
  have "(1/10 :: real) \<le> emotionScores txt Neutral"
    using emotionScores_ge_initial [of Neutral "txt"] by (simp add: initialScores_def)
  moreover have "emotionScores txt Neutral \<le> s'"
    using all by blast
  ultimately have "0 < s'" by linarith
  with p have "s' = emotionScores txt e'" by auto
  with all fm show ?thesis by (simp add: analyzeEmotion_def)
qed

lemma analyzeEmotion_empty: "analyzeEmotion '''' = (Neutral, 1 / 30)"
  by (simp add: analyzeEmotion_def emotionScores_def boostQuestions_def boostExclamations_def
      countChar_def splitWhitespace_def toLowerCase_def EMOTION_KEYWORDS_def initialScores_def
      scoreOrder_def)

lemma analyzeEmotion_happy: "analyzeEmotion ''I am so happy and excited!!!'' = (Happy, 1 / 3)"
  by (simp add: analyzeEmotion_def emotionScores_def boostQuestions_def boostExclamations_def
      countChar_def EMOTION_KEYWORDS_def initialScores_def scoreOrder_def string_defs)

text \<open>
  Claim C4, as stated, fails on the empty text: the baseline \<open>0.1\<close> of
  \<open>neutral\<close> is the winning score, so the intensity of \<open>analyzeEmotion ''''\<close> is
  \<open>min 1 (0.1 / 3)\<close>, which is \<open>1/30\<close> and not \<open>0\<close>.
\<close>

theorem analyzeEmotion_empty_not_zero:
  "analyzeEmotion '''' = (Neutral, 1 / 30) \<and> snd (analyzeEmotion '''') \<noteq> 0"
  by (simp add: analyzeEmotion_empty)

text \<open>
  Claim C4, amended. \<open>analyzeEmotion ''''\<close> returns \<open>neutral\<close> with intensity
  \<open>1/30\<close> (the baseline \<open>0.1\<close> over \<open>3\<close>); on
  \<open>I am so happy and excited!!!\<close> it returns \<open>happy\<close> with intensity \<open>1/3\<close>, so
  an emotion among \<open>happy\<close> and \<open>excited\<close> with a positive intensity; and for every
  text the intensity is \<open>min 1 (maxScore / 3)\<close>, where \<open>maxScore\<close> is the score of
  the returned emotion, which no other emotion's score exceeds.
\<close>

theorem analyzeEmotion_intensity:
  "analyzeEmotion '''' = (Neutral, 1 / 30) \<and>
   analyzeEmotion ''I am so happy and excited!!!'' = (Happy, 1 / 3) \<and>
   snd (analyzeEmotion txt) = min 1 (emotionScores txt (fst (analyzeEmotion txt)) / 3) \<and>
   (\<forall>e. emotionScores txt e \<le> emotionScores txt (fst (analyzeEmotion txt)))"
  using analyzeEmotion_winner [of "txt"] by (simp add: analyzeEmotion_empty analyzeEmotion_happy)

theorem analyzeEmotion_intensity_witness:
  "analyzeEmotion ''Why ?'' = (Thinking, 13 / 30) \<and>
   emotionScores ''Why ?'' Confused \<le> emotionScores ''Why ?'' Thinking \<and>
   snd (analyzeEmotion ''Why ?'') = min 1 (emotionScores ''Why ?'' Thinking / 3)"
proof -
  have "analyzeEmotion ''Why ?'' = (Thinking, 13 / 30)"
    by (simp add: analyzeEmotion_def emotionScores_def boostQuestions_def boostExclamations_def
        countChar_def EMOTION_KEYWORDS_def initialScores_def scoreOrder_def string_defs)
  then show ?thesis
    using analyzeEmotion_intensity [of "''Why ?''"] by simp
qed

section \<open>Blending an expression\<close>

lemma getExpression_fields:
  "getKey key (getExpression emo i) =
     (case presetValue emo key of
        None \<Rightarrow> getKey key NEUTRAL_EXPRESSION
      | Some p \<Rightarrow> getKey key NEUTRAL_EXPRESSION + (p - getKey key NEUTRAL_EXPRESSION) * i)"
  by (cases emo; cases key; simp add: getExpression_def presetValue_def NEUTRAL_EXPRESSION_def)

lemma getExpression_tags: "emotion (getExpression emo i) = emo \<and> intensity (getExpression emo i) = i"
  by (cases emo; simp add: getExpression_def NEUTRAL_EXPRESSION_def)

text \<open>
  Claim C8. For every emotion, every intensity and every one of the sixteen face
  parameters, the parameter of \<open>getExpression emo i\<close> is
  \<open>neutral + (preset - neutral) * i\<close> when the preset of \<open>emo\<close> has the parameter,
  and the neutral value when it has not; the \<open>emotion\<close> and \<open>intensity\<close> of the
  result are the arguments.
\<close>

theorem getExpression_blend:
  "getKey key (getExpression emo i) =
     (case presetValue emo key of
        None \<Rightarrow> getKey key NEUTRAL_EXPRESSION
      | Some p \<Rightarrow> getKey key NEUTRAL_EXPRESSION + (p - getKey key NEUTRAL_EXPRESSION) * i) \<and>
   emotion (getExpression emo i) = emo \<and> intensity (getExpression emo i) = i"
  by (simp add: getExpression_fields getExpression_tags)

theorem getExpression_blend_witness:
  "mouthSmile (getExpression Happy 0.5) = 0.4 \<and> mouthWidth (getExpression Happy 0.5) = 1.1 \<and>
   eyeLookX (getExpression Happy 0.5) = 0 \<and> emotion (getExpression Happy 0.5) = Happy \<and>
   intensity (getExpression Happy 0.5) = 0.5"
  using getExpression_blend [of MouthSmile Happy "0.5"] getExpression_blend [of MouthWidth Happy "0.5"]
    getExpression_blend [of EyeLookX Happy "0.5"]
  by (simp add: presetValue_def NEUTRAL_EXPRESSION_def)

section \<open>Lip-sync timing\<close>

lemma length_lipSyncLoop: "length (lipSyncLoop m cs t) = length cs"
  by (induction cs arbitrary: t) simp_all

lemma lipSyncLoop_first: "cs \<noteq> [] \<Longrightarrow> time (lipSyncLoop m cs t ! 0) = t"
  by (cases cs) simp_all

lemma lipSyncLoop_next:
  "Suc i < length cs \<Longrightarrow>
   time (lipSyncLoop m cs t ! Suc i) = time (lipSyncLoop m cs t ! i) + duration (lipSyncLoop m cs t ! i)"
proof (induction cs arbitrary: t i)
  case Nil
  then show ?case by simp
next
  case (Cons c cs)
  show ?case
  proof (cases i)
    case 0
    with Cons.prems have "cs \<noteq> []" by auto
    with 0 show ?thesis by (simp add: lipSyncLoop_first)
  next
    case (Suc k)
    with Cons.prems have "Suc k < length cs" by simp
    from Cons.IH [OF this] Suc show ?thesis by simp
  qed
qed

lemma charDuration_pos: "0 < m \<Longrightarrow> 0 < charDuration m c"
  by (simp add: charDuration_def)

lemma lipSyncLoop_duration_pos:
  "0 < m \<Longrightarrow> i < length cs \<Longrightarrow> 0 < duration (lipSyncLoop m cs t ! i)"
proof (induction cs arbitrary: t i)
  case Nil
  then show ?case by simp
next
  case (Cons c cs)
  then show ?case by (cases i) (simp_all add: charDuration_pos)
qed

lemma lipSyncLoop_increasing:
  assumes "0 < m" "j < length cs" "i < j"
  shows "time (lipSyncLoop m cs t ! i) < time (lipSyncLoop m cs t ! j)"
  using assms(3,2)
proof (induction j)
  case 0
  then show ?case by simp
next
  case (Suc j)
  have step: "time (lipSyncLoop m cs t ! j) < time (lipSyncLoop m cs t ! Suc j)"
    using lipSyncLoop_next [of j cs m t] lipSyncLoop_duration_pos [of m j cs t] assms(1) Suc.prems
    by simp
  show ?case
  proof (cases "i = j")
    case True
    with step show ?thesis by simp
  next
    case False
    with Suc.prems have "i < j" "j < length cs" by simp_all
    from Suc.IH [OF this] step show ?thesis by simp
  qed
qed

text \<open>The backward scan over the first \<open>n\<close> frames.\<close>

lemma scanBack_rest:
  "\<forall>i < n. t < time (frames ! i) \<Longrightarrow> scanBack frames t n = viseme_rest"
proof (induction n)
  case 0
  show ?case by simp
next
  case (Suc n)
  then have "t < time (frames ! n)" and "\<forall>i < n. t < time (frames ! i)" by simp_all
  with Suc.IH show ?case by simp
qed

lemma scanBack_last:
  "\<exists>i < n. time (frames ! i) \<le> t \<Longrightarrow>
   \<exists>k < n. time (frames ! k) \<le> t \<and> (\<forall>j. k < j \<and> j < n \<longrightarrow> t < time (frames ! j)) \<and>
          scanBack frames t n = viseme (frames ! k)"
proof (induction n)
  case 0
  then show ?case by simp
next
  case (Suc n)
  show ?case
  proof (cases "time (frames ! n) \<le> t")
    case True
    then have "time (frames ! n) \<le> t \<and> (\<forall>j. n < j \<and> j < Suc n \<longrightarrow> t < time (frames ! j)) \<and>
          scanBack frames t (Suc n) = viseme (frames ! n)" by simp
    then show ?thesis by blast
  next
    case False
    with Suc.prems have "\<exists>i < n. time (frames ! i) \<le> t"
      by (metis less_Suc_eq)
    from Suc.IH [OF this] obtain k where k: "k < n" "time (frames ! k) \<le> t"
      "\<forall>j. k < j \<and> j < n \<longrightarrow> t < time (frames ! j)" "scanBack frames t n = viseme (frames ! k)"
      by blast
    have "\<forall>j. k < j \<and> j < Suc n \<longrightarrow> t < time (frames ! j)"
      using k(3) False by (metis less_Suc_eq not_le)
    with k False show ?thesis
      by (intro exI [of _ k]) simp
  qed
qed

text \<open>
  Claim C6. For every text and every positive \<open>wordsPerMinute\<close>,
  \<open>generateLipSync\<close> returns one frame per character; the first frame, if there is
  one, is at time \<open>0\<close>; each later frame is at the time of the frame before it plus
  that frame's duration (no gap, no overlap); the times never decrease along the
  list. On these frames \<open>getVisemeAtTime\<close> returns the rest viseme when the list is
  empty or the time asked for is before the first frame, in particular at \<open>-1\<close>,
  and otherwise the viseme of the last frame whose time is not after the time
  asked for.
\<close>

theorem generateLipSync_timing:
  assumes "0 < wordsPerMinute"
  shows "length (generateLipSync txt wordsPerMinute) = length txt \<and>
   (generateLipSync txt wordsPerMinute \<noteq> [] \<longrightarrow> time (generateLipSync txt wordsPerMinute ! 0) = 0) \<and>
   (\<forall>i. Suc i < length (generateLipSync txt wordsPerMinute) \<longrightarrow>
      time (generateLipSync txt wordsPerMinute ! Suc i) =
      time (generateLipSync txt wordsPerMinute ! i) + duration (generateLipSync txt wordsPerMinute ! i)) \<and>
   (\<forall>i j. i \<le> j \<and> j < length (generateLipSync txt wordsPerMinute) \<longrightarrow>
      time (generateLipSync txt wordsPerMinute ! i) \<le> time (generateLipSync txt wordsPerMinute ! j)) \<and>
   (\<forall>t. generateLipSync txt wordsPerMinute = [] \<or> t < time (generateLipSync txt wordsPerMinute ! 0) \<longrightarrow>
      getVisemeAtTime (generateLipSync txt wordsPerMinute) t = viseme_rest) \<and>
   getVisemeAtTime (generateLipSync txt wordsPerMinute) (- 1) = viseme_rest \<and>
   (\<forall>t. generateLipSync txt wordsPerMinute \<noteq> [] \<and> time (generateLipSync txt wordsPerMinute ! 0) \<le> t \<longrightarrow>
      (\<exists>k < length (generateLipSync txt wordsPerMinute).
         time (generateLipSync txt wordsPerMinute ! k) \<le> t \<and>
         (\<forall>j. k < j \<and> j < length (generateLipSync txt wordsPerMinute) \<longrightarrow>
            t < time (generateLipSync txt wordsPerMinute ! j)) \<and>
         getVisemeAtTime (generateLipSync txt wordsPerMinute) t =
           viseme (generateLipSync txt wordsPerMinute ! k)))"
proof -
  define m where "m = (60000 / wordsPerMinute) / 5"
  define cs where "cs = toLowerCase txt"
  define fs where "fs = generateLipSync txt wordsPerMinute"
  have fs: "fs = lipSyncLoop m cs 0"
    by (simp add: fs_def generateLipSync_def m_def cs_def)
  have m: "0 < m" using assms by (simp add: m_def)
  have len: "length fs = length txt"
    by (simp add: fs length_lipSyncLoop cs_def toLowerCase_def)
  have lencs: "length fs = length cs"
    by (simp add: fs length_lipSyncLoop)
  have first: "fs \<noteq> [] \<longrightarrow> time (fs ! 0) = 0"
  proof
    assume "fs \<noteq> []"
    with lencs have "cs \<noteq> []" by auto
    then show "time (fs ! 0) = 0" by (simp add: fs lipSyncLoop_first)
  qed
  have nxt: "\<forall>i. Suc i < length fs \<longrightarrow> time (fs ! Suc i) = time (fs ! i) + duration (fs ! i)"
    using lencs by (simp add: fs lipSyncLoop_next)
  have strict: "time (fs ! i) < time (fs ! j)" if "i < j" "j < length fs" for i j
    using that lencs m by (simp add: fs lipSyncLoop_increasing)
  have mono: "\<forall>i j. i \<le> j \<and> j < length fs \<longrightarrow> time (fs ! i) \<le> time (fs ! j)"
  proof (intro allI impI)
    fix i j assume "i \<le> j \<and> j < length fs"
    then show "time (fs ! i) \<le> time (fs ! j)"
      using strict [of i j] by (cases "i = j") auto
  qed
  have rest: "getVisemeAtTime fs t = viseme_rest" if "fs = [] \<or> t < time (fs ! 0)" for t
  proof (cases "fs = []")
    case True
    then show ?thesis by (simp add: getVisemeAtTime_def)
  next
    case False
    with that have lt: "t < time (fs ! 0)" by simp
    have "\<forall>i < length fs. t < time (fs ! i)"
    proof (intro allI impI)
      fix i assume "i < length fs"
      with mono have "time (fs ! 0) \<le> time (fs ! i)" by blast
      with lt show "t < time (fs ! i)" by simp
    qed
    then show ?thesis by (simp add: getVisemeAtTime_def scanBack_rest)
  qed
  have neg: "getVisemeAtTime fs (- 1) = viseme_rest"
    using rest [of "- 1"] first by (cases "fs = []") auto
  have lst: "\<exists>k < length fs. time (fs ! k) \<le> t \<and> (\<forall>j. k < j \<and> j < length fs \<longrightarrow> t < time (fs ! j)) \<and>
         getVisemeAtTime fs t = viseme (fs ! k)" if "fs \<noteq> [] \<and> time (fs ! 0) \<le> t" for t
  proof -
    from that have "\<exists>i < length fs. time (fs ! i) \<le> t" by (intro exI [of _ 0]) simp
    from scanBack_last [OF this] that show ?thesis by (simp add: getVisemeAtTime_def)
  qed
  show ?thesis
    unfolding fs_def [symmetric] using len first nxt mono rest neg lst by blast
qed

theorem generateLipSync_timing_witness:
  "(0::real) < 150 \<and> length (generateLipSync ''Hi'' 150) = 2 \<and>
   time (generateLipSync ''Hi'' 150 ! 0) = 0 \<and>
   time (generateLipSync ''Hi'' 150 ! 1) = 64 \<and>
   duration (generateLipSync ''Hi'' 150 ! 0) = 64 \<and>
   getVisemeAtTime (generateLipSync ''Hi'' 150) (- 1) = viseme_rest \<and>
   getVisemeAtTime (generateLipSync ''Hi'' 150) 70 = visemeOfChar (CHR ''i'')"
  using generateLipSync_timing [of 150 "''Hi''"]
  by (simp add: generateLipSync_def toLowerCase_def toLowerCaseChar_def upperLetters_def
      lowerLetters_def latin1Upper_def latin1Lower_def charDuration_def getVisemeAtTime_def)

section \<open>The timers of the playback controller\<close>

lemma filter_all_out: "\<forall>x \<in> set xs. f x = h \<Longrightarrow> filter (\<lambda>x. f x \<noteq> h) xs = []"
  by (induction xs) simp_all

lemma timersOK_mounted: "timersOK (mounted t e n)"
  by (simp add: timersOK_def mounted_def)

text \<open>What \<open>cancel\<close> leaves.\<close>

lemma cancel_fields:
  "playing (cancel h s) = playing s" "timerRef (cancel h s) = timerRef s"
  "lipSyncIntervalRef (cancel h s) = lipSyncIntervalRef s" "nextHandle (cancel h s) = nextHandle s"
  "timeouts (cancel h s) = filter (\<lambda>t. timeout_id t \<noteq> h) (timeouts s)"
  "intervals (cancel h s) = filter (\<lambda>v. interval_id v \<noteq> h) (intervals s)"
  by (simp_all add: cancel_def)

lemma clearTimer_fields:
  "playing (clearTimer s) = playing s" "lipSyncIntervalRef (clearTimer s) = lipSyncIntervalRef s"
  "nextHandle (clearTimer s) = nextHandle s"
  "set (timeouts (clearTimer s)) \<subseteq> set (timeouts s)"
  "length (timeouts (clearTimer s)) \<le> length (timeouts s)"
  "set (intervals (clearTimer s)) \<subseteq> set (intervals s)"
  "length (intervals (clearTimer s)) \<le> length (intervals s)"
  by (auto simp: clearTimer_def cancel_fields split: option.splits)

lemma clearTimer_empties:
  assumes "\<forall>t \<in> set (timeouts s). timerRef s = Some (timeout_id t) \<and> 0 < timeout_id t"
  shows "timeouts (clearTimer s) = []"
proof (cases "timeouts s")
  case Nil
  then show ?thesis by (simp add: clearTimer_def cancel_fields split: option.splits)
next
  case (Cons t ts)
  with assms have ref: "timerRef s = Some (timeout_id t)" "0 < timeout_id t" by simp_all
  have "\<forall>u \<in> set (timeouts s). timeout_id u = timeout_id t"
    using assms ref by auto
  then have "filter (\<lambda>u. timeout_id u \<noteq> timeout_id t) (timeouts s) = []"
    by (rule filter_all_out)
  with ref show ?thesis by (simp add: clearTimer_def cancel_fields)
qed

lemma stopLipSync_fields:
  "playing (stopLipSync s) = playing s" "timerRef (stopLipSync s) = timerRef s"
  "nextHandle (stopLipSync s) = nextHandle s"
  "set (timeouts (stopLipSync s)) \<subseteq> set (timeouts s)"
  "length (timeouts (stopLipSync s)) \<le> length (timeouts s)"
  "set (intervals (stopLipSync s)) \<subseteq> set (intervals s)"
  "length (intervals (stopLipSync s)) \<le> length (intervals s)"
  by (auto simp: stopLipSync_def cancel_fields split: option.splits)

lemma stopLipSync_empties:
  assumes "\<forall>v \<in> set (intervals s). lipSyncIntervalRef s = Some (interval_id v) \<and> 0 < interval_id v"
  shows "intervals (stopLipSync s) = []"
proof (cases "intervals s")
  case Nil
  then show ?thesis by (simp add: stopLipSync_def cancel_fields split: option.splits)
next
  case (Cons v vs)
  with assms have ref: "lipSyncIntervalRef s = Some (interval_id v)" "0 < interval_id v" by simp_all
  have "\<forall>u \<in> set (intervals s). interval_id u = interval_id v"
    using assms ref by auto
  then have "filter (\<lambda>u. interval_id u \<noteq> interval_id v) (intervals s) = []"
    by (rule filter_all_out)
  with ref show ?thesis by (simp add: stopLipSync_def cancel_fields)
qed

lemma stopPlaying_stops:
  assumes "timersOK s"
  shows "timersOK (stopPlaying s) \<and> \<not> playing (stopPlaying s) \<and>
         timeouts (stopPlaying s) = [] \<and> intervals (stopPlaying s) = []"
proof -
  let ?s0 = "s\<lparr>playing := False\<rparr>"
  let ?s1 = "clearTimer ?s0"
  let ?s2 = "stopLipSync ?s1"
  have t0: "\<forall>t \<in> set (timeouts ?s0). timerRef ?s0 = Some (timeout_id t) \<and> 0 < timeout_id t"
    using assms by (simp add: timersOK_def)
  have t1: "timeouts ?s1 = []" using clearTimer_empties [OF t0] .
  have i1: "\<forall>v \<in> set (intervals ?s1). lipSyncIntervalRef ?s1 = Some (interval_id v) \<and> 0 < interval_id v"
  proof
    fix v assume "v \<in> set (intervals ?s1)"
    with clearTimer_fields(6) [of ?s0] have "v \<in> set (intervals s)" by auto
    with assms show "lipSyncIntervalRef ?s1 = Some (interval_id v) \<and> 0 < interval_id v"
      by (simp add: timersOK_def clearTimer_fields)
  qed
  have i2: "intervals ?s2 = []" using stopLipSync_empties [OF i1] .
  have t2: "timeouts ?s2 = []"
    using stopLipSync_fields(4) [of ?s1] t1 by simp
  have p2: "\<not> playing ?s2" by (simp add: stopLipSync_fields clearTimer_fields)
  have n2: "0 < nextHandle ?s2"
    using assms by (simp add: stopLipSync_fields clearTimer_fields timersOK_def)
  have eq: "stopPlaying s = ?s2\<lparr>onPlayPause_calls := onPlayPause_calls ?s2 @ [False]\<rparr>"
    by (simp add: stopPlaying_def Let_def)
  show ?thesis
    unfolding eq using t2 i2 p2 n2 by (simp add: timersOK_def)
qed

lemma schedule_one:
  assumes "timersOK s" "timeouts s = []" "playing s"
  shows "timersOK (schedule c d s) \<and> length (timeouts (schedule c d s)) = 1"
  using assms by (auto simp: timersOK_def schedule_def)

lemma startLipSync_fields:
  "playing (startLipSync c s) = playing s" "timerRef (startLipSync c s) = timerRef s"
  "set (timeouts (startLipSync c s)) \<subseteq> set (timeouts s)"
  "length (timeouts (startLipSync c s)) \<le> length (timeouts s)"
  by (auto simp: startLipSync_def cancel_fields Let_def split: option.splits)

lemma startLipSync_ok:
  assumes "timersOK s" "timeouts s = []"
  shows "timersOK (startLipSync c s) \<and> timeouts (startLipSync c s) = []"
proof -
  let ?s1 = "case lipSyncIntervalRef s of Some h \<Rightarrow> (if h \<noteq> 0 then cancel h s else s) | None \<Rightarrow> s"
  have i1: "intervals ?s1 = []"
  proof (cases "intervals s")
    case Nil
    then show ?thesis by (simp add: cancel_fields split: option.splits)
  next
    case (Cons v vs)
    with assms(1) have ref: "lipSyncIntervalRef s = Some (interval_id v)" "0 < interval_id v"
      by (simp_all add: timersOK_def)
    have "\<forall>u \<in> set (intervals s). interval_id u = interval_id v"
      using assms(1) ref by (auto simp: timersOK_def)
    then have "filter (\<lambda>u. interval_id u \<noteq> interval_id v) (intervals s) = []"
      by (rule filter_all_out)
    with ref show ?thesis by (simp add: cancel_fields)
  qed
  have t1: "timeouts ?s1 = []"
    using assms(2) by (simp add: cancel_fields split: option.splits)
  have n1: "nextHandle ?s1 = nextHandle s"
    by (simp add: cancel_fields split: option.splits)
  have "0 < nextHandle s" using assms(1) by (simp add: timersOK_def)
  with i1 t1 n1 show ?thesis
    by (simp add: startLipSync_def Let_def timersOK_def)
qed

lemma startPlaying_ok:
  assumes "timersOK s" "\<not> playing s"
  shows "timersOK (startPlaying c s) \<and> length (timeouts (startPlaying c s)) = 1"
proof -
  let ?s1 = "s\<lparr>playing := True, onPlayPause_calls := onPlayPause_calls s @ [True]\<rparr>"
  from assms have e: "timeouts s = []" by (auto simp: timersOK_def)
  with assms(1) have ok1: "timersOK ?s1" "timeouts ?s1 = []" by (simp_all add: timersOK_def)
  note l = startLipSync_ok [OF ok1, of c]
  have p: "playing (startLipSync c ?s1)" by (simp add: startLipSync_fields)
  from l p schedule_one show ?thesis
    by (simp add: startPlaying_def Let_def)
qed

lemma advancePlayback_ok:
  assumes "timersOK s" "timeouts s = []" "playing s" "advancePlayback c s = Inr s'"
  shows "timersOK s'"
proof -
  have sch: "timersOK (schedule c d s1)"
    if "timeouts s1 = timeouts s" "intervals s1 = intervals s" "timerRef s1 = timerRef s"
       "lipSyncIntervalRef s1 = lipSyncIntervalRef s" "playing s1 = playing s"
       "nextHandle s1 = nextHandle s" for s1 d
  proof -
    have "timersOK s1 \<and> timeouts s1 = [] \<and> playing s1"
      using that assms(1,2,3) by (simp add: timersOK_def)
    then show ?thesis using schedule_one by blast
  qed
  have a: "timersOK (schedule c d (s\<lparr>currentKeyframe := k\<rparr>))" for d k
    by (rule sch) simp_all
  have b: "timersOK (schedule c d (s\<lparr>currentLetterIndex := k\<rparr>))" for d k
    by (rule sch) simp_all
  have n: "timersOK (schedule c d (nextItem s))" for d
    by (rule sch) (simp_all add: nextItem_def)
  have nl: "timersOK (schedule c d ((nextItem s)\<lparr>lipSyncStartTime := k\<rparr>))" for d k
    by (rule sch) (simp_all add: nextItem_def)
  have st: "timersOK (stopPlaying s)"
    using stopPlaying_stops [OF assms(1)] by simp
  show ?thesis
    using assms(4) assms(1) a b n nl st
    by (auto simp: advancePlayback_def Let_def
        split: if_splits option.splits AnimationValue.splits)
qed

lemma samePlayback_step_ops:
  "samePlayback s (stepForward c s)" "samePlayback s (stepBackward c s)"
  "samePlayback s (jumpTo idx s)"
  by (simp_all add: samePlayback_def stepForward_def stepBackward_def jumpTo_def nextItem_def)

lemma onlyPositionChanged_step_ops:
  "onlyPositionChanged s (stepForward c s)" "onlyPositionChanged s (stepBackward c s)"
  "onlyPositionChanged s (jumpTo idx s)"
  by (simp_all add: onlyPositionChanged_def stepForward_def stepBackward_def jumpTo_def
      nextItem_def)

lemma timersOK_samePlayback:
  "timersOK s \<Longrightarrow> samePlayback s s' \<Longrightarrow> nextHandle s' = nextHandle s \<Longrightarrow> timersOK s'"
  by (simp add: samePlayback_def timersOK_def)

lemma nextHandle_step_ops:
  "nextHandle (stepForward c s) = nextHandle s" "nextHandle (stepBackward c s) = nextHandle s"
  "nextHandle (jumpTo idx s) = nextHandle s"
  by (simp_all add: stepForward_def stepBackward_def jumpTo_def nextItem_def)

lemma reset_stops:
  assumes "timersOK s"
  shows "timersOK (reset s) \<and> \<not> playing (reset s) \<and> timeouts (reset s) = [] \<and>
         intervals (reset s) = []"
  using stopPlaying_stops [OF assms] by (simp add: reset_def timersOK_def)

lemma reset_position:
  "currentItemIndex (reset s) = 0 \<and> currentKeyframe (reset s) = 0 \<and>
   currentLetterIndex (reset s) = 0 \<and> currentPose (reset s) = REST_POSE \<and>
   currentViseme (reset s) = viseme_rest \<and>
   headTilt (reset s) = \<lparr> tilt_x = 0, tilt_y = 0, tilt_z = 0 \<rparr>"
  by (simp add: reset_def)

lemma find_SomeD: "find P xs = Some x \<Longrightarrow> x \<in> set xs \<and> P x"
  by (induction xs) (auto split: if_splits)

lemma timeoutFires_ok:
  assumes "timersOK s" "step (TimeoutFires h) s = Some s'"
  shows "timersOK s'"
proof -
  from assms(2) obtain t where f: "find (\<lambda>t. timeout_id t = h) (timeouts s) = Some t"
    by (auto split: option.splits)
  then have t: "t \<in> set (timeouts s)" "timeout_id t = h" using find_SomeD by fastforce+
  let ?s1 = "s\<lparr>timeouts := filter (\<lambda>t. timeout_id t \<noteq> h) (timeouts s)\<rparr>"
  from t assms(1) have ref: "timerRef s = Some h" by (auto simp: timersOK_def)
  have "\<forall>u \<in> set (timeouts s). timeout_id u = h"
    using assms(1) ref by (auto simp: timersOK_def)
  then have e: "timeouts ?s1 = []" by (simp add: filter_all_out)
  from t assms(1) have p: "playing ?s1" by (auto simp: timersOK_def)
  have ok1: "timersOK ?s1" using assms(1) e by (simp add: timersOK_def)
  have s': "s' = (case advancePlayback (timeout_closure t) ?s1 of Inl e \<Rightarrow> ?s1 | Inr s2 \<Rightarrow> s2)"
    using assms(2) f by (simp add: Let_def)
  show ?thesis
  proof (cases "advancePlayback (timeout_closure t) ?s1")
    case (Inl err)
    with s' ok1 show ?thesis by simp
  next
    case (Inr s2)
    from advancePlayback_ok [OF ok1 e p Inr] s' Inr show ?thesis by simp
  qed
qed

lemma step_ok:
  assumes "timersOK s" "step ev s = Some s'"
  shows "timersOK s'"
proof (cases ev)
  case ClickPlay
  with assms show ?thesis using startPlaying_ok [of s "render s"] by (auto split: if_splits)
next
  case ClickPause
  with assms show ?thesis using stopPlaying_stops [of s] by (auto split: if_splits)
next
  case ClickStepForward
  with assms(2) have "s' = stepForward (render s) s" by (auto split: if_splits)
  then show ?thesis
    using timersOK_samePlayback [OF assms(1)] samePlayback_step_ops nextHandle_step_ops by simp
next
  case ClickStepBackward
  with assms(2) have "s' = stepBackward (render s) s" by (auto split: if_splits)
  then show ?thesis
    using timersOK_samePlayback [OF assms(1)] samePlayback_step_ops nextHandle_step_ops by simp
next
  case ClickReset
  with assms show ?thesis using reset_stops [of s] by auto
next
  case (ClickItem idx)
  with assms(2) have "s' = jumpTo idx s" by (auto split: if_splits)
  then show ?thesis
    using timersOK_samePlayback [OF assms(1)] samePlayback_step_ops nextHandle_step_ops by simp
next
  case (ClickSpeed v)
  with assms(2) have "s' = s\<lparr>speed := v\<rparr>" by (auto split: if_splits)
  with assms(1) show ?thesis by (simp add: timersOK_def)
next
  case (ClickLanguage l)
  have "timersOK (s\<lparr>languageMode := l\<rparr>)" using assms(1) by (simp add: timersOK_def)
  from reset_stops [OF this] ClickLanguage assms(2) show ?thesis by auto
next
  case (ClickSignMode m)
  have "timersOK (s\<lparr>signMode := m\<rparr>)" using assms(1) by (simp add: timersOK_def)
  from reset_stops [OF this] ClickSignMode assms(2) show ?thesis by auto
next
  case (TimeoutFires h)
  with assms show ?thesis using timeoutFires_ok by blast
next
  case (IntervalFires h)
  show ?thesis
  proof (cases "find (\<lambda>v. interval_id v = h) (intervals s)")
    case None
    with IntervalFires assms(2) show ?thesis by simp
  next
    case (Some v)
    with IntervalFires assms(2) have "s' = sampleViseme (interval_closure v) s" by simp
    with assms(1) show ?thesis by (simp add: sampleViseme_def timersOK_def)
  qed
next
  case (ClockAdvances d)
  with assms(2) have "s' = s\<lparr>clock := clock s + d\<rparr>" by (auto split: if_splits)
  with assms(1) show ?thesis by (simp add: timersOK_def)
next
  case (TextChanges t)
  with assms show ?thesis by (auto simp: timersOK_def)
next
  case (EffectsRun p h f)
  with assms show ?thesis by (auto simp: timersOK_def)
qed

lemma run_ok: "timersOK s \<Longrightarrow> run evs s = Some s' \<Longrightarrow> timersOK s'"
proof (induction evs arbitrary: s)
  case Nil
  then show ?case by simp
next
  case (Cons ev evs)
  from Cons.prems(2) obtain s1 where s1: "step ev s = Some s1" "run evs s1 = Some s'"
    by (auto split: option.splits)
  from step_ok [OF Cons.prems(1) s1(1)] have "timersOK s1" .
  from Cons.IH [OF this s1(2)] show ?case .
qed

lemma reachable_ok: "run evs (mounted t e n) = Some s \<Longrightarrow> timersOK s"
  using run_ok [OF timersOK_mounted] .

section \<open>The examples\<close>

lemma glossItems_example:
  "glossItemsOf exampleMounted =
     [wordItem ''hello'' (Some (Animation ASL_sign_hello)),
      fingerspellItem ASL_LETTER_POSES ''world'']"
proof -
  have "normalizeWords ''hello world'' = [''hello'', ''world'']"
    by (simp add: string_defs)
  then show ?thesis
    by (simp add: glossItemsOf_def exampleMounted_def mounted_def textToSignGloss_scanWords
        getWordAnimations_def getLetterPoses_def getProperty_def ASL_WORD_ANIMATIONS_def
        Object_prototype_keys_def)
qed

lemma exampleMounted_fields:
  "\<not> playing exampleMounted" "signMode exampleMounted = Signs" "timeouts exampleMounted = []"
  "intervals exampleMounted = []" "nextHandle exampleMounted = 1"
  "lipSyncIntervalRef exampleMounted = None" "timerRef exampleMounted = None"
  "currentItemIndex exampleMounted = 0" "currentKeyframe exampleMounted = 0"
  by (simp_all add: exampleMounted_def mounted_def)

lemma render_example:
  "c_glossItems (render exampleMounted) =
     [wordItem ''hello'' (Some (Animation ASL_sign_hello)),
      fingerspellItem ASL_LETTER_POSES ''world'']"
  "c_currentItemIndex (render exampleMounted) = 0" "c_currentKeyframe (render exampleMounted) = 0"
  "c_speed (render exampleMounted) = 1" "c_signMode (render exampleMounted) = Signs"
  by (simp_all add: render_def glossItems_example) (simp_all add: exampleMounted_def mounted_def)

lemma firstDelay_example:
  "firstDelay (itemAt (c_glossItems (render exampleMounted))
     (c_currentItemIndex (render exampleMounted))) = 400"
  by (simp add: render_example itemAt_def firstDelay_def wordItem_def ASL_sign_hello_def
      durationOr_def)

lemma examplePlaying_fields:
  "playing examplePlaying" "timerRef examplePlaying = Some 2"
  "lipSyncIntervalRef examplePlaying = Some 1"
  "timeouts examplePlaying =
     [\<lparr> timeout_id = 2, timeout_delay = 400, timeout_closure = render exampleMounted \<rparr>]"
  "intervals examplePlaying = [\<lparr> interval_id = 1, interval_closure = render exampleMounted \<rparr>]"
  "nextHandle examplePlaying = 3" "currentKeyframe examplePlaying = 0"
  by (simp_all add: examplePlaying_def startPlaying_def startLipSync_def schedule_def Let_def
      exampleMounted_fields firstDelay_example render_example(4))

lemma step_example_play: "step ClickPlay exampleMounted = Some examplePlaying"
  by (simp add: totalItems_def glossItems_example exampleMounted_fields examplePlaying_def)

lemma run_example_play: "run [ClickPlay] exampleMounted = Some examplePlaying"
  by (simp only: run.simps step_example_play option.case)

lemma advancePlayback_example:
  "advancePlayback (render exampleMounted) (examplePlaying\<lparr>timeouts := []\<rparr>) =
     Inr (schedule (render exampleMounted) 350
            (examplePlaying\<lparr>timeouts := [], currentKeyframe := 1\<rparr>))"
  by (simp add: advancePlayback_def render_example itemAt_def wordItem_def ASL_sign_hello_def
      durationOr_def examplePlaying_fields Let_def)

lemma step_example_fire:
  "step (TimeoutFires 2) examplePlaying =
     Some (schedule (render exampleMounted) 350
             (examplePlaying\<lparr>timeouts := [], currentKeyframe := 1\<rparr>))"
  by (simp add: examplePlaying_fields advancePlayback_example Let_def)

lemma run_example_advance:
  "\<exists>s. run [ClickPlay, TimeoutFires 2] exampleMounted = Some s \<and>
       map timeout_id (timeouts s) = [3] \<and> map timeout_delay (timeouts s) = [350] \<and>
       timerRef s = Some 3 \<and> playing s \<and> currentKeyframe s = 1"
proof -
  have "run [ClickPlay, TimeoutFires 2] exampleMounted =
          Some (schedule (render exampleMounted) 350
                  (examplePlaying\<lparr>timeouts := [], currentKeyframe := 1\<rparr>))"
    by (simp only: run.simps step_example_play step_example_fire option.case)
  then show ?thesis
    by (simp add: schedule_def examplePlaying_fields)
qed

lemma startPlaying_from_idle:
  assumes "timersOK s" "step ClickPlay s = Some s'"
  shows "timeouts s = [] \<and> length (timeouts s') = 1"
proof -
  from assms(2) have idle: "\<not> playing s" and s': "s' = startPlaying (render s) s"
    by (auto split: if_splits)
  from assms(1) idle have none: "timeouts s = []" by (auto simp: timersOK_def)
  then have "length (timeouts s') = 1"
    unfolding s'
    by (simp add: startPlaying_def startLipSync_def schedule_def Let_def cancel_def
        split: option.splits)
  with none show ?thesis by simp
qed

lemma advancePlayback_after_firing:
  assumes "timersOK s" "step (TimeoutFires h) s = Some s'"
  shows "filter (\<lambda>u. timeout_id u \<noteq> h) (timeouts s) = [] \<and> length (timeouts s') \<le> 1"
proof -
  from assms(2) obtain u where f: "find (\<lambda>u. timeout_id u = h) (timeouts s) = Some u"
    by (cases "find (\<lambda>u. timeout_id u = h) (timeouts s)") auto
  from find_SomeD [OF f] have u: "u \<in> set (timeouts s)" "timeout_id u = h" by simp_all
  from assms(1) have "length (timeouts s) \<le> 1" by (simp add: timersOK_def)
  with u(1) have "timeouts s = [u]" by (cases "timeouts s") auto
  with u(2) have "filter (\<lambda>u. timeout_id u \<noteq> h) (timeouts s) = []" by simp
  moreover from step_ok [OF assms] have "length (timeouts s') \<le> 1" by (simp add: timersOK_def)
  ultimately show ?thesis by simp
qed

text \<open>
  Claim C1. In every state that the mounted component reaches through its events,
  at most one advancement timeout is pending; it is the one whose handle
  \<open>timerRef\<close> holds, none is pending while idle, and \<open>stopPlaying\<close> leaves none
  pending. A new advancement cycle begins with no timeout pending and ends with
  one: whenever \<open>startPlaying\<close> runs (a click on Play, which is offered only while
  idle) no timeout is pending before it schedules its own, and whenever
  \<open>advancePlayback\<close> runs (as the callback of the timeout that has just fired) no
  other timeout is pending, so that it leaves at most the one it schedules. The
  pending timeout is cancelled by \<open>clearTimer\<close> in \<open>stopPlaying\<close>, on Pause, on
  Reset and at the end of the sequence.
\<close>

theorem at_most_one_pending_timer:
  assumes "run evs (mounted t e n) = Some s"
  shows "length (timeouts s) \<le> 1 \<and>
         (\<forall>u \<in> set (timeouts s). timerRef s = Some (timeout_id u)) \<and>
         (\<not> playing s \<longrightarrow> timeouts s = []) \<and>
         timeouts (stopPlaying s) = [] \<and>
         (\<forall>s'. step ClickPlay s = Some s' \<longrightarrow> timeouts s = [] \<and> length (timeouts s') = 1) \<and>
         (\<forall>h s'. step (TimeoutFires h) s = Some s' \<longrightarrow>
            filter (\<lambda>u. timeout_id u \<noteq> h) (timeouts s) = [] \<and> length (timeouts s') \<le> 1)"
proof -
  have ok: "timersOK s" using reachable_ok [OF assms] .
  then have "timeouts (stopPlaying s) = []" using stopPlaying_stops by blast
  moreover from ok have "length (timeouts s) \<le> 1 \<and>
         (\<forall>u \<in> set (timeouts s). timerRef s = Some (timeout_id u)) \<and>
         (\<not> playing s \<longrightarrow> timeouts s = [])"
    by (auto simp: timersOK_def)
  ultimately show ?thesis
    using startPlaying_from_idle [OF ok] advancePlayback_after_firing [OF ok] by blast
qed

theorem at_most_one_pending_timer_witness:
  "(\<exists>s. run [ClickPlay, TimeoutFires 2] (mounted ''hello world'' False 0) = Some s \<and>
       playing s \<and> currentKeyframe s = 1 \<and> timerRef s = Some 3 \<and>
       length (timeouts s) \<le> 1 \<and> timeouts (stopPlaying s) = []) \<and>
   timeouts (mounted ''hello world'' False 0) = [] \<and>
   step ClickPlay (mounted ''hello world'' False 0) = Some examplePlaying \<and>
   length (timeouts examplePlaying) = 1 \<and>
   (\<exists>s'. step (TimeoutFires 2) examplePlaying = Some s' \<and> length (timeouts s') \<le> 1)"
proof -
  from run_example_advance obtain s where
    s: "run [ClickPlay, TimeoutFires 2] (mounted ''hello world'' False 0) = Some s"
       "playing s" "currentKeyframe s = 1" "timerRef s = Some 3"
    unfolding exampleMounted_def by blast
  have r0: "run [] (mounted ''hello world'' False 0) = Some (mounted ''hello world'' False 0)"
    by simp
  have p: "step ClickPlay (mounted ''hello world'' False 0) = Some examplePlaying"
    using step_example_play by (simp only: exampleMounted_def)
  have r1: "run [ClickPlay] (mounted ''hello world'' False 0) = Some examplePlaying"
    using run_example_play by (simp only: exampleMounted_def)
  obtain s' where f: "step (TimeoutFires 2) examplePlaying = Some s'"
    using step_example_fire by blast
  from at_most_one_pending_timer [OF s(1)] at_most_one_pending_timer [OF r0]
    at_most_one_pending_timer [OF r1] s p f
  show ?thesis by blast
qed

section \<open>Step, jump and reset\<close>

lemma glossItems_examplePlaying: "glossItemsOf examplePlaying = glossItemsOf exampleMounted"
  by (simp add: glossItemsOf_def examplePlaying_def startPlaying_def startLipSync_def
      schedule_def Let_def exampleMounted_fields)

text \<open>
  Claim C7, as stated, fails for \<open>reset\<close>: on the playing example, where one
  timeout and the sampler's interval are pending, \<open>reset\<close> clears the playing flag
  and cancels both.
\<close>

theorem reset_changes_playback:
  "playing examplePlaying \<and> \<not> playing (reset examplePlaying) \<and>
   length (timeouts examplePlaying) = 1 \<and> timeouts (reset examplePlaying) = [] \<and>
   length (intervals examplePlaying) = 1 \<and> intervals (reset examplePlaying) = [] \<and>
   \<not> samePlayback examplePlaying (reset examplePlaying)"
  by (simp add: reset_def stopPlaying_def clearTimer_def stopLipSync_def cancel_def Let_def
      samePlayback_def examplePlaying_fields)

text \<open>
  Claim C7, amended. \<open>stepForward\<close>, \<open>stepBackward\<close> and the jump to an item
  leave the playback state (the playing flag, the advancement timer, the lip-sync
  sampler) exactly as it was, in every state, playing or idle, and change nothing
  but the item index, the keyframe and the letter index; the displayed pose follows
  from these in the effect after the rendering. \<open>reset\<close> is different: it stops
  playback. In every state the component reaches, after \<open>reset\<close> the flag is
  clear and no timeout and no interval is pending; and in every state \<open>reset\<close>
  returns to item 0, keyframe 0, letter 0, the rest pose, the rest viseme and a
  zero head tilt.
\<close>

theorem step_operations_keep_playback:
  "samePlayback s (stepForward c s) \<and> onlyPositionChanged s (stepForward c s) \<and>
   samePlayback s (stepBackward c s) \<and> onlyPositionChanged s (stepBackward c s) \<and>
   samePlayback s (jumpTo idx s) \<and> onlyPositionChanged s (jumpTo idx s) \<and>
   currentItemIndex (reset s) = 0 \<and> currentKeyframe (reset s) = 0 \<and>
   currentLetterIndex (reset s) = 0 \<and> currentPose (reset s) = REST_POSE \<and>
   currentViseme (reset s) = viseme_rest \<and>
   headTilt (reset s) = \<lparr> tilt_x = 0, tilt_y = 0, tilt_z = 0 \<rparr> \<and>
   (run evs (mounted t e n) = Some s \<longrightarrow>
      \<not> playing (reset s) \<and> timeouts (reset s) = [] \<and> intervals (reset s) = [])"
proof -
  have "\<not> playing (reset s) \<and> timeouts (reset s) = [] \<and> intervals (reset s) = []"
    if "run evs (mounted t e n) = Some s"
    using reset_stops [OF reachable_ok [OF that]] by simp
  then show ?thesis
    using samePlayback_step_ops [of s] onlyPositionChanged_step_ops [of s] reset_position [of s]
    by blast
qed

theorem step_operations_keep_playback_witness:
  "samePlayback examplePlaying (stepForward (render examplePlaying) examplePlaying) \<and>
   playing (stepForward (render examplePlaying) examplePlaying) \<and>
   currentItemIndex (stepForward (render examplePlaying) examplePlaying) = 1 \<and>
   length (timeouts (stepForward (render examplePlaying) examplePlaying)) = 1 \<and>
   samePlayback exampleMounted (jumpTo 1 exampleMounted) \<and>
   \<not> playing (jumpTo 1 exampleMounted) \<and>
   \<not> playing (reset examplePlaying) \<and> timeouts (reset examplePlaying) = [] \<and>
   intervals (reset examplePlaying) = []"
proof -
  have r: "run [ClickPlay] (mounted ''hello world'' False 0) = Some examplePlaying"
    using run_example_play by (simp add: exampleMounted_def)
  have i: "currentItemIndex (stepForward (render examplePlaying) examplePlaying) = 1"
    by (simp add: stepForward_def render_def glossItems_examplePlaying glossItems_example
        nextItem_def)
       (simp add: examplePlaying_def startPlaying_def startLipSync_def schedule_def Let_def
        exampleMounted_def mounted_def)
  from step_operations_keep_playback [of examplePlaying "render examplePlaying" 1 "[ClickPlay]"
      "''hello world''" False 0]
    step_operations_keep_playback [of exampleMounted "render exampleMounted" 1]
    r i
  show ?thesis
    by (simp add: samePlayback_def examplePlaying_fields exampleMounted_fields)
qed

end
